theory Spec2Isabelle
  imports Main
begin

section \<open>JavaScript values and string built-ins\<close>

text \<open>
  Strings are sequences of code units below 256 (the Latin-1 range): that is what Node
  delivers for header values, and it is the range on which the case mappings below are
  exact. A request body field that is not a string at run time (the tests pass
  \<^verbatim>\<open>{ name: 123 }\<close>) is a value of \<open>jsval\<close>; numbers are the integral ones.
\<close>

datatype jsval =
    JUndefined
  | JNull
  | JBool bool
  | JNum int
  | JString string
  | JArray "jsval list"
  | JObject "(string \<times> jsval) list"

text \<open>\<^verbatim>\<open>typeof v === 'string'\<close>\<close>

fun is_string :: "jsval \<Rightarrow> bool" where
  "is_string (JString s) = True"
| "is_string v = False"

text \<open>
  White space and line terminators of ECMAScript that lie below 256: TAB, LF, VT, FF, CR,
  SP and NBSP. \<^verbatim>\<open>String.prototype.trim\<close> removes them at both ends.
\<close>

definition isWhiteSpace :: "char \<Rightarrow> bool" where
  "isWhiteSpace c \<longleftrightarrow> (of_char c :: nat) \<in> {9, 10, 11, 12, 13, 32, 160}"

definition String_trimStart :: "string \<Rightarrow> string" where
  "String_trimStart s = dropWhile isWhiteSpace s"

definition String_trimEnd :: "string \<Rightarrow> string" where
  "String_trimEnd s = rev (dropWhile isWhiteSpace (rev s))"

definition String_trim :: "string \<Rightarrow> string" where
  "String_trim s = String_trimEnd (String_trimStart s)"

text \<open>
  \<^verbatim>\<open>toLowerCase\<close> on Latin-1: A to Z, and the accented capitals 0xC0 to 0xDE without the
  multiplication sign 0xD7, move up by 32.
\<close>

definition toLower_char :: "char \<Rightarrow> char" where
  "toLower_char c =
     (let n = (of_char c :: nat) in
      if (65 \<le> n \<and> n \<le> 90) \<or> (192 \<le> n \<and> n \<le> 222 \<and> n \<noteq> 215)
      then char_of (n + 32) else c)"

definition String_toLowerCase :: "string \<Rightarrow> string" where
  "String_toLowerCase s = map toLower_char s"

text \<open>
  \<^verbatim>\<open>toUpperCase\<close> on Latin-1: a to z and 0xE0 to 0xFE without the division sign 0xF7 move
  down by 32, and sharp s (0xDF) becomes the two letters SS. The capitals of 0xB5 and 0xFF
  lie outside Latin-1; they are left in place here, which cannot turn a string into one of
  the ASCII method names.
\<close>

definition toUpper_char :: "char \<Rightarrow> string" where
  "toUpper_char c =
     (let n = (of_char c :: nat) in
      if (97 \<le> n \<and> n \<le> 122) \<or> (224 \<le> n \<and> n \<le> 254 \<and> n \<noteq> 247)
      then [char_of (n - 32)]
      else if n = 223 then ''SS'' else [c])"

definition String_toUpperCase :: "string \<Rightarrow> string" where
  "String_toUpperCase s = concat (map toUpper_char s)"

text \<open>
  \<^verbatim>\<open>s.split(c)\<close> for a one-character separator: the pieces between the separators, in
  order; never an empty array.
\<close>

fun String_split :: "char \<Rightarrow> string \<Rightarrow> string list" where
  "String_split c [] = [[]]"
| "String_split c (x # xs) =
     (if x = c then [] # String_split c xs
      else (case String_split c xs of
              [] \<Rightarrow> [[x]]
            | p # ps \<Rightarrow> (x # p) # ps))"

text \<open>\<^verbatim>\<open>s.startsWith(p)\<close> and \<^verbatim>\<open>s.includes(p)\<close>\<close>

definition String_startsWith :: "string \<Rightarrow> string \<Rightarrow> bool" where
  "String_startsWith s p \<longleftrightarrow> take (length p) s = p"

fun String_includes :: "string \<Rightarrow> string \<Rightarrow> bool" where
  "String_includes [] p = (p = [])"
| "String_includes (x # xs) p =
     (String_startsWith (x # xs) p \<or> String_includes xs p)"

text \<open>
  \<^verbatim>\<open>s.replace(/^["']|["']$/g, '')\<close>: a quote at the very start is removed, then a quote
  at the very end of what is left.
\<close>

definition isQuote :: "char \<Rightarrow> bool" where
  "isQuote c \<longleftrightarrow> c = CHR 0x22 \<or> c = CHR 0x27"

definition strip_quotes :: "string \<Rightarrow> string" where
  "strip_quotes s =
     (let s1 = (case s of [] \<Rightarrow> [] | c # cs \<Rightarrow> if isQuote c then cs else s)
      in if s1 \<noteq> [] \<and> isQuote (last s1) then butlast s1 else s1)"

section \<open>Content-Type and charset validation (validate-content-type.ts)\<close>

record error_body =
  statusCode :: int
  error :: string
  message :: string

text \<open>
  The value of \<^verbatim>\<open>req.headers['content-type']\<close>: absent, one string, or an array of
  strings.
\<close>

datatype header = Absent | Single string | Multi "string list"

record request =
  req_method :: string
  req_content_type :: header

definition BODY_METHODS :: "string list" where
  "BODY_METHODS = [''POST'', ''PATCH'', ''PUT'']"

definition CONTENT_TYPE_JSON :: string where
  "CONTENT_TYPE_JSON = ''application/json''"

definition SUPPORTED_CHARSETS :: "string list" where
  "SUPPORTED_CHARSETS = [''utf-8'', ''utf8'']"

definition CONTENT_TYPE_ERROR_BODY :: error_body where
  "CONTENT_TYPE_ERROR_BODY =
     \<lparr> statusCode = 400, error = ''Bad Request'',
       message = ''Content-Type must be application/json. Send the request body in JSON format.'' \<rparr>"

definition CHARSET_ERROR_BODY :: error_body where
  "CHARSET_ERROR_BODY =
     \<lparr> statusCode = 400, error = ''Bad Request'',
       message = ''Unsupported or invalid encoding. Use an encoding that can be decoded (e.g. UTF-8: Content-Type: application/json; charset=utf-8).'' \<rparr>"

text \<open>The local constants of \<^verbatim>\<open>getContentTypeValidationError\<close>, one definition each.\<close>

definition contentType_of :: "header \<Rightarrow> string" where
  "contentType_of h =
     (case h of
        Single s \<Rightarrow> s
      | Multi (s # ss) \<Rightarrow> s
      | _ \<Rightarrow> [])"

definition normalized_of :: "string \<Rightarrow> string" where
  "normalized_of contentType =
     String_toLowerCase (String_trim (hd (String_split CHR '';'' contentType)))"

definition charsetPart_of :: "string \<Rightarrow> string option" where
  "charsetPart_of contentType =
     find (\<lambda>p. String_startsWith (String_toLowerCase (String_trim p)) ''charset='')
          (drop 1 (String_split CHR '';'' contentType))"

definition charset_of :: "string \<Rightarrow> string" where
  "charset_of charsetPart =
     (let rawCharset = (case String_split CHR ''='' charsetPart of
                          a # b # rest \<Rightarrow> b
                        | _ \<Rightarrow> [])
      in strip_quotes (String_toLowerCase (String_trim rawCharset)))"

definition getContentTypeValidationError :: "request \<Rightarrow> error_body option" where
  "getContentTypeValidationError req =
     (let method = String_toUpperCase (req_method req) in
      if method \<notin> set BODY_METHODS then None
      else
        let contentType = contentType_of (req_content_type req) in
        if String_trim contentType = [] then Some CONTENT_TYPE_ERROR_BODY
        else if normalized_of contentType \<noteq> CONTENT_TYPE_JSON then Some CONTENT_TYPE_ERROR_BODY
        else
          (case charsetPart_of contentType of
             None \<Rightarrow> None
           | Some charsetPart \<Rightarrow>
               let charset = charset_of charsetPart in
               if charset \<noteq> [] \<and> charset \<notin> set SUPPORTED_CHARSETS
               then Some CHARSET_ERROR_BODY
               else None))"

text \<open>
  The extraction of the charset value in the order the specification words it:
  surrounding quotes stripped, then trimmed, then lower-cased. The code above trims
  first, then lower-cases, and strips the quotes last.
\<close>

definition charset_as_specified :: "string \<Rightarrow> string" where
  "charset_as_specified rawCharset = String_toLowerCase (String_trim (strip_quotes rawCharset))"

section \<open>Exceptions and the boundary filter (json-parse-exception.filter.ts)\<close>

text \<open>
  A thrown value, by what the filter can observe of it. An \<open>HttpException\<close> carries
  the status of \<^verbatim>\<open>getStatus()\<close>, the body of \<^verbatim>\<open>getResponse()\<close> and its message; a
  \<open>SyntaxError\<close> and any other thrown object carry whatever \<^verbatim>\<open>message\<close>,
  \<^verbatim>\<open>statusCode\<close> and \<^verbatim>\<open>status\<close> properties they have. A thrown primitive other than
  \<^verbatim>\<open>null\<close> and \<^verbatim>\<open>undefined\<close> has none of the three properties and is an \<open>OtherError\<close>
  with all of them undefined. \<^verbatim>\<open>throw null\<close> and \<^verbatim>\<open>throw undefined\<close> are values of their
  own: reading a property of them raises a \<open>TypeError\<close>.
\<close>

datatype exception =
    HttpException int jsval string
  | SyntaxError jsval jsval jsval
  | OtherError jsval jsval jsval
  | ThrownNull
  | ThrownUndefined

fun is_HttpException :: "exception \<Rightarrow> bool" where
  "is_HttpException (HttpException st body msg) = True"
| "is_HttpException e = False"

fun is_SyntaxError :: "exception \<Rightarrow> bool" where
  "is_SyntaxError (SyntaxError msg sc st) = True"
| "is_SyntaxError e = False"

text \<open>
  The exception classes of the framework that the service and the guard raise:
  \<^verbatim>\<open>new BadRequestException(msg)\<close> has status 400 and the body
  \<^verbatim>\<open>{ message, error: 'Bad Request', statusCode: 400 }\<close>, \<^verbatim>\<open>new NotFoundException(msg)\<close>
  status 404 likewise. A \<open>TypeError\<close> of the engine is an ordinary error object.
\<close>

definition BadRequestException :: "string \<Rightarrow> exception" where
  "BadRequestException msg =
     HttpException 400
       (JObject [(''message'', JString msg), (''error'', JString ''Bad Request''),
                 (''statusCode'', JNum 400)]) msg"

definition NotFoundException :: "string \<Rightarrow> exception" where
  "NotFoundException msg =
     HttpException 404
       (JObject [(''message'', JString msg), (''error'', JString ''Not Found''),
                 (''statusCode'', JNum 404)]) msg"

definition TypeError :: "string \<Rightarrow> exception" where
  "TypeError msg = OtherError (JString msg) JUndefined JUndefined"

text \<open>
  The property reads \<^verbatim>\<open>exception.message\<close>, \<^verbatim>\<open>exception.statusCode\<close> and
  \<^verbatim>\<open>exception.status\<close>: the value of the property, or the \<open>TypeError\<close> that the engine
  raises when the thrown value is \<^verbatim>\<open>null\<close> or \<^verbatim>\<open>undefined\<close>, with the message
  \<^verbatim>\<open>Cannot read properties of null (reading 'message')\<close>.
\<close>

definition read_error :: "string \<Rightarrow> string \<Rightarrow> exception" where
  "read_error v prop =
     TypeError (''Cannot read properties of '' @ v @ '' (reading '' @ [CHR 0x27] @ prop @
                [CHR 0x27, CHR 0x29])"

fun exn_message :: "exception \<Rightarrow> exception + jsval" where
  "exn_message (HttpException st body msg) = Inr (JString msg)"
| "exn_message (SyntaxError msg sc st) = Inr msg"
| "exn_message (OtherError msg sc st) = Inr msg"
| "exn_message ThrownNull = Inl (read_error ''null'' ''message'')"
| "exn_message ThrownUndefined = Inl (read_error ''undefined'' ''message'')"

fun exn_statusCode :: "exception \<Rightarrow> exception + jsval" where
  "exn_statusCode (HttpException st body msg) = Inr JUndefined"
| "exn_statusCode (SyntaxError msg sc st) = Inr sc"
| "exn_statusCode (OtherError msg sc st) = Inr sc"
| "exn_statusCode ThrownNull = Inl (read_error ''null'' ''statusCode'')"
| "exn_statusCode ThrownUndefined = Inl (read_error ''undefined'' ''statusCode'')"

fun exn_status :: "exception \<Rightarrow> exception + jsval" where
  "exn_status (HttpException st body msg) = Inr (JNum st)"
| "exn_status (SyntaxError msg sc st) = Inr st"
| "exn_status (OtherError msg sc st) = Inr st"
| "exn_status ThrownNull = Inl (read_error ''null'' ''status'')"
| "exn_status ThrownUndefined = Inl (read_error ''undefined'' ''status'')"

definition JSON_PARSE_ERROR_MESSAGE :: string where
  "JSON_PARSE_ERROR_MESSAGE = ''Request body must be valid JSON.''"

definition ENCODING_ERROR_MESSAGE :: string where
  "ENCODING_ERROR_MESSAGE =
     ''Request body could not be decoded. Use an encoding that can be decoded (e.g. UTF-8).''"

text \<open>\<^verbatim>\<open>typeof x.message === 'string' ? x.message : ''\<close>\<close>

fun string_or_empty :: "jsval \<Rightarrow> string" where
  "string_or_empty (JString s) = s"
| "string_or_empty v = []"

text \<open>
  \<^verbatim>\<open>isEncodingError\<close>: after the \<^verbatim>\<open>instanceof\<close> test the message is read without a
  check that the thrown value is an object.
\<close>

definition isEncodingError :: "exception \<Rightarrow> exception + bool" where
  "isEncodingError exception =
     (if is_HttpException exception then Inr False
      else
        (case exn_message exception of
           Inl err \<Rightarrow> Inl err
         | Inr m \<Rightarrow>
             let message = string_or_empty m;
                 lower = String_toLowerCase message
             in Inr (String_includes lower ''encoding'' \<or>
                     String_includes lower ''charset'' \<or>
                     String_includes lower ''decode'' \<or>
                     String_includes lower ''invalid utf'' \<or>
                     String_includes lower ''invalid character'' \<or>
                     String_includes lower ''invalid byte'' \<or>
                     (String_includes lower ''utf'' \<and> String_includes lower ''invalid''))))"

text \<open>\<^verbatim>\<open>a ?? b\<close>\<close>

fun nullish_or :: "jsval \<Rightarrow> jsval \<Rightarrow> jsval" where
  "nullish_or JUndefined b = b"
| "nullish_or JNull b = b"
| "nullish_or a b = a"

definition isJsonParseError :: "exception \<Rightarrow> exception + bool" where
  "isJsonParseError exception =
     (if is_SyntaxError exception then Inr True
      else if is_HttpException exception then Inr False
      else
        (case exn_statusCode exception of
           Inl err \<Rightarrow> Inl err
         | Inr sc \<Rightarrow>
        (case exn_status exception of
           Inl err \<Rightarrow> Inl err
         | Inr st \<Rightarrow>
        (case exn_message exception of
           Inl err \<Rightarrow> Inl err
         | Inr m \<Rightarrow>
             let status = nullish_or sc st;
                 message = string_or_empty m
             in if status = JNum 400 then
                  let lower = String_toLowerCase message
                  in Inr (String_includes lower ''json'' \<or>
                          String_includes lower ''unexpected token'' \<or>
                          String_includes lower ''parse'')
                else Inr False))))"

text \<open>What \<^verbatim>\<open>response.status(s).json(b)\<close> sends.\<close>

record response =
  res_status :: int
  res_body :: jsval

text \<open>
  \<^verbatim>\<open>JsonParseExceptionFilter.catch\<close>: the response it sends, or the error that leaves it
  when a classification raises one.
\<close>

definition catch :: "exception \<Rightarrow> exception + response" where
  "catch exception =
     (case isEncodingError exception of
        Inl err \<Rightarrow> Inl err
      | Inr encoding \<Rightarrow>
        if encoding then
          Inr \<lparr> res_status = 400,
                res_body = JObject [(''statusCode'', JNum 400), (''error'', JString ''Bad Request''),
                                    (''message'', JString ENCODING_ERROR_MESSAGE)] \<rparr>
        else
          (case isJsonParseError exception of
             Inl err \<Rightarrow> Inl err
           | Inr json \<Rightarrow>
             if json then
               Inr \<lparr> res_status = 400,
                     res_body = JObject [(''statusCode'', JNum 400), (''error'', JString ''Bad Request''),
                                         (''message'', JString JSON_PARSE_ERROR_MESSAGE)] \<rparr>
             else
               (case exception of
                  HttpException status body msg \<Rightarrow> Inr \<lparr> res_status = status, res_body = body \<rparr>
                | _ \<Rightarrow>
                  Inr \<lparr> res_status = 500,
                        res_body = JObject [(''statusCode'', JNum 500),
                                            (''error'', JString ''Internal Server Error''),
                                            (''message'', JString ''An unexpected error occurred.'')] \<rparr>)))"

text \<open>
  \<^verbatim>\<open>JsonContentTypeGuard.canActivate\<close>: the validation error becomes a
  \<open>BadRequestException\<close> with the same message.
\<close>

definition canActivate :: "request \<Rightarrow> exception + bool" where
  "canActivate req =
     (case getContentTypeValidationError req of
        Some err \<Rightarrow> Inl (BadRequestException (message err))
      | None \<Rightarrow> Inr True)"

section \<open>Dates\<close>

text \<open>
  A \<^verbatim>\<open>Date\<close> is its time value, the milliseconds since the epoch in UTC. The accessors
  follow the definitions of ECMAScript (Day, DayFromYear, YearFromTime, MonthFromTime,
  DateFromTime); \<open>YearFromTime\<close> finds the year from an estimate that is off by one at
  most.
\<close>

definition msPerDay :: int where
  "msPerDay = 86400000"

definition Day :: "int \<Rightarrow> int" where
  "Day t = t div msPerDay"

definition DaysInYear :: "int \<Rightarrow> int" where
  "DaysInYear y =
     (if y mod 4 \<noteq> 0 then 365
      else if y mod 100 \<noteq> 0 then 366
      else if y mod 400 \<noteq> 0 then 365
      else 366)"

definition DayFromYear :: "int \<Rightarrow> int" where
  "DayFromYear y =
     365 * (y - 1970) + (y - 1969) div 4 - (y - 1901) div 100 + (y - 1601) div 400"

definition YearFromDay :: "int \<Rightarrow> int" where
  "YearFromDay d =
     (let e = 1970 + (400 * d) div 146097 in
      if d < DayFromYear e then e - 1
      else if DayFromYear (e + 1) \<le> d then e + 1
      else e)"

definition YearFromTime :: "int \<Rightarrow> int" where
  "YearFromTime t = YearFromDay (Day t)"

definition InLeapYear :: "int \<Rightarrow> int" where
  "InLeapYear t = (if DaysInYear (YearFromTime t) = 366 then 1 else 0)"

definition DayWithinYear :: "int \<Rightarrow> int" where
  "DayWithinYear t = Day t - DayFromYear (YearFromTime t)"

definition MonthFromDay :: "int \<Rightarrow> int \<Rightarrow> int" where
  "MonthFromDay leap dwy =
     (if dwy < 31 then 0
      else if dwy < 59 + leap then 1
      else if dwy < 90 + leap then 2
      else if dwy < 120 + leap then 3
      else if dwy < 151 + leap then 4
      else if dwy < 181 + leap then 5
      else if dwy < 212 + leap then 6
      else if dwy < 243 + leap then 7
      else if dwy < 273 + leap then 8
      else if dwy < 304 + leap then 9
      else if dwy < 334 + leap then 10
      else 11)"

definition MonthStart :: "int \<Rightarrow> int \<Rightarrow> int" where
  "MonthStart leap m =
     (if m = 0 then 0
      else if m = 1 then 31
      else if m = 2 then 59 + leap
      else if m = 3 then 90 + leap
      else if m = 4 then 120 + leap
      else if m = 5 then 151 + leap
      else if m = 6 then 181 + leap
      else if m = 7 then 212 + leap
      else if m = 8 then 243 + leap
      else if m = 9 then 273 + leap
      else if m = 10 then 304 + leap
      else 334 + leap)"

definition MonthFromTime :: "int \<Rightarrow> int" where
  "MonthFromTime t = MonthFromDay (InLeapYear t) (DayWithinYear t)"

definition DateFromTime :: "int \<Rightarrow> int" where
  "DateFromTime t =
     DayWithinYear t - MonthStart (InLeapYear t) (MonthFromTime t) + 1"

definition getUTCFullYear :: "int \<Rightarrow> int" where
  "getUTCFullYear d = YearFromTime d"

definition getUTCMonth :: "int \<Rightarrow> int" where
  "getUTCMonth d = MonthFromTime d"

definition getUTCDate :: "int \<Rightarrow> int" where
  "getUTCDate d = DateFromTime d"

text \<open>\<^verbatim>\<open>String(n)\<close> for an integer and \<^verbatim>\<open>s.padStart(n, c)\<close>.\<close>

fun digits_of_nat :: "nat \<Rightarrow> string" where
  "digits_of_nat n =
     (if n < 10 then [char_of (48 + n)]
      else digits_of_nat (n div 10) @ [char_of (48 + n mod 10)])"

declare digits_of_nat.simps [simp del]

definition Number_toString :: "int \<Rightarrow> string" where
  "Number_toString i =
     (if i < 0 then CHR ''-'' # digits_of_nat (nat (- i)) else digits_of_nat (nat i))"

definition String_padStart :: "nat \<Rightarrow> char \<Rightarrow> string \<Rightarrow> string" where
  "String_padStart n c s = replicate (n - length s) c @ s"

text \<open>
  \<^verbatim>\<open>Date.parse\<close> belongs to the engine, so the service below takes the parser as a
  parameter: the time value, or \<open>None\<close> for NaN. \<open>Date_parse\<close> is the parser of Node's
  engine as far as the language fixes it: the date-only form (four digits, two digits, two
  digits) with month 1 to 12 and day 1 to 31 is UTC midnight of that day, where a day past
  the end of the month rolls over into the next one, and with any other month or day it is
  NaN. Every other string is read by the engine's own fallback, which is the parameter
  \<open>legacy\<close>.
\<close>

type_synonym date_parser = "string \<Rightarrow> int option"

definition isDigit :: "char \<Rightarrow> bool" where
  "isDigit c \<longleftrightarrow> 48 \<le> (of_char c :: nat) \<and> (of_char c :: nat) \<le> 57"

fun digits_value :: "string \<Rightarrow> int" where
  "digits_value [] = 0"
| "digits_value (c # cs) =
     (int (of_char c) - 48) * 10 ^ length cs + digits_value cs"

definition utc_midnight :: "int \<Rightarrow> int \<Rightarrow> int \<Rightarrow> int" where
  "utc_midnight y m d =
     msPerDay *
       (DayFromYear y + MonthStart (if DaysInYear y = 366 then 1 else 0) (m - 1) + d - 1)"

definition Date_parse :: "date_parser \<Rightarrow> date_parser" where
  "Date_parse legacy s =
     (case s of
        [y1, y2, y3, y4, h1, m1, m2, h2, d1, d2] \<Rightarrow>
          if list_all isDigit [y1, y2, y3, y4, m1, m2, d1, d2] \<and> h1 = CHR ''-'' \<and> h2 = CHR ''-''
          then
            let y = digits_value [y1, y2, y3, y4];
                m = digits_value [m1, m2];
                d = digits_value [d1, d2]
            in if 1 \<le> m \<and> m \<le> 12 \<and> 1 \<le> d \<and> d \<le> 31
               then Some (utc_midnight y m d) else None
          else legacy s
      | _ \<Rightarrow> legacy s)"

text \<open>
  The calendar, in the spec's words: a real calendar date has a month from 1 to 12 and a
  day from 1 to the length of that month in that year of the proleptic Gregorian
  calendar; its ISO form is \<open>YYYY-MM-DD\<close>, zero-padded.
\<close>

definition isLeapYear :: "int \<Rightarrow> bool" where
  "isLeapYear y \<longleftrightarrow> y mod 4 = 0 \<and> (y mod 400 = 0 \<or> y mod 100 \<noteq> 0)"

definition DaysInMonth :: "int \<Rightarrow> int \<Rightarrow> int" where
  "DaysInMonth y m =
     (if m = 2 then (if isLeapYear y then 29 else 28)
      else if m = 4 \<or> m = 6 \<or> m = 9 \<or> m = 11 then 30
      else 31)"

definition real_calendar_date :: "int \<Rightarrow> int \<Rightarrow> int \<Rightarrow> bool" where
  "real_calendar_date y m d \<longleftrightarrow> 1 \<le> m \<and> m \<le> 12 \<and> 1 \<le> d \<and> d \<le> DaysInMonth y m"

definition ISO_date_string :: "int \<Rightarrow> int \<Rightarrow> int \<Rightarrow> string" where
  "ISO_date_string y m d =
     String_padStart 4 CHR ''0'' (Number_toString y) @ ''-'' @
     String_padStart 2 CHR ''0'' (Number_toString m) @ ''-'' @
     String_padStart 2 CHR ''0'' (Number_toString d)"

section \<open>Items and the repository\<close>

text \<open>
  The entity. \<^verbatim>\<open>repository.create\<close> builds it without identifier and timestamps, which the
  first \<^verbatim>\<open>save\<close> assigns; \<open>name\<close> and \<open>description\<close> hold whatever value the
  service assigns to them.
\<close>

record item =
  item_id :: "string option"
  name :: jsval
  description :: jsval
  dateOfBirth :: "int option"
  sex :: string
  phoneNumber :: string
  address :: string
  createdAt :: "int option"
  updatedAt :: "int option"

text \<open>
  The payloads \<^verbatim>\<open>CreateItemDto\<close> and \<^verbatim>\<open>UpdateItemDto\<close> have the same six properties; an
  absent property is \<open>JUndefined\<close>.
\<close>

record item_dto =
  dto_name :: jsval
  dto_description :: jsval
  dto_dateOfBirth :: jsval
  dto_sex :: jsval
  dto_phoneNumber :: jsval
  dto_address :: jsval

type_synonym CreateItemDto = item_dto
type_synonym UpdateItemDto = item_dto

text \<open>
  Modelled from the spec: the persistence collaborator and the entity declaration
  (\<^verbatim>\<open>item.entity.ts\<close>) are not part of the sources. The store keeps the records by
  identifier; inserting assigns a generated identifier and sets both timestamps, saving a
  record that has an identifier replaces the stored one and refreshes \<open>updatedAt\<close>,
  removing deletes it. The store also logs the operations invoked on it, as the mock
  repository of the tests does.
\<close>

datatype repo_call =
    Call_create
  | Call_save item
  | Call_findOne string
  | Call_remove item

record repository =
  rows :: "item list"
  calls :: "repo_call list"
  clock :: int
  issued :: nat
  uuid_of :: "nat \<Rightarrow> string"

definition repo_create ::
  "jsval \<Rightarrow> jsval \<Rightarrow> int option \<Rightarrow> string \<Rightarrow> string \<Rightarrow> string \<Rightarrow> repository
     \<Rightarrow> item \<times> repository" where
  "repo_create n d dob s p a st =
     (\<lparr> item_id = None, name = n, description = d, dateOfBirth = dob, sex = s,
        phoneNumber = p, address = a, createdAt = None, updatedAt = None \<rparr>,
      st\<lparr> calls := calls st @ [Call_create] \<rparr>)"

definition repo_save :: "item \<Rightarrow> repository \<Rightarrow> item \<times> repository" where
  "repo_save it st =
     (case item_id it of
        None \<Rightarrow>
          let saved = it\<lparr> item_id := Some (uuid_of st (issued st)),
                         createdAt := Some (clock st), updatedAt := Some (clock st) \<rparr>
          in (saved, st\<lparr> rows := rows st @ [saved], calls := calls st @ [Call_save it],
                          clock := clock st + 1, issued := Suc (issued st) \<rparr>)
      | Some i \<Rightarrow>
          let saved = it\<lparr> updatedAt := Some (clock st) \<rparr>;
              rows' = (if \<exists>r \<in> set (rows st). item_id r = Some i
                       then map (\<lambda>r. if item_id r = Some i then saved else r) (rows st)
                       else rows st @ [saved])
          in (saved, st\<lparr> rows := rows', calls := calls st @ [Call_save it],
                          clock := clock st + 1 \<rparr>))"

definition repo_findOne :: "string \<Rightarrow> repository \<Rightarrow> item option \<times> repository" where
  "repo_findOne i st =
     (find (\<lambda>r. item_id r = Some i) (rows st), st\<lparr> calls := calls st @ [Call_findOne i] \<rparr>)"

definition repo_remove :: "item \<Rightarrow> repository \<Rightarrow> repository" where
  "repo_remove it st =
     st\<lparr> rows := filter (\<lambda>r. item_id r \<noteq> item_id it) (rows st),
         calls := calls st @ [Call_remove it] \<rparr>"

section \<open>The service (items.service.ts)\<close>

text \<open>
  \<^verbatim>\<open>UUID_REGEX\<close>: groups of 8, 4, 4, 4 and 12 hexadecimal digits of either case, separated
  by hyphens, and nothing else.
\<close>

definition isHexDigit :: "char \<Rightarrow> bool" where
  "isHexDigit c \<longleftrightarrow>
     (let n = (of_char c :: nat) in
      (48 \<le> n \<and> n \<le> 57) \<or> (97 \<le> n \<and> n \<le> 102) \<or> (65 \<le> n \<and> n \<le> 70))"

fun match_groups :: "nat list \<Rightarrow> string \<Rightarrow> bool" where
  "match_groups [] s = False"
| "match_groups [n] s = (length s = n \<and> list_all isHexDigit s)"
| "match_groups (n # ns) s =
     (list_all isHexDigit (take n s) \<and> length (take n s) = n \<and>
      (case drop n s of
         [] \<Rightarrow> False
       | c # rest \<Rightarrow> c = CHR ''-'' \<and> match_groups ns rest))"

definition UUID_REGEX_test :: "string \<Rightarrow> bool" where
  "UUID_REGEX_test s = match_groups [8, 4, 4, 4, 12] s"

definition isValidUuid :: "string \<Rightarrow> bool" where
  "isValidUuid v = UUID_REGEX_test v"

definition INVALID_DATE_OF_BIRTH_MESSAGE :: string where
  "INVALID_DATE_OF_BIRTH_MESSAGE = ''Invalid date of birth; use ISO date format (YYYY-MM-DD).''"

definition parseDateOfBirth :: "date_parser \<Rightarrow> jsval \<Rightarrow> int option" where
  "parseDateOfBirth parse v =
     (case v of
        JString s \<Rightarrow> if String_trim s = [] then None else parse (String_trim s)
      | _ \<Rightarrow> None)"

definition formatDateToISODateString :: "int \<Rightarrow> string" where
  "formatDateToISODateString d =
     (let y = getUTCFullYear d;
          m = getUTCMonth d + 1;
          day = getUTCDate d
      in Number_toString y @ ''-'' @ String_padStart 2 CHR ''0'' (Number_toString m)
           @ ''-'' @ String_padStart 2 CHR ''0'' (Number_toString day))"

definition isCalendarDateValid :: "string \<Rightarrow> int \<Rightarrow> bool" where
  "isCalendarDateValid inputTrimmed parsed \<longleftrightarrow>
     formatDateToISODateString parsed = inputTrimmed"

definition isDateOfBirthProvided :: "jsval \<Rightarrow> bool" where
  "isDateOfBirthProvided v =
     (case v of JString s \<Rightarrow> String_trim s \<noteq> [] | _ \<Rightarrow> False)"

text \<open>
  \<^verbatim>\<open>v.trim()\<close> on a run-time value: a \<open>TypeError\<close> unless \<open>v\<close> is a string. The first
  argument is the text of the expression as the engine prints it in its message;
  \<open>nullish_callee\<close> is that text for \<^verbatim>\<open>(e ?? '')\<close>, printed \<^verbatim>\<open>(e ?? "")\<close>.
\<close>

definition nullish_callee :: "string \<Rightarrow> string" where
  "nullish_callee e = CHR 0x28 # e @ '' ?? '' @ [CHR 0x22, CHR 0x22, CHR 0x29]"

definition trim_call :: "string \<Rightarrow> jsval \<Rightarrow> exception + string" where
  "trim_call expr v =
     (case v of
        JString s \<Rightarrow> Inr (String_trim s)
      | JUndefined \<Rightarrow> Inl (TypeError ''Cannot read properties of undefined (reading 'trim')'')
      | JNull \<Rightarrow> Inl (TypeError ''Cannot read properties of null (reading 'trim')'')
      | _ \<Rightarrow> Inl (TypeError (expr @ ''.trim is not a function'')))"

text \<open>The check on \<open>dateOfBirth\<close> that \<open>create\<close> and \<open>update\<close> both write out.\<close>

definition dateOfBirth_rejected :: "jsval \<Rightarrow> int option \<Rightarrow> bool" where
  "dateOfBirth_rejected v parsed =
     (if isDateOfBirthProvided v then
        let inputTrimmed = String_trim (string_or_empty v)
        in (case parsed of
              None \<Rightarrow> True
            | Some d \<Rightarrow> \<not> isCalendarDateValid inputTrimmed d)
      else False)"

definition create :: "date_parser \<Rightarrow> CreateItemDto \<Rightarrow> repository \<Rightarrow> (exception + item) \<times> repository" where
  "create parse dto st =
     (case dto_name dto of
        JString nm \<Rightarrow>
          if String_trim nm = [] then
            (Inl (BadRequestException ''name is required and must be a non-empty string''), st)
          else
            let dob = parseDateOfBirth parse (dto_dateOfBirth dto) in
            if dateOfBirth_rejected (dto_dateOfBirth dto) dob then
              (Inl (BadRequestException INVALID_DATE_OF_BIRTH_MESSAGE), st)
            else
              (case trim_call (nullish_callee ''dto.sex'') (nullish_or (dto_sex dto) (JString [])) of
                 Inl e \<Rightarrow> (Inl e, st)
               | Inr s \<Rightarrow>
              (case trim_call (nullish_callee ''dto.phoneNumber'') (nullish_or (dto_phoneNumber dto) (JString [])) of
                 Inl e \<Rightarrow> (Inl e, st)
               | Inr p \<Rightarrow>
              (case trim_call (nullish_callee ''dto.address'') (nullish_or (dto_address dto) (JString [])) of
                 Inl e \<Rightarrow> (Inl e, st)
               | Inr a \<Rightarrow>
                   let (it, st1) = repo_create (JString (String_trim nm))
                                     (nullish_or (dto_description dto) (JString []))
                                     dob s p a st;
                       (saved, st2) = repo_save it st1
                   in (Inr saved, st2))))
      | _ \<Rightarrow> (Inl (BadRequestException ''name is required and must be a non-empty string''), st))"

definition findOne :: "string \<Rightarrow> repository \<Rightarrow> (exception + item) \<times> repository" where
  "findOne i st =
     (if \<not> isValidUuid i then (Inl (BadRequestException ''Invalid UUID format''), st)
      else
        (case repo_findOne i st of
           (None, st1) \<Rightarrow>
             (Inl (NotFoundException (''Item with id '' @ [CHR 0x22] @ i @ [CHR 0x22] @ '' not found'')), st1)
         | (Some it, st1) \<Rightarrow> (Inr it, st1)))"

text \<open>
  The statements of \<open>update\<close> between loading and saving, one definition each; the
  last four can throw.
\<close>

definition update_name :: "UpdateItemDto \<Rightarrow> item \<Rightarrow> item" where
  "update_name dto it =
     (if dto_name dto \<noteq> JUndefined then it\<lparr> name := dto_name dto \<rparr> else it)"

definition update_description :: "UpdateItemDto \<Rightarrow> item \<Rightarrow> item" where
  "update_description dto it =
     (if dto_description dto \<noteq> JUndefined then it\<lparr> description := dto_description dto \<rparr>
      else it)"

definition update_dateOfBirth :: "date_parser \<Rightarrow> UpdateItemDto \<Rightarrow> item \<Rightarrow> exception + item" where
  "update_dateOfBirth parse dto it =
     (if dto_dateOfBirth dto \<noteq> JUndefined then
        let parsed = parseDateOfBirth parse (dto_dateOfBirth dto) in
        if dateOfBirth_rejected (dto_dateOfBirth dto) parsed
        then Inl (BadRequestException INVALID_DATE_OF_BIRTH_MESSAGE)
        else Inr (it\<lparr> dateOfBirth := parsed \<rparr>)
      else Inr it)"

definition update_sex :: "UpdateItemDto \<Rightarrow> item \<Rightarrow> exception + item" where
  "update_sex dto it =
     (if dto_sex dto \<noteq> JUndefined then
        (case trim_call ''dto.sex'' (dto_sex dto) of
           Inl e \<Rightarrow> Inl e
         | Inr s \<Rightarrow> Inr (it\<lparr> sex := s \<rparr>))
      else Inr it)"

definition update_phoneNumber :: "UpdateItemDto \<Rightarrow> item \<Rightarrow> exception + item" where
  "update_phoneNumber dto it =
     (if dto_phoneNumber dto \<noteq> JUndefined then
        (case trim_call ''dto.phoneNumber'' (dto_phoneNumber dto) of
           Inl e \<Rightarrow> Inl e
         | Inr p \<Rightarrow> Inr (it\<lparr> phoneNumber := p \<rparr>))
      else Inr it)"

definition update_address :: "UpdateItemDto \<Rightarrow> item \<Rightarrow> exception + item" where
  "update_address dto it =
     (if dto_address dto \<noteq> JUndefined then
        (case trim_call ''dto.address'' (dto_address dto) of
           Inl e \<Rightarrow> Inl e
         | Inr a \<Rightarrow> Inr (it\<lparr> address := a \<rparr>))
      else Inr it)"

definition update :: "date_parser \<Rightarrow> string \<Rightarrow> UpdateItemDto \<Rightarrow> repository \<Rightarrow> (exception + item) \<times> repository" where
  "update parse i dto st =
     (case findOne i st of
        (Inl e, st1) \<Rightarrow> (Inl e, st1)
      | (Inr it, st1) \<Rightarrow>
          (case update_dateOfBirth parse dto (update_description dto (update_name dto it)) of
             Inl e \<Rightarrow> (Inl e, st1)
           | Inr it3 \<Rightarrow>
          (case update_sex dto it3 of
             Inl e \<Rightarrow> (Inl e, st1)
           | Inr it4 \<Rightarrow>
          (case update_phoneNumber dto it4 of
             Inl e \<Rightarrow> (Inl e, st1)
           | Inr it5 \<Rightarrow>
          (case update_address dto it5 of
             Inl e \<Rightarrow> (Inl e, st1)
           | Inr it6 \<Rightarrow>
               let (saved, st2) = repo_save it6 st1 in (Inr saved, st2))))))"

definition remove :: "string \<Rightarrow> repository \<Rightarrow> (exception + item) \<times> repository" where
  "remove i st =
     (case findOne i st of
        (Inl e, st1) \<Rightarrow> (Inl e, st1)
      | (Inr it, st1) \<Rightarrow> (Inr it, repo_remove it st1))"

section \<open>Fixtures of the unit tests (items.service.spec.ts)\<close>

text \<open>
  \<^verbatim>\<open>VALID_UUID\<close> and \<^verbatim>\<open>fullItem()\<close> as the tests define them, with a fixed instant for
  \<^verbatim>\<open>new Date()\<close>; the payload \<^verbatim>\<open>{}\<close>; and a store that holds the given records and
  generates the identifiers \<open>00000000-0000-4000-8000-000000000000\<close>,
  \<open>...-000000000001\<close> and so on.
\<close>

definition VALID_UUID :: string where
  "VALID_UUID = ''11111111-1111-1111-1111-111111111111''"

definition fullItem :: item where
  "fullItem =
     \<lparr> item_id = Some VALID_UUID, name = JString ''Test'', description = JString [],
       dateOfBirth = None, sex = [], phoneNumber = [], address = [],
       createdAt = Some 1771545600000, updatedAt = Some 1771545600000 \<rparr>"

definition empty_dto :: item_dto where
  "empty_dto =
     \<lparr> dto_name = JUndefined, dto_description = JUndefined, dto_dateOfBirth = JUndefined,
       dto_sex = JUndefined, dto_phoneNumber = JUndefined, dto_address = JUndefined \<rparr>"

definition uuid_of_nat :: "nat \<Rightarrow> string" where
  "uuid_of_nat n = ''00000000-0000-4000-8000-'' @ String_padStart 12 CHR ''0'' (digits_of_nat n)"

definition store_with :: "item list \<Rightarrow> repository" where
  "store_with rs =
     \<lparr> rows = rs, calls = [], clock = 1771545600001, issued = 0, uuid_of = uuid_of_nat \<rparr>"

section \<open>Properties of the Content-Type validation\<close>

lemma toUpperCase_body_methods:
  "String_toUpperCase ''POST'' = ''POST''"
  "String_toUpperCase ''PATCH'' = ''PATCH''"
  "String_toUpperCase ''PUT'' = ''PUT''"
  by code_simp+

lemma body_method_upper:
  assumes "m \<in> set BODY_METHODS"
  shows "String_toUpperCase m \<in> set BODY_METHODS"
  using assms toUpperCase_body_methods by (auto simp: BODY_METHODS_def)

lemma contentType_of_missing:
  "contentType_of Absent = []" "contentType_of (Multi []) = []"
  by (simp_all add: contentType_of_def)

lemma String_trim_Nil: "String_trim [] = []"
  by (simp add: String_trim_def String_trimStart_def String_trimEnd_def)

lemma String_split_no_sep: "c \<notin> set a \<Longrightarrow> String_split c a = [a]"
  by (induction a) auto

lemma String_split_append:
  "c \<notin> set a \<Longrightarrow> String_split c (a @ c # b) = a # String_split c b"
  by (induction a) auto

lemma String_trimStart_nonspace:
  "\<not> isWhiteSpace c \<Longrightarrow> String_trimStart (c # s) = c # s"
  by (simp add: String_trimStart_def)

lemma String_trimEnd_append:
  assumes "a \<noteq> []" and "\<not> isWhiteSpace (last a)"
  shows "String_trimEnd (a @ b) = a @ String_trimEnd b"
proof -
  have h: "dropWhile isWhiteSpace (rev a) = rev a"
    using assms by (cases "rev a") (auto simp: last_rev[symmetric] hd_rev)
  show ?thesis
    using h by (simp add: String_trimEnd_def dropWhile_append)
qed

lemma dropWhile_none: "\<forall>c \<in> set s. \<not> P c \<Longrightarrow> dropWhile P s = s"
  by (cases s) auto

lemma String_trim_no_space:
  assumes "\<forall>c \<in> set s. \<not> isWhiteSpace c"
  shows "String_trim s = s"
proof -
  have 1: "dropWhile isWhiteSpace s = s"
    using assms by (rule dropWhile_none)
  have "\<forall>c \<in> set (rev s). \<not> isWhiteSpace c"
    using assms by simp
  then have 2: "dropWhile isWhiteSpace (rev s) = rev s"
    by (rule dropWhile_none)
  show ?thesis
    by (simp add: String_trim_def String_trimStart_def String_trimEnd_def 1 2)
qed

lemma toLowerCase_append:
  "String_toLowerCase (a @ b) = String_toLowerCase a @ String_toLowerCase b"
  by (simp add: String_toLowerCase_def)


lemma nonspace_chars:
  "\<not> isWhiteSpace CHR ''a''" "\<not> isWhiteSpace CHR ''c''" "\<not> isWhiteSpace CHR ''=''"
  "isWhiteSpace CHR '' ''"
  by code_simp+

lemma normalized_json: "String_toLowerCase (String_trim ''application/json'') = ''application/json''"
  by code_simp

lemma lower_charset: "String_toLowerCase ''charset='' = ''charset=''"
  by code_simp

lemma String_split_two:
  "c \<notin> set a \<Longrightarrow> c \<notin> set b \<Longrightarrow> String_split c (a @ c # b) = [a, b]"
  by (simp add: String_split_append String_split_no_sep)

lemma charset_header_split:
  assumes "CHR '';'' \<notin> set v"
  shows "String_split CHR '';'' (''application/json; charset='' @ v)
           = [''application/json'', '' charset='' @ v]"
proof -
  have e: "''application/json; charset='' @ v
             = ''application/json'' @ CHR '';'' # ('' charset='' @ v)"
    by simp
  show ?thesis
    unfolding e using assms by (intro String_split_two) simp_all
qed

lemma charset_header_not_blank:
  "String_trim (''application/json; charset='' @ v) \<noteq> []"
proof -
  have "String_trimStart (''application/json; charset='' @ v) = ''application/json; charset='' @ v"
    using String_trimStart_nonspace[OF nonspace_chars(1)] by simp
  moreover have "String_trimEnd (''a'' @ (''pplication/json; charset='' @ v))
                   = ''a'' @ String_trimEnd (''pplication/json; charset='' @ v)"
    by (rule String_trimEnd_append) (simp_all add: nonspace_chars)
  ultimately show ?thesis
    by (simp add: String_trim_def)
qed

lemma charset_part_trim:
  "String_trim ('' charset='' @ v) = ''charset='' @ String_trimEnd v"
proof -
  have "String_trimStart ('' charset='' @ v) = ''charset='' @ v"
    by (simp add: String_trimStart_def nonspace_chars)
  moreover have "String_trimEnd (''charset='' @ v) = ''charset='' @ String_trimEnd v"
    by (rule String_trimEnd_append) (simp_all add: nonspace_chars)
  ultimately show ?thesis
    by (simp add: String_trim_def)
qed

lemma charset_header_part:
  assumes "CHR '';'' \<notin> set v"
  shows "charsetPart_of (''application/json; charset='' @ v) = Some ('' charset='' @ v)"
proof -
  have "String_startsWith (String_toLowerCase (String_trim ('' charset='' @ v))) ''charset=''"
    unfolding charset_part_trim toLowerCase_append lower_charset
    by (simp add: String_startsWith_def)
  then show ?thesis
    unfolding charsetPart_of_def charset_header_split[OF assms]
    by (simp only: drop_Suc_Cons drop_0 One_nat_def find.simps if_True)
qed

lemma charset_header_value:
  assumes "CHR ''='' \<notin> set v"
  shows "charset_of ('' charset='' @ v) = strip_quotes (String_toLowerCase (String_trim v))"
proof -
  have e: "'' charset='' @ v = '' charset'' @ CHR ''='' # v"
    by simp
  have "String_split CHR ''='' ('' charset='' @ v) = ['' charset'', v]"
    unfolding e using assms by (intro String_split_two) simp_all
  then show ?thesis
    unfolding charset_of_def by (simp only: list.case Let_def)
qed

lemma charset_header_normalized:
  assumes "CHR '';'' \<notin> set v"
  shows "normalized_of (''application/json; charset='' @ v) = ''application/json''"
  unfolding normalized_of_def charset_header_split[OF assms]
  by (simp only: list.sel normalized_json)


lemma charset_header_result:
  assumes "String_toUpperCase m \<in> set BODY_METHODS"
    and "CHR '';'' \<notin> set v" and "CHR ''='' \<notin> set v"
  shows "getContentTypeValidationError
           \<lparr> req_method = m, req_content_type = Single (''application/json; charset='' @ v) \<rparr>
         = (if strip_quotes (String_toLowerCase (String_trim v)) = [] \<or>
               strip_quotes (String_toLowerCase (String_trim v)) = ''utf-8'' \<or>
               strip_quotes (String_toLowerCase (String_trim v)) = ''utf8''
            then None else Some CHARSET_ERROR_BODY)"
  using assms(1)
  by (simp add: getContentTypeValidationError_def contentType_of_def Let_def
      charset_header_not_blank charset_header_normalized[OF assms(2)]
      charset_header_part[OF assms(2)] charset_header_value[OF assms(3)]
      CONTENT_TYPE_JSON_def SUPPORTED_CHARSETS_def
      del: append.simps String_split.simps)

lemma toLower_fixed:
  "toLower_char CHR '';'' = CHR '';''" "toLower_char CHR ''='' = CHR ''=''"
  by code_simp+

lemma toLower_space: "isWhiteSpace c \<Longrightarrow> toLower_char c = c"
  by (auto simp: isWhiteSpace_def toLower_char_def Let_def)

lemma utf8_spellings:
  "\<forall>c \<in> set ''utf-8''. \<not> isWhiteSpace c \<and> c \<noteq> CHR '';'' \<and> c \<noteq> CHR ''=''"
  "\<forall>c \<in> set ''utf8''. \<not> isWhiteSpace c \<and> c \<noteq> CHR '';'' \<and> c \<noteq> CHR ''=''"
  "strip_quotes ''utf-8'' = ''utf-8''" "strip_quotes ''utf8'' = ''utf8''"
  by code_simp+

lemma any_case_value:
  assumes l: "String_toLowerCase v = w"
    and w: "\<forall>c \<in> set w. \<not> isWhiteSpace c \<and> c \<noteq> CHR '';'' \<and> c \<noteq> CHR ''=''"
  shows "CHR '';'' \<notin> set v \<and> CHR ''='' \<notin> set v \<and> String_toLowerCase (String_trim v) = w"
proof -
  have img: "\<And>c. c \<in> set v \<Longrightarrow> toLower_char c \<in> set w"
    using l by (auto simp: String_toLowerCase_def)
  have 1: "CHR '';'' \<notin> set v"
    using img[of "CHR '';''"] w toLower_fixed by auto
  have 2: "CHR ''='' \<notin> set v"
    using img[of "CHR ''=''"] w toLower_fixed by auto
  have "\<forall>c \<in> set v. \<not> isWhiteSpace c"
  proof
    fix c assume c: "c \<in> set v"
    show "\<not> isWhiteSpace c"
    proof
      assume s: "isWhiteSpace c"
      then have "c \<in> set w" using img[OF c] by (simp add: toLower_space)
      with w s show False by blast
    qed
  qed
  then have "String_trim v = v" by (rule String_trim_no_space)
  with 1 2 l show ?thesis by simp
qed

lemma charset_utf8_any_case:
  assumes "String_toUpperCase m \<in> set BODY_METHODS"
    and "String_toLowerCase v = ''utf-8'' \<or> String_toLowerCase v = ''utf8''"
  shows "getContentTypeValidationError
           \<lparr> req_method = m, req_content_type = Single (''application/json; charset='' @ v) \<rparr>
         = None"
proof -
  from assms(2) obtain w where l: "String_toLowerCase v = w"
    and w: "\<forall>c \<in> set w. \<not> isWhiteSpace c \<and> c \<noteq> CHR '';'' \<and> c \<noteq> CHR ''=''"
    and sq: "strip_quotes w = w" and ww: "w = ''utf-8'' \<or> w = ''utf8''"
    using utf8_spellings by metis
  from any_case_value[OF l w] have a: "CHR '';'' \<notin> set v" "CHR ''='' \<notin> set v"
    and t: "String_toLowerCase (String_trim v) = w" by simp_all
  show ?thesis
    unfolding charset_header_result[OF assms(1) a] t sq
    using ww by auto
qed

lemma plain_json_header:
  "String_trim ''application/json'' \<noteq> []"
  "normalized_of ''application/json'' = ''application/json''"
  "charsetPart_of ''application/json'' = None"
  by code_simp+

lemma isWhiteSpace_iff:
  "isWhiteSpace c \<longleftrightarrow>
     c \<in> set [CHR 0x09, CHR 0x0A, CHR 0x0B, CHR 0x0C, CHR 0x0D, CHR 0x20, CHR 0xA0]"
proof -
  have inj: "inj (of_char :: char \<Rightarrow> nat)"
    by (rule injI) simp
  have "c \<in> set [CHR 0x09, CHR 0x0A, CHR 0x0B, CHR 0x0C, CHR 0x0D, CHR 0x20, CHR 0xA0] \<longleftrightarrow>
        (of_char c :: nat) \<in>
          of_char ` set [CHR 0x09, CHR 0x0A, CHR 0x0B, CHR 0x0C, CHR 0x0D, CHR 0x20, CHR 0xA0]"
    by (simp only: inj_image_mem_iff[OF inj])
  also have "\<dots> \<longleftrightarrow> (of_char c :: nat) \<in> {9, 10, 11, 12, 13, 32, 160}"
    by simp
  finally show ?thesis
    by (simp add: isWhiteSpace_def)
qed

lemma isQuote_iff: "isQuote c \<longleftrightarrow> (of_char c :: nat) \<in> {34, 39}"
proof -
  have a: "c = CHR 0x22 \<longleftrightarrow> (of_char c :: nat) = of_char (CHR 0x22)"
    by (simp only: of_char_eq_iff)
  have b: "c = CHR 0x27 \<longleftrightarrow> (of_char c :: nat) = of_char (CHR 0x27)"
    by (simp only: of_char_eq_iff)
  show ?thesis
    unfolding isQuote_def a b by simp
qed

lemma String_trim_eq_Nil: "String_trim s = [] \<longleftrightarrow> (\<forall>c \<in> set s. isWhiteSpace c)"
proof
  assume "String_trim s = []"
  then have "dropWhile isWhiteSpace (rev (dropWhile isWhiteSpace s)) = []"
    by (simp add: String_trim_def String_trimStart_def String_trimEnd_def)
  then have all: "\<forall>c \<in> set (dropWhile isWhiteSpace s). isWhiteSpace c"
    by (simp add: dropWhile_eq_Nil_conv)
  have "dropWhile isWhiteSpace s = []"
  proof (rule ccontr)
    assume n: "dropWhile isWhiteSpace s \<noteq> []"
    then have "\<not> isWhiteSpace (hd (dropWhile isWhiteSpace s))"
      by (rule hd_dropWhile)
    moreover have "hd (dropWhile isWhiteSpace s) \<in> set (dropWhile isWhiteSpace s)"
      using n by simp
    ultimately show False using all by blast
  qed
  then show "\<forall>c \<in> set s. isWhiteSpace c"
    by (simp add: dropWhile_eq_Nil_conv)
next
  assume "\<forall>c \<in> set s. isWhiteSpace c"
  then have d: "dropWhile isWhiteSpace s = []"
    by (simp add: dropWhile_eq_Nil_conv)
  show "String_trim s = []"
    unfolding String_trim_def String_trimStart_def String_trimEnd_def d by simp
qed

lemma String_trim_sandwich:
  assumes w1: "\<forall>c \<in> set ws1. isWhiteSpace c" and w2: "\<forall>c \<in> set ws2. isWhiteSpace c"
    and x: "x \<noteq> [] \<longrightarrow> \<not> isWhiteSpace (hd x) \<and> \<not> isWhiteSpace (last x)"
  shows "String_trim (ws1 @ x @ ws2) = x"
proof (cases "x = []")
  case True
  have "String_trim (ws1 @ ws2) = []"
    unfolding String_trim_eq_Nil using w1 w2 by auto
  then show ?thesis using True by simp
next
  case False
  then obtain c cs where xc: "x = c # cs" by (cases x) auto
  have c: "\<not> isWhiteSpace c" using x xc by simp
  have l: "\<not> isWhiteSpace (last x)" using x False by simp
  have 1: "dropWhile isWhiteSpace (ws1 @ x @ ws2) = x @ ws2"
    using w1 c by (simp add: dropWhile_append2 xc)
  have 2: "dropWhile isWhiteSpace (rev ws2 @ rev x) = rev x"
  proof -
    have "dropWhile isWhiteSpace (rev ws2 @ rev x) = dropWhile isWhiteSpace (rev x)"
      by (rule dropWhile_append2) (use w2 in auto)
    also have "\<dots> = rev x"
      using l False by (cases "rev x") (auto simp: last_rev[symmetric] hd_rev)
    finally show ?thesis .
  qed
  show ?thesis
    by (simp add: String_trim_def String_trimStart_def String_trimEnd_def 1 2)
qed

lemma strip_quotes_sandwich:
  assumes q1: "q1 = [] \<or> (\<exists>c. q1 = [c] \<and> isQuote c)"
    and q2: "q2 = [] \<or> (\<exists>c. q2 = [c] \<and> isQuote c)"
    and v: "v \<noteq> [] \<longrightarrow> \<not> isQuote (hd v) \<and> \<not> isQuote (last v)"
  shows "strip_quotes (q1 @ v @ q2) = v"
proof (cases "q1 = [] \<and> v = []")
  case True
  then show ?thesis
    using q2 by (auto simp: strip_quotes_def)
next
  case False
  have a: "(case q1 @ v @ q2 of [] \<Rightarrow> [] | c # cs \<Rightarrow> if isQuote c then cs else q1 @ v @ q2)
             = v @ q2"
  proof (cases "q1 = []")
    case q: False
    then show ?thesis using q1 by auto
  next
    case q: True
    then obtain c cs where "v = c # cs" using False by (cases v) auto
    then show ?thesis using q v by simp
  qed
  have b: "(if v @ q2 \<noteq> [] \<and> isQuote (last (v @ q2)) then butlast (v @ q2) else v @ q2) = v"
  proof (cases "q2 = []")
    case False
    then show ?thesis using q2 by auto
  next
    case True
    then show ?thesis using v by auto
  qed
  show ?thesis
    unfolding strip_quotes_def Let_def a b ..
qed

lemma toLower_quote: "isQuote c \<Longrightarrow> toLower_char c = c"
  by (auto simp: isQuote_iff toLower_char_def Let_def)

lemma toLower_not_quote: "\<not> isQuote c \<Longrightarrow> \<not> isQuote (toLower_char c)"
  by (auto simp: isQuote_iff toLower_char_def Let_def)

lemma toLower_not_space: "\<not> isWhiteSpace c \<Longrightarrow> \<not> isWhiteSpace (toLower_char c)"
  by (auto simp: isWhiteSpace_def toLower_char_def Let_def)

lemma space_not_sep: "isWhiteSpace c \<Longrightarrow> c \<noteq> CHR '';'' \<and> c \<noteq> CHR ''=''"
  by (auto simp: isWhiteSpace_def)

lemma quote_not_sep:
  "isQuote c \<Longrightarrow> c \<noteq> CHR '';'' \<and> c \<noteq> CHR ''='' \<and> \<not> isWhiteSpace c"
  by (auto simp: isQuote_def isWhiteSpace_def)

lemma lower_eq_chars:
  assumes l: "String_toLowerCase v = w"
    and w: "\<forall>c \<in> set w. \<not> isWhiteSpace c \<and> c \<noteq> CHR '';'' \<and> c \<noteq> CHR ''=''"
  shows "\<forall>c \<in> set v. \<not> isWhiteSpace c \<and> c \<noteq> CHR '';'' \<and> c \<noteq> CHR ''=''"
proof
  fix c assume c: "c \<in> set v"
  have img: "toLower_char c \<in> set w"
    using l c by (auto simp: String_toLowerCase_def)
  have 1: "c \<noteq> CHR '';''"
    using img w toLower_fixed by auto
  have 2: "c \<noteq> CHR ''=''"
    using img w toLower_fixed by auto
  have 3: "\<not> isWhiteSpace c"
  proof
    assume s: "isWhiteSpace c"
    then have "c \<in> set w" using img by (simp add: toLower_space)
    with w s show False by blast
  qed
  show "\<not> isWhiteSpace c \<and> c \<noteq> CHR '';'' \<and> c \<noteq> CHR ''=''"
    using 1 2 3 by simp
qed

lemma json_chars:
  "\<forall>c \<in> set ''application/json''. \<not> isWhiteSpace c \<and> c \<noteq> CHR '';'' \<and> c \<noteq> CHR ''=''"
  "\<forall>c \<in> set ''charset''. \<not> isWhiteSpace c \<and> c \<noteq> CHR '';'' \<and> c \<noteq> CHR ''=''"
  by code_simp+

lemma quoted_ends:
  assumes q1: "q1 = [] \<or> (\<exists>c. q1 = [c] \<and> isQuote c)"
    and q2: "q2 = [] \<or> (\<exists>c. q2 = [c] \<and> isQuote c)"
    and v: "v \<noteq> [] \<longrightarrow> \<not> isWhiteSpace (hd v) \<and> \<not> isWhiteSpace (last v)"
  shows "q1 @ v @ q2 \<noteq> [] \<longrightarrow>
           \<not> isWhiteSpace (hd (q1 @ v @ q2)) \<and> \<not> isWhiteSpace (last (q1 @ v @ q2))"
  using q1 q2 v quote_not_sep by (auto simp: hd_append)

lemma lower_quoted:
  assumes q1: "q1 = [] \<or> (\<exists>c. q1 = [c] \<and> isQuote c)"
    and q2: "q2 = [] \<or> (\<exists>c. q2 = [c] \<and> isQuote c)"
  shows "String_toLowerCase (q1 @ v @ q2) = q1 @ String_toLowerCase v @ q2"
  using q1 q2 toLower_quote by (auto simp: String_toLowerCase_def)

lemma lower_ends:
  assumes "v \<noteq> [] \<longrightarrow> \<not> isQuote (hd v) \<and> \<not> isQuote (last v)"
  shows "String_toLowerCase v \<noteq> [] \<longrightarrow>
           \<not> isQuote (hd (String_toLowerCase v)) \<and> \<not> isQuote (last (String_toLowerCase v))"
  using assms toLower_not_quote by (auto simp: String_toLowerCase_def hd_map last_map)

lemma charset_value_extracted:
  assumes w1: "\<forall>c \<in> set ws1. isWhiteSpace c" and w2: "\<forall>c \<in> set ws2. isWhiteSpace c"
    and q1: "q1 = [] \<or> (\<exists>c. q1 = [c] \<and> isQuote c)"
    and q2: "q2 = [] \<or> (\<exists>c. q2 = [c] \<and> isQuote c)"
    and v: "v \<noteq> [] \<longrightarrow> \<not> isWhiteSpace (hd v) \<and> \<not> isWhiteSpace (last v) \<and>
                          \<not> isQuote (hd v) \<and> \<not> isQuote (last v)"
  shows "strip_quotes (String_toLowerCase (String_trim (ws1 @ q1 @ v @ q2 @ ws2)))
           = String_toLowerCase v"
proof -
  have e: "ws1 @ q1 @ v @ q2 @ ws2 = ws1 @ (q1 @ v @ q2) @ ws2"
    by simp
  have t: "String_trim (ws1 @ (q1 @ v @ q2) @ ws2) = q1 @ v @ q2"
    using w1 w2 by (rule String_trim_sandwich) (rule quoted_ends[OF q1 q2], use v in blast)
  have s: "strip_quotes (q1 @ String_toLowerCase v @ q2) = String_toLowerCase v"
    using q1 q2 by (rule strip_quotes_sandwich) (rule lower_ends, use v in blast)
  show ?thesis
    unfolding e t lower_quoted[OF q1 q2] s ..
qed

lemma validation_unfold:
  assumes "String_toUpperCase m \<in> set BODY_METHODS"
  shows "getContentTypeValidationError \<lparr> req_method = m, req_content_type = Single h \<rparr> =
     (if String_trim h = [] then Some CONTENT_TYPE_ERROR_BODY
      else if normalized_of h \<noteq> ''application/json'' then Some CONTENT_TYPE_ERROR_BODY
      else
        (case charsetPart_of h of
           None \<Rightarrow> None
         | Some charsetPart \<Rightarrow>
             if charset_of charsetPart \<noteq> [] \<and> charset_of charsetPart \<noteq> ''utf-8'' \<and>
                charset_of charsetPart \<noteq> ''utf8''
             then Some CHARSET_ERROR_BODY else None))"
  using assms
  by (simp add: getContentTypeValidationError_def contentType_of_def Let_def
      CONTENT_TYPE_JSON_def SUPPORTED_CHARSETS_def cong: option.case_cong)

lemma json_with_charset:
  assumes up: "String_toUpperCase m \<in> set BODY_METHODS"
    and w0: "\<forall>c \<in> set ws0. isWhiteSpace c" and w0': "\<forall>c \<in> set ws0'. isWhiteSpace c"
    and lt: "String_toLowerCase t = ''application/json''"
    and wp: "\<forall>c \<in> set wsp. isWhiteSpace c"
    and lk: "String_toLowerCase k = ''charset''"
    and w1: "\<forall>c \<in> set ws1. isWhiteSpace c" and w2: "\<forall>c \<in> set ws2. isWhiteSpace c"
    and q1: "q1 = [] \<or> (\<exists>c. q1 = [c] \<and> isQuote c)"
    and q2: "q2 = [] \<or> (\<exists>c. q2 = [c] \<and> isQuote c)"
    and vs: "CHR '';'' \<notin> set v" "CHR ''='' \<notin> set v"
    and v: "v \<noteq> [] \<longrightarrow> \<not> isWhiteSpace (hd v) \<and> \<not> isWhiteSpace (last v) \<and>
                          \<not> isQuote (hd v) \<and> \<not> isQuote (last v)"
  shows "getContentTypeValidationError
           \<lparr> req_method = m,
             req_content_type =
               Single (ws0 @ t @ ws0' @ '';'' @ wsp @ k @ ''='' @ ws1 @ q1 @ v @ q2 @ ws2) \<rparr>
         = (if String_toLowerCase v = [] \<or> String_toLowerCase v = ''utf-8'' \<or>
               String_toLowerCase v = ''utf8''
            then None else Some CHARSET_ERROR_BODY)"
proof -
  define a where "a = ws0 @ t @ ws0'"
  define r where "r = ws1 @ q1 @ v @ q2 @ ws2"
  define p where "p = wsp @ k @ CHR ''='' # r"
  have h: "ws0 @ t @ ws0' @ '';'' @ wsp @ k @ ''='' @ ws1 @ q1 @ v @ q2 @ ws2 = a @ CHR '';'' # p"
    by (simp add: a_def p_def r_def)
  note tc = lower_eq_chars[OF lt json_chars(1)]
  note kc = lower_eq_chars[OF lk json_chars(2)]
  have tne: "t \<noteq> []"
  proof
    assume "t = []"
    with lt show False by (simp add: String_toLowerCase_def)
  qed
  have kne: "k \<noteq> []"
  proof
    assume "k = []"
    with lk show False by (simp add: String_toLowerCase_def)
  qed
  have tends: "t \<noteq> [] \<longrightarrow> \<not> isWhiteSpace (hd t) \<and> \<not> isWhiteSpace (last t)"
    using tc by simp
  have ns: "\<not> isWhiteSpace CHR '';''" "\<not> isWhiteSpace CHR ''=''"
    by (simp_all add: isWhiteSpace_def)
  have na: "CHR '';'' \<notin> set a"
    using w0 w0' tc ns by (auto simp: a_def)
  have nq: "\<not> isQuote CHR '';''" "\<not> isQuote CHR ''=''"
    by (simp_all add: isQuote_def)
  have qs: "\<forall>c \<in> set q1 \<union> set q2. c \<noteq> CHR '';'' \<and> c \<noteq> CHR ''=''"
    using q1 q2 nq by auto
  have nr: "CHR '';'' \<notin> set r" "CHR ''='' \<notin> set r"
    using w1 w2 qs vs ns by (auto simp: r_def)
  have np: "CHR '';'' \<notin> set p"
    using wp kc nr(1) ns by (auto simp: p_def)
  have nk: "CHR ''='' \<notin> set (wsp @ k)"
    using wp kc ns by auto
  have split1: "String_split CHR '';'' (a @ CHR '';'' # p) = [a, p]"
    using na np by (rule String_split_two)
  have ta: "String_trim a = t"
    unfolding a_def using w0 w0' tends by (rule String_trim_sandwich)
  have norm: "normalized_of (a @ CHR '';'' # p) = ''application/json''"
    unfolding normalized_of_def split1 by (simp only: list.sel ta lt)
  have notblank: "String_trim (a @ CHR '';'' # p) \<noteq> []"
  proof -
    have "hd t \<in> set (a @ CHR '';'' # p)" using tne by (simp add: a_def)
    moreover have "\<not> isWhiteSpace (hd t)" using tc tne by simp
    ultimately show ?thesis unfolding String_trim_eq_Nil by blast
  qed
  have kh: "\<not> isWhiteSpace (hd k)" using kc kne by simp
  have ts: "String_trimStart p = k @ CHR ''='' # r"
  proof -
    obtain c cs where kk: "k = c # cs" using kne by (cases k) auto
    have "\<not> isWhiteSpace c" using kh kk by simp
    then show ?thesis
      unfolding String_trimStart_def p_def using wp by (simp add: dropWhile_append2 kk)
  qed
  have te: "String_trimEnd ((k @ ''='') @ r) = (k @ ''='') @ String_trimEnd r"
    by (rule String_trimEnd_append) (simp_all add: nonspace_chars)
  have tp: "String_trim p = k @ ''='' @ String_trimEnd r"
    using te by (simp add: String_trim_def ts)
  have "String_startsWith (String_toLowerCase (String_trim p)) ''charset=''"
    unfolding tp toLowerCase_append lk
    by (simp add: String_startsWith_def lower_charset[unfolded String_toLowerCase_def] String_toLowerCase_def toLower_fixed)
  then have part: "charsetPart_of (a @ CHR '';'' # p) = Some p"
    unfolding charsetPart_of_def split1
    by (simp only: drop_Suc_Cons drop_0 One_nat_def find.simps if_True)
  have split2: "String_split CHR ''='' p = [wsp @ k, r]"
  proof -
    have "p = (wsp @ k) @ CHR ''='' # r" by (simp add: p_def)
    then show ?thesis using String_split_two[OF nk nr(2)] by simp
  qed
  have val: "charset_of p = String_toLowerCase v"
    unfolding charset_of_def split2
    by (simp only: list.case Let_def r_def charset_value_extracted[OF w1 w2 q1 q2 v])
  show ?thesis
    unfolding h validation_unfold[OF up] norm part
    using notblank by (simp add: val)
qed

lemma type_only:
  assumes up: "String_toUpperCase m \<in> set BODY_METHODS"
    and w0: "\<forall>c \<in> set ws0. isWhiteSpace c" and w0': "\<forall>c \<in> set ws0'. isWhiteSpace c"
    and nt: "CHR '';'' \<notin> set t"
    and tends: "t \<noteq> [] \<longrightarrow> \<not> isWhiteSpace (hd t) \<and> \<not> isWhiteSpace (last t)"
  shows "getContentTypeValidationError
           \<lparr> req_method = m, req_content_type = Single (ws0 @ t @ ws0') \<rparr>
         = (if String_toLowerCase t = ''application/json'' then None
            else Some CONTENT_TYPE_ERROR_BODY)"
proof -
  define a where "a = ws0 @ t @ ws0'"
  have ns: "\<not> isWhiteSpace CHR '';''" "\<not> isWhiteSpace CHR ''=''"
    by (simp_all add: isWhiteSpace_def)
  have na: "CHR '';'' \<notin> set a"
    using w0 w0' nt ns by (auto simp: a_def)
  have split1: "String_split CHR '';'' a = [a]"
    using na by (rule String_split_no_sep)
  have ta: "String_trim a = t"
    unfolding a_def using w0 w0' tends by (rule String_trim_sandwich)
  have norm: "normalized_of a = String_toLowerCase t"
    unfolding normalized_of_def split1 by (simp only: list.sel ta)
  have part: "charsetPart_of a = None"
    unfolding charsetPart_of_def split1 by simp
  have ne: "String_toLowerCase t = ''application/json'' \<Longrightarrow> t \<noteq> []"
  proof
    assume "String_toLowerCase t = ''application/json''" and "t = []"
    then show False by (simp add: String_toLowerCase_def)
  qed
  show ?thesis
    unfolding a_def[symmetric] validation_unfold[OF up] ta norm part
    using ne by (simp only: option.case split: if_splits) auto
qed

lemma wrong_type_with_parameters:
  assumes up: "String_toUpperCase m \<in> set BODY_METHODS"
    and w0: "\<forall>c \<in> set ws0. isWhiteSpace c" and w0': "\<forall>c \<in> set ws0'. isWhiteSpace c"
    and nt: "CHR '';'' \<notin> set t"
    and tends: "t \<noteq> [] \<longrightarrow> \<not> isWhiteSpace (hd t) \<and> \<not> isWhiteSpace (last t)"
    and wrong: "String_toLowerCase t \<noteq> ''application/json''"
  shows "getContentTypeValidationError
           \<lparr> req_method = m, req_content_type = Single (ws0 @ t @ ws0' @ '';'' @ params) \<rparr>
         = Some CONTENT_TYPE_ERROR_BODY"
proof -
  define a where "a = ws0 @ t @ ws0'"
  have h: "ws0 @ t @ ws0' @ '';'' @ params = a @ CHR '';'' # params"
    by (simp add: a_def)
  have ns: "\<not> isWhiteSpace CHR '';''" "\<not> isWhiteSpace CHR ''=''"
    by (simp_all add: isWhiteSpace_def)
  have na: "CHR '';'' \<notin> set a"
    using w0 w0' nt ns by (auto simp: a_def)
  have split1: "String_split CHR '';'' (a @ CHR '';'' # params) = a # String_split CHR '';'' params"
    using na by (rule String_split_append)
  have ta: "String_trim a = t"
    unfolding a_def using w0 w0' tends by (rule String_trim_sandwich)
  have norm: "normalized_of (a @ CHR '';'' # params) = String_toLowerCase t"
    unfolding normalized_of_def split1 by (simp only: list.sel ta)
  show ?thesis
    unfolding h validation_unfold[OF up] norm
    using wrong by (simp only: if_True simp_thms if_cancel)
qed

text \<open>
  The same rules on headers given by their parts: white space is one of the characters
  TAB, LF, VT, FF, CR, SP and NBSP, a quote is \<^verbatim>\<open>"\<close> or \<^verbatim>\<open>'\<close>.
\<close>

lemma explicit_type_rule:
  assumes up: "String_toUpperCase m \<in> set BODY_METHODS"
  shows
    "(\<forall>ws0 t ws0'.
          (\<forall>c \<in> set (ws0 @ ws0'). c \<in> set [CHR 0x09, CHR 0x0A, CHR 0x0B, CHR 0x0C, CHR 0x0D, CHR 0x20, CHR 0xA0]) \<and>
          CHR '';'' \<notin> set t \<and>
          (t \<noteq> [] \<longrightarrow> hd t \<notin> set [CHR 0x09, CHR 0x0A, CHR 0x0B, CHR 0x0C, CHR 0x0D, CHR 0x20, CHR 0xA0] \<and>
                     last t \<notin> set [CHR 0x09, CHR 0x0A, CHR 0x0B, CHR 0x0C, CHR 0x0D, CHR 0x20, CHR 0xA0]) \<longrightarrow>
          getContentTypeValidationError
            \<lparr> req_method = m,
              req_content_type = Single (ws0 @ t @ ws0') \<rparr>
            = (if String_toLowerCase t = ''application/json'' then None
               else Some CONTENT_TYPE_ERROR_BODY) \<and>
          (String_toLowerCase t \<noteq> ''application/json'' \<longrightarrow>
             (\<forall>params.
                getContentTypeValidationError
                  \<lparr> req_method = m,
                    req_content_type = Single (ws0 @ t @ ws0' @ '';'' @ params) \<rparr>
                = Some CONTENT_TYPE_ERROR_BODY)))"
proof (intro allI, rule impI, elim conjE)
  fix ws0 t ws0'
  assume w: "\<forall>c \<in> set (ws0 @ ws0'). c \<in> set [CHR 0x09, CHR 0x0A, CHR 0x0B, CHR 0x0C, CHR 0x0D, CHR 0x20, CHR 0xA0]"
    and nt: "CHR '';'' \<notin> set t"
    and te: "t \<noteq> [] \<longrightarrow> hd t \<notin> set [CHR 0x09, CHR 0x0A, CHR 0x0B, CHR 0x0C, CHR 0x0D, CHR 0x20, CHR 0xA0] \<and>
                   last t \<notin> set [CHR 0x09, CHR 0x0A, CHR 0x0B, CHR 0x0C, CHR 0x0D, CHR 0x20, CHR 0xA0]"
  have w0: "\<forall>c \<in> set ws0. isWhiteSpace c" and w0': "\<forall>c \<in> set ws0'. isWhiteSpace c"
    using w by (simp_all add: isWhiteSpace_iff)
  have te': "t \<noteq> [] \<longrightarrow> \<not> isWhiteSpace (hd t) \<and> \<not> isWhiteSpace (last t)"
    using te by (simp add: isWhiteSpace_iff)
  show "getContentTypeValidationError
          \<lparr> req_method = m,
            req_content_type = Single (ws0 @ t @ ws0') \<rparr>
          = (if String_toLowerCase t = ''application/json'' then None
             else Some CONTENT_TYPE_ERROR_BODY) \<and>
        (String_toLowerCase t \<noteq> ''application/json'' \<longrightarrow>
           (\<forall>params.
              getContentTypeValidationError
                \<lparr> req_method = m,
                  req_content_type = Single (ws0 @ t @ ws0' @ '';'' @ params) \<rparr>
              = Some CONTENT_TYPE_ERROR_BODY))"
    by (intro conjI impI allI)
      (rule type_only[OF up w0 w0' nt te'],
       erule wrong_type_with_parameters[OF up w0 w0' nt te'])
qed

lemma explicit_charset_rule:
  assumes up: "String_toUpperCase m \<in> set BODY_METHODS"
  shows
    "(\<forall>ws0 t ws0' wsp k ws1 q1 v q2 ws2.
          (\<forall>c \<in> set (ws0 @ ws0' @ wsp @ ws1 @ ws2). c \<in> set [CHR 0x09, CHR 0x0A, CHR 0x0B, CHR 0x0C, CHR 0x0D, CHR 0x20, CHR 0xA0]) \<and>
          String_toLowerCase t = ''application/json'' \<and> String_toLowerCase k = ''charset'' \<and>
          q1 \<in> {[], [CHR 0x22], [CHR 0x27]} \<and> q2 \<in> {[], [CHR 0x22], [CHR 0x27]} \<and>
          CHR '';'' \<notin> set v \<and> CHR ''='' \<notin> set v \<and>
          (v \<noteq> [] \<longrightarrow>
             hd v \<notin> set [CHR 0x09, CHR 0x0A, CHR 0x0B, CHR 0x0C, CHR 0x0D, CHR 0x20, CHR 0xA0, CHR 0x22, CHR 0x27] \<and>
             last v \<notin> set [CHR 0x09, CHR 0x0A, CHR 0x0B, CHR 0x0C, CHR 0x0D, CHR 0x20, CHR 0xA0, CHR 0x22, CHR 0x27]) \<longrightarrow>
          getContentTypeValidationError
            \<lparr> req_method = m,
              req_content_type = Single (ws0 @ t @ ws0' @ '';'' @ wsp @ k @ ''='' @ ws1 @ q1 @ v @ q2 @ ws2) \<rparr>
            = (if String_toLowerCase v = [] \<or> String_toLowerCase v = ''utf-8'' \<or>
                  String_toLowerCase v = ''utf8''
               then None else Some CHARSET_ERROR_BODY))"
proof (intro allI, rule impI, elim conjE)
  fix ws0 t ws0' wsp k ws1 q1 v q2 ws2
  assume w: "\<forall>c \<in> set (ws0 @ ws0' @ wsp @ ws1 @ ws2). c \<in> set [CHR 0x09, CHR 0x0A, CHR 0x0B, CHR 0x0C, CHR 0x0D, CHR 0x20, CHR 0xA0]"
    and lt: "String_toLowerCase t = ''application/json''"
    and lk: "String_toLowerCase k = ''charset''"
    and q1: "q1 \<in> {[], [CHR 0x22], [CHR 0x27]}" and q2: "q2 \<in> {[], [CHR 0x22], [CHR 0x27]}"
    and vs: "CHR '';'' \<notin> set v" "CHR ''='' \<notin> set v"
    and ve: "v \<noteq> [] \<longrightarrow>
           hd v \<notin> set [CHR 0x09, CHR 0x0A, CHR 0x0B, CHR 0x0C, CHR 0x0D, CHR 0x20, CHR 0xA0, CHR 0x22, CHR 0x27] \<and>
           last v \<notin> set [CHR 0x09, CHR 0x0A, CHR 0x0B, CHR 0x0C, CHR 0x0D, CHR 0x20, CHR 0xA0, CHR 0x22, CHR 0x27]"
  have w0: "\<forall>c \<in> set ws0. isWhiteSpace c" and w0': "\<forall>c \<in> set ws0'. isWhiteSpace c"
    and wp: "\<forall>c \<in> set wsp. isWhiteSpace c"
    and w1: "\<forall>c \<in> set ws1. isWhiteSpace c" and w2: "\<forall>c \<in> set ws2. isWhiteSpace c"
    using w by (simp_all add: isWhiteSpace_iff)
  have q1': "q1 = [] \<or> (\<exists>c. q1 = [c] \<and> isQuote c)"
    and q2': "q2 = [] \<or> (\<exists>c. q2 = [c] \<and> isQuote c)"
    using q1 q2 by (auto simp: isQuote_def)
  have ve': "v \<noteq> [] \<longrightarrow> \<not> isWhiteSpace (hd v) \<and> \<not> isWhiteSpace (last v) \<and>
                          \<not> isQuote (hd v) \<and> \<not> isQuote (last v)"
    using ve by (simp add: isWhiteSpace_iff isQuote_def)
  show "getContentTypeValidationError
          \<lparr> req_method = m,
            req_content_type = Single (ws0 @ t @ ws0' @ '';'' @ wsp @ k @ ''='' @ ws1 @ q1 @ v @ q2 @ ws2) \<rparr>
          = (if String_toLowerCase v = [] \<or> String_toLowerCase v = ''utf-8'' \<or>
                String_toLowerCase v = ''utf8''
             then None else Some CHARSET_ERROR_BODY)"
    by (rule json_with_charset[OF up w0 w0' lt wp lk w1 w2 q1' q2' vs ve'])
qed

lemma multi_header:
  "getContentTypeValidationError \<lparr> req_method = m, req_content_type = Multi (h # hs) \<rparr>
     = getContentTypeValidationError \<lparr> req_method = m, req_content_type = Single h \<rparr>"
  by (simp add: getContentTypeValidationError_def contentType_of_def)

lemma error_bodies:
  "CONTENT_TYPE_ERROR_BODY =
     \<lparr> statusCode = 400, error = ''Bad Request'',
         message = ''Content-Type must be application/json. Send the request body in JSON format.'' \<rparr>"
  "CHARSET_ERROR_BODY =
     \<lparr> statusCode = 400, error = ''Bad Request'',
         message = ''Unsupported or invalid encoding. Use an encoding that can be decoded (e.g. UTF-8: Content-Type: application/json; charset=utf-8).'' \<rparr>"
  by (simp_all add: CONTENT_TYPE_ERROR_BODY_def CHARSET_ERROR_BODY_def)

lemma lower_alphabet:
  "String_toLowerCase ''ABCDEFGHIJKLMNOPQRSTUVWXYZ'' = ''abcdefghijklmnopqrstuvwxyz''"
  by code_simp

text \<open>
  Claim C3, as stated: the value of a charset parameter is extracted by stripping the
  surrounding quotes, then trimming, then lower-casing, and a parameter whose extracted
  value is \<open>utf-8\<close> yields no error. For the header
  \<^verbatim>\<open>application/json; charset=" utf-8 "\<close> that extraction gives \<open>utf-8\<close>, but the code
  trims first and strips the quotes last, keeps the blanks inside the quotes, and
  returns the charset error.
\<close>

theorem quoted_blank_counterexample:
  "charset_as_specified ([CHR 0x22] @ '' utf-8 '' @ [CHR 0x22]) = ''utf-8'' \<and>
   charsetPart_of (''application/json; charset='' @ [CHR 0x22] @ '' utf-8 '' @ [CHR 0x22])
     = Some ('' charset='' @ [CHR 0x22] @ '' utf-8 '' @ [CHR 0x22]) \<and>
   charset_of ('' charset='' @ [CHR 0x22] @ '' utf-8 '' @ [CHR 0x22]) = '' utf-8 '' \<and>
   getContentTypeValidationError
     \<lparr> req_method = ''POST'',
       req_content_type =
         Single (''application/json; charset='' @ [CHR 0x22] @ '' utf-8 '' @ [CHR 0x22]) \<rparr>
     = Some \<lparr> statusCode = 400, error = ''Bad Request'',
              message = ''Unsupported or invalid encoding. Use an encoding that can be decoded (e.g. UTF-8: Content-Type: application/json; charset=utf-8).'' \<rparr>"
  by code_simp

text \<open>
  Claim C3, amended. The two error bodies are
  \<^verbatim>\<open>{ statusCode: 400, error: 'Bad Request', message: 'Content-Type must be application/json. ...' }\<close>
  and the same with the message \<^verbatim>\<open>Unsupported or invalid encoding. ...\<close>; lower-casing
  maps the letters A to Z to a to z. For a request whose method is POST, PATCH or PUT:

  \<^item> a missing header, an empty array, or a value that is blank after trimming yields the
    Content-Type error, and so does a value whose first \<open>;\<close>-segment, trimmed and
    lower-cased, is not \<open>application/json\<close>; when that segment is \<open>application/json\<close>,
    there is no error without a \<open>charset=\<close> segment, and with one there is no error
    when the value extracted from it is \<open>utf-8\<close>, \<open>utf8\<close> or empty, and the charset
    error for every other value;
  \<^item> an array counts as its first element;
  \<^item> a header made of a type \<open>t\<close> between white space passes when \<open>t\<close> lower-cased is
    \<open>application/json\<close> and gets the Content-Type error otherwise, also when
    parameters follow;
  \<^item> a header made of the type \<open>application/json\<close> in any letter case and one parameter
    \<open>charset\<close> in any letter case, whose value is \<open>v\<close> between optional quotes and
    white space, passes when \<open>v\<close> lower-cased is empty, \<open>utf-8\<close> or \<open>utf8\<close>, and gets
    the charset error otherwise: the value is trimmed, lower-cased, and then loses one
    quote at its start and one at its end;
  \<^item> the header \<open>application/json\<close> alone passes; \<open>application/json; charset=v\<close> passes
    for every spelling \<open>v\<close> of \<open>utf-8\<close> or \<open>utf8\<close> in any letter case; and for every
    \<open>v\<close> without \<open>;\<close> and \<open>=\<close> it passes or gets the charset error according to
    \<open>v\<close> trimmed, lower-cased and stripped of one quote at each end, in this order.
\<close>

theorem content_type_rules:
  assumes "req_method req \<in> set BODY_METHODS"
  shows
    "CONTENT_TYPE_ERROR_BODY =
       \<lparr> statusCode = 400, error = ''Bad Request'',
         message = ''Content-Type must be application/json. Send the request body in JSON format.'' \<rparr> \<and>
     CHARSET_ERROR_BODY =
       \<lparr> statusCode = 400, error = ''Bad Request'',
         message = ''Unsupported or invalid encoding. Use an encoding that can be decoded (e.g. UTF-8: Content-Type: application/json; charset=utf-8).'' \<rparr> \<and>
     String_toLowerCase ''ABCDEFGHIJKLMNOPQRSTUVWXYZ'' = ''abcdefghijklmnopqrstuvwxyz'' \<and>
     (req_content_type req = Absent \<or> req_content_type req = Multi [] \<or>
        String_trim (contentType_of (req_content_type req)) = []
      \<longrightarrow> getContentTypeValidationError req = Some CONTENT_TYPE_ERROR_BODY) \<and>
     (normalized_of (contentType_of (req_content_type req)) \<noteq> ''application/json''
      \<longrightarrow> getContentTypeValidationError req = Some CONTENT_TYPE_ERROR_BODY) \<and>
     (String_trim (contentType_of (req_content_type req)) \<noteq> [] \<and>
      normalized_of (contentType_of (req_content_type req)) = ''application/json''
      \<longrightarrow>
        (charsetPart_of (contentType_of (req_content_type req)) = None
           \<longrightarrow> getContentTypeValidationError req = None) \<and>
        (\<forall>p. charsetPart_of (contentType_of (req_content_type req)) = Some p \<longrightarrow>
           (charset_of p = ''utf-8'' \<or> charset_of p = ''utf8'' \<or> charset_of p = []
              \<longrightarrow> getContentTypeValidationError req = None) \<and>
           (charset_of p \<noteq> ''utf-8'' \<and> charset_of p \<noteq> ''utf8'' \<and> charset_of p \<noteq> []
              \<longrightarrow> getContentTypeValidationError req = Some CHARSET_ERROR_BODY))) \<and>
     (\<forall>h hs.
        getContentTypeValidationError
          \<lparr> req_method = req_method req,
            req_content_type = Multi (h # hs) \<rparr>
        = getContentTypeValidationError
            \<lparr> req_method = req_method req,
              req_content_type = Single h \<rparr>) \<and>
     (\<forall>ws0 t ws0'.
        (\<forall>c \<in> set (ws0 @ ws0'). c \<in> set [CHR 0x09, CHR 0x0A, CHR 0x0B, CHR 0x0C, CHR 0x0D, CHR 0x20, CHR 0xA0]) \<and>
        CHR '';'' \<notin> set t \<and>
        (t \<noteq> [] \<longrightarrow> hd t \<notin> set [CHR 0x09, CHR 0x0A, CHR 0x0B, CHR 0x0C, CHR 0x0D, CHR 0x20, CHR 0xA0] \<and>
                   last t \<notin> set [CHR 0x09, CHR 0x0A, CHR 0x0B, CHR 0x0C, CHR 0x0D, CHR 0x20, CHR 0xA0]) \<longrightarrow>
        getContentTypeValidationError
          \<lparr> req_method = req_method req,
            req_content_type = Single (ws0 @ t @ ws0') \<rparr>
          = (if String_toLowerCase t = ''application/json'' then None
             else Some CONTENT_TYPE_ERROR_BODY) \<and>
        (String_toLowerCase t \<noteq> ''application/json'' \<longrightarrow>
           (\<forall>params.
              getContentTypeValidationError
                \<lparr> req_method = req_method req,
                  req_content_type = Single (ws0 @ t @ ws0' @ '';'' @ params) \<rparr>
              = Some CONTENT_TYPE_ERROR_BODY))) \<and>
     (\<forall>ws0 t ws0' wsp k ws1 q1 v q2 ws2.
        (\<forall>c \<in> set (ws0 @ ws0' @ wsp @ ws1 @ ws2). c \<in> set [CHR 0x09, CHR 0x0A, CHR 0x0B, CHR 0x0C, CHR 0x0D, CHR 0x20, CHR 0xA0]) \<and>
        String_toLowerCase t = ''application/json'' \<and> String_toLowerCase k = ''charset'' \<and>
        q1 \<in> {[], [CHR 0x22], [CHR 0x27]} \<and> q2 \<in> {[], [CHR 0x22], [CHR 0x27]} \<and>
        CHR '';'' \<notin> set v \<and> CHR ''='' \<notin> set v \<and>
        (v \<noteq> [] \<longrightarrow>
           hd v \<notin> set [CHR 0x09, CHR 0x0A, CHR 0x0B, CHR 0x0C, CHR 0x0D, CHR 0x20, CHR 0xA0, CHR 0x22, CHR 0x27] \<and>
           last v \<notin> set [CHR 0x09, CHR 0x0A, CHR 0x0B, CHR 0x0C, CHR 0x0D, CHR 0x20, CHR 0xA0, CHR 0x22, CHR 0x27]) \<longrightarrow>
        getContentTypeValidationError
          \<lparr> req_method = req_method req,
            req_content_type = Single (ws0 @ t @ ws0' @ '';'' @ wsp @ k @ ''='' @ ws1 @ q1 @ v @ q2 @ ws2) \<rparr>
          = (if String_toLowerCase v = [] \<or> String_toLowerCase v = ''utf-8'' \<or>
                String_toLowerCase v = ''utf8''
             then None else Some CHARSET_ERROR_BODY)) \<and>
     getContentTypeValidationError
          \<lparr> req_method = req_method req,
            req_content_type = Single ''application/json'' \<rparr> = None \<and>
     (\<forall>v. String_toLowerCase v = ''utf-8'' \<or> String_toLowerCase v = ''utf8'' \<longrightarrow>
        getContentTypeValidationError
          \<lparr> req_method = req_method req,
            req_content_type = Single (''application/json; charset='' @ v) \<rparr> = None) \<and>
     (\<forall>v. CHR '';'' \<notin> set v \<and> CHR ''='' \<notin> set v \<longrightarrow>
        getContentTypeValidationError
          \<lparr> req_method = req_method req,
            req_content_type = Single (''application/json; charset='' @ v) \<rparr>
        = (if strip_quotes (String_toLowerCase (String_trim v)) = [] \<or>
              strip_quotes (String_toLowerCase (String_trim v)) = ''utf-8'' \<or>
              strip_quotes (String_toLowerCase (String_trim v)) = ''utf8''
           then None else Some CHARSET_ERROR_BODY))"
proof -
  have m: "String_toUpperCase (req_method req) \<in> set BODY_METHODS"
    using assms by (rule body_method_upper)
  have general:
    "(req_content_type req = Absent \<or> req_content_type req = Multi [] \<or>
        String_trim (contentType_of (req_content_type req)) = []
      \<longrightarrow> getContentTypeValidationError req = Some CONTENT_TYPE_ERROR_BODY) \<and>
     (normalized_of (contentType_of (req_content_type req)) \<noteq> ''application/json''
      \<longrightarrow> getContentTypeValidationError req = Some CONTENT_TYPE_ERROR_BODY) \<and>
     (String_trim (contentType_of (req_content_type req)) \<noteq> [] \<and>
      normalized_of (contentType_of (req_content_type req)) = ''application/json''
      \<longrightarrow>
        (charsetPart_of (contentType_of (req_content_type req)) = None
           \<longrightarrow> getContentTypeValidationError req = None) \<and>
        (\<forall>p. charsetPart_of (contentType_of (req_content_type req)) = Some p \<longrightarrow>
           (charset_of p = ''utf-8'' \<or> charset_of p = ''utf8'' \<or> charset_of p = []
              \<longrightarrow> getContentTypeValidationError req = None) \<and>
           (charset_of p \<noteq> ''utf-8'' \<and> charset_of p \<noteq> ''utf8'' \<and> charset_of p \<noteq> []
              \<longrightarrow> getContentTypeValidationError req = Some CHARSET_ERROR_BODY)))"
    using m contentType_of_missing String_trim_Nil
    by (auto simp: getContentTypeValidationError_def Let_def CONTENT_TYPE_JSON_def
        SUPPORTED_CHARSETS_def)
  have plain: "getContentTypeValidationError
          \<lparr> req_method = req_method req,
            req_content_type = Single ''application/json'' \<rparr> = None"
    using m plain_json_header
    by (simp add: getContentTypeValidationError_def Let_def contentType_of_def
        CONTENT_TYPE_JSON_def del: String_split.simps)
  have anycase: "(\<forall>v. String_toLowerCase v = ''utf-8'' \<or> String_toLowerCase v = ''utf8'' \<longrightarrow>
        getContentTypeValidationError
          \<lparr> req_method = req_method req,
            req_content_type = Single (''application/json; charset='' @ v) \<rparr> = None)"
    using charset_utf8_any_case[OF m] by blast
  have shape: "(\<forall>v. CHR '';'' \<notin> set v \<and> CHR ''='' \<notin> set v \<longrightarrow>
        getContentTypeValidationError
          \<lparr> req_method = req_method req,
            req_content_type = Single (''application/json; charset='' @ v) \<rparr>
        = (if strip_quotes (String_toLowerCase (String_trim v)) = [] \<or>
              strip_quotes (String_toLowerCase (String_trim v)) = ''utf-8'' \<or>
              strip_quotes (String_toLowerCase (String_trim v)) = ''utf8''
           then None else Some CHARSET_ERROR_BODY))"
    using charset_header_result[OF m] by blast
  have multi: "(\<forall>h hs.
        getContentTypeValidationError
          \<lparr> req_method = req_method req,
            req_content_type = Multi (h # hs) \<rparr>
        = getContentTypeValidationError
            \<lparr> req_method = req_method req,
              req_content_type = Single h \<rparr>)"
    by (intro allI) (rule multi_header)
  show ?thesis
    by (intro conjI error_bodies lower_alphabet multi explicit_type_rule[OF m]
        explicit_charset_rule[OF m] plain anycase shape
        general[THEN conjunct1] general[THEN conjunct2, THEN conjunct1]
        general[THEN conjunct2, THEN conjunct2])
qed

theorem content_type_rules_witness:
  "getContentTypeValidationError
     \<lparr> req_method = ''POST'',
       req_content_type = Absent \<rparr>
     = Some CONTENT_TYPE_ERROR_BODY \<and>
   getContentTypeValidationError
     \<lparr> req_method = ''PATCH'',
       req_content_type = Single ''text/plain; charset=utf-8'' \<rparr>
     = Some CONTENT_TYPE_ERROR_BODY \<and>
   getContentTypeValidationError
     \<lparr> req_method = ''PUT'',
       req_content_type = Single ''application/json'' \<rparr>
     = None \<and>
   getContentTypeValidationError
     \<lparr> req_method = ''POST'',
       req_content_type = Single ''Application/JSON; Charset=UTF-8'' \<rparr>
     = None \<and>
   getContentTypeValidationError
     \<lparr> req_method = ''POST'',
       req_content_type = Single ''application/json; charset='' \<rparr>
     = None \<and>
   getContentTypeValidationError
     \<lparr> req_method = ''POST'',
       req_content_type = Multi [''application/json; charset=iso-8859-1''] \<rparr>
     = Some CHARSET_ERROR_BODY \<and>
   getContentTypeValidationError
     \<lparr> req_method = ''PATCH'',
       req_content_type = Single (''application/json; charset='' @ ''Utf8'') \<rparr>
     = None \<and>
   getContentTypeValidationError
     \<lparr> req_method = ''PUT'',
       req_content_type = Single ('' '' @ ''Application/Json'' @ [] @ '';'' @ [CHR 0x09] @ ''CharSet'' @ ''='' @ '' '' @ [CHR 0x22] @ ''UTF-8'' @ [CHR 0x22] @ '' '') \<rparr>
     = None \<and>
   getContentTypeValidationError
     \<lparr> req_method = ''POST'',
       req_content_type = Single ([] @ ''application/json'' @ [] @ '';'' @ [] @ ''charset'' @ ''='' @ [] @ [CHR 0x27] @ ''latin1'' @ [CHR 0x27] @ []) \<rparr>
     = Some CHARSET_ERROR_BODY \<and>
   getContentTypeValidationError
     \<lparr> req_method = ''POST'',
       req_content_type = Single ('' '' @ ''text/html'' @ [CHR 0x09]) \<rparr>
     = Some CONTENT_TYPE_ERROR_BODY \<and>
   getContentTypeValidationError
     \<lparr> req_method = ''POST'',
       req_content_type = Single ('' '' @ ''text/html'' @ [CHR 0x09] @ '';'' @ '' charset=utf-8'') \<rparr>
     = Some CONTENT_TYPE_ERROR_BODY \<and>
   getContentTypeValidationError
     \<lparr> req_method = ''PATCH'',
       req_content_type = Single ([CHR 0x0A] @ ''APPLICATION/JSON'' @ '' '') \<rparr>
     = None \<and>
   getContentTypeValidationError
     \<lparr> req_method = ''POST'',
       req_content_type = Multi (''application/json'' # [''text/plain'']) \<rparr>
     = None \<and>
   getContentTypeValidationError
     \<lparr> req_method = ''POST'',
       req_content_type = Single (''application/json; charset='' @ ([CHR 0x22] @ ''UTF8'' @ [CHR 0x22])) \<rparr>
     = None"
proof -
  have post: "req_method \<lparr> req_method = ''POST'', req_content_type = Absent \<rparr> \<in> set BODY_METHODS"
    and patch: "req_method \<lparr> req_method = ''PATCH'', req_content_type = Absent \<rparr> \<in> set BODY_METHODS"
    and put: "req_method \<lparr> req_method = ''PUT'', req_content_type = Absent \<rparr> \<in> set BODY_METHODS"
    by (simp_all add: BODY_METHODS_def)
  have post': "''POST'' \<in> set BODY_METHODS" and patch': "''PATCH'' \<in> set BODY_METHODS"
    and put': "''PUT'' \<in> set BODY_METHODS"
    by (simp_all add: BODY_METHODS_def)
  have c1: "getContentTypeValidationError
       \<lparr> req_method = ''POST'',
         req_content_type = Absent \<rparr>
       = Some CONTENT_TYPE_ERROR_BODY"
    using content_type_rules[of "\<lparr> req_method = ''POST'', req_content_type = Absent \<rparr>", THEN conjunct2, THEN conjunct2, THEN conjunct2, THEN conjunct1]
      content_type_rules[of "\<lparr> req_method = ''POST'', req_content_type = Absent \<rparr>", THEN conjunct2, THEN conjunct2, THEN conjunct2, THEN conjunct2, THEN conjunct1]
      content_type_rules[of "\<lparr> req_method = ''POST'', req_content_type = Absent \<rparr>", THEN conjunct2, THEN conjunct2, THEN conjunct2, THEN conjunct2, THEN conjunct2, THEN conjunct1]
      post' 
    by simp
  have n2: "normalized_of (contentType_of (Single ''text/plain; charset=utf-8'')) \<noteq> ''application/json''"
    by code_simp+
  have c2: "getContentTypeValidationError
       \<lparr> req_method = ''PATCH'',
         req_content_type = Single ''text/plain; charset=utf-8'' \<rparr>
       = Some CONTENT_TYPE_ERROR_BODY"
    using content_type_rules[of "\<lparr> req_method = ''PATCH'', req_content_type = Single ''text/plain; charset=utf-8'' \<rparr>", THEN conjunct2, THEN conjunct2, THEN conjunct2, THEN conjunct1]
      content_type_rules[of "\<lparr> req_method = ''PATCH'', req_content_type = Single ''text/plain; charset=utf-8'' \<rparr>", THEN conjunct2, THEN conjunct2, THEN conjunct2, THEN conjunct2, THEN conjunct1]
      content_type_rules[of "\<lparr> req_method = ''PATCH'', req_content_type = Single ''text/plain; charset=utf-8'' \<rparr>", THEN conjunct2, THEN conjunct2, THEN conjunct2, THEN conjunct2, THEN conjunct2, THEN conjunct1]
      patch' n2
    by simp
  have t3: "String_trim (contentType_of (Single ''application/json'')) \<noteq> []"
    and n3: "normalized_of (contentType_of (Single ''application/json'')) = ''application/json''"
    and p3: "charsetPart_of (contentType_of (Single ''application/json'')) = None"
    by code_simp+
  have c3: "getContentTypeValidationError
       \<lparr> req_method = ''PUT'',
         req_content_type = Single ''application/json'' \<rparr>
       = None"
    using content_type_rules[of "\<lparr> req_method = ''PUT'', req_content_type = Single ''application/json'' \<rparr>", THEN conjunct2, THEN conjunct2, THEN conjunct2, THEN conjunct1]
      content_type_rules[of "\<lparr> req_method = ''PUT'', req_content_type = Single ''application/json'' \<rparr>", THEN conjunct2, THEN conjunct2, THEN conjunct2, THEN conjunct2, THEN conjunct1]
      content_type_rules[of "\<lparr> req_method = ''PUT'', req_content_type = Single ''application/json'' \<rparr>", THEN conjunct2, THEN conjunct2, THEN conjunct2, THEN conjunct2, THEN conjunct2, THEN conjunct1]
      put' t3 n3 p3
    by simp
  have t4: "String_trim (contentType_of (Single ''Application/JSON; Charset=UTF-8'')) \<noteq> []"
    and n4: "normalized_of (contentType_of (Single ''Application/JSON; Charset=UTF-8'')) = ''application/json''"
    and p4: "charsetPart_of (contentType_of (Single ''Application/JSON; Charset=UTF-8'')) = Some '' Charset=UTF-8''"
    and v4: "charset_of '' Charset=UTF-8'' = ''utf-8''"
    by code_simp+
  have c4: "getContentTypeValidationError
       \<lparr> req_method = ''POST'',
         req_content_type = Single ''Application/JSON; Charset=UTF-8'' \<rparr>
       = None"
    using content_type_rules[of "\<lparr> req_method = ''POST'', req_content_type = Single ''Application/JSON; Charset=UTF-8'' \<rparr>", THEN conjunct2, THEN conjunct2, THEN conjunct2, THEN conjunct1]
      content_type_rules[of "\<lparr> req_method = ''POST'', req_content_type = Single ''Application/JSON; Charset=UTF-8'' \<rparr>", THEN conjunct2, THEN conjunct2, THEN conjunct2, THEN conjunct2, THEN conjunct1]
      content_type_rules[of "\<lparr> req_method = ''POST'', req_content_type = Single ''Application/JSON; Charset=UTF-8'' \<rparr>", THEN conjunct2, THEN conjunct2, THEN conjunct2, THEN conjunct2, THEN conjunct2, THEN conjunct1]
      post' t4 n4 p4 v4
    by simp
  have t5: "String_trim (contentType_of (Single ''application/json; charset='')) \<noteq> []"
    and n5: "normalized_of (contentType_of (Single ''application/json; charset='')) = ''application/json''"
    and p5: "charsetPart_of (contentType_of (Single ''application/json; charset='')) = Some '' charset=''"
    and v5: "charset_of '' charset='' = []"
    by code_simp+
  have c5: "getContentTypeValidationError
       \<lparr> req_method = ''POST'',
         req_content_type = Single ''application/json; charset='' \<rparr>
       = None"
    using content_type_rules[of "\<lparr> req_method = ''POST'', req_content_type = Single ''application/json; charset='' \<rparr>", THEN conjunct2, THEN conjunct2, THEN conjunct2, THEN conjunct1]
      content_type_rules[of "\<lparr> req_method = ''POST'', req_content_type = Single ''application/json; charset='' \<rparr>", THEN conjunct2, THEN conjunct2, THEN conjunct2, THEN conjunct2, THEN conjunct1]
      content_type_rules[of "\<lparr> req_method = ''POST'', req_content_type = Single ''application/json; charset='' \<rparr>", THEN conjunct2, THEN conjunct2, THEN conjunct2, THEN conjunct2, THEN conjunct2, THEN conjunct1]
      post' t5 n5 p5 v5
    by simp
  have t6: "String_trim (contentType_of (Multi [''application/json; charset=iso-8859-1''])) \<noteq> []"
    and n6: "normalized_of (contentType_of (Multi [''application/json; charset=iso-8859-1''])) = ''application/json''"
    and p6: "charsetPart_of (contentType_of (Multi [''application/json; charset=iso-8859-1''])) = Some '' charset=iso-8859-1''"
    and v6: "charset_of '' charset=iso-8859-1'' = ''iso-8859-1''"
    by code_simp+
  have c6: "getContentTypeValidationError
       \<lparr> req_method = ''POST'',
         req_content_type = Multi [''application/json; charset=iso-8859-1''] \<rparr>
       = Some CHARSET_ERROR_BODY"
    using content_type_rules[of "\<lparr> req_method = ''POST'', req_content_type = Multi [''application/json; charset=iso-8859-1''] \<rparr>", THEN conjunct2, THEN conjunct2, THEN conjunct2, THEN conjunct1]
      content_type_rules[of "\<lparr> req_method = ''POST'', req_content_type = Multi [''application/json; charset=iso-8859-1''] \<rparr>", THEN conjunct2, THEN conjunct2, THEN conjunct2, THEN conjunct2, THEN conjunct1]
      content_type_rules[of "\<lparr> req_method = ''POST'', req_content_type = Multi [''application/json; charset=iso-8859-1''] \<rparr>", THEN conjunct2, THEN conjunct2, THEN conjunct2, THEN conjunct2, THEN conjunct2, THEN conjunct1]
      post' t6 n6 p6 v6
    by simp
  have l7: "String_toLowerCase ''Utf8'' = ''utf8''"
    by code_simp
  have c7: "getContentTypeValidationError
       \<lparr> req_method = ''PATCH'',
         req_content_type = Single (''application/json; charset='' @ ''Utf8'') \<rparr>
       = None"
    using content_type_rules[OF patch, THEN conjunct2, THEN conjunct2, THEN conjunct2, THEN conjunct2, THEN conjunct2, THEN conjunct2, THEN conjunct2, THEN conjunct2, THEN conjunct2, THEN conjunct2, THEN conjunct1, rule_format, of "''Utf8''"] l7
    by simp
  have h8: "(\<forall>c \<in> set ('' '' @ [] @ [CHR 0x09] @ '' '' @ '' ''). c \<in> set [CHR 0x09, CHR 0x0A, CHR 0x0B, CHR 0x0C, CHR 0x0D, CHR 0x20, CHR 0xA0]) \<and>
        String_toLowerCase ''Application/Json'' = ''application/json'' \<and> String_toLowerCase ''CharSet'' = ''charset'' \<and>
        [CHR 0x22] \<in> {[], [CHR 0x22], [CHR 0x27]} \<and> [CHR 0x22] \<in> {[], [CHR 0x22], [CHR 0x27]} \<and>
        CHR '';'' \<notin> set ''UTF-8'' \<and> CHR ''='' \<notin> set ''UTF-8'' \<and>
        (''UTF-8'' \<noteq> [] \<longrightarrow>
           hd ''UTF-8'' \<notin> set [CHR 0x09, CHR 0x0A, CHR 0x0B, CHR 0x0C, CHR 0x0D, CHR 0x20, CHR 0xA0, CHR 0x22, CHR 0x27] \<and>
           last ''UTF-8'' \<notin> set [CHR 0x09, CHR 0x0A, CHR 0x0B, CHR 0x0C, CHR 0x0D, CHR 0x20, CHR 0xA0, CHR 0x22, CHR 0x27])"
    by code_simp
  have l8: "String_toLowerCase ''UTF-8'' = ''utf-8''"
    by code_simp
  have c8: "getContentTypeValidationError
       \<lparr> req_method = ''PUT'',
         req_content_type = Single ('' '' @ ''Application/Json'' @ [] @ '';'' @ [CHR 0x09] @ ''CharSet'' @ ''='' @ '' '' @ [CHR 0x22] @ ''UTF-8'' @ [CHR 0x22] @ '' '') \<rparr>
       = None"
    using content_type_rules[OF put, THEN conjunct2, THEN conjunct2, THEN conjunct2, THEN conjunct2, THEN conjunct2, THEN conjunct2, THEN conjunct2, THEN conjunct2, THEN conjunct1, rule_format, OF h8] l8
    by simp
  have h9: "(\<forall>c \<in> set ([] @ [] @ [] @ [] @ []). c \<in> set [CHR 0x09, CHR 0x0A, CHR 0x0B, CHR 0x0C, CHR 0x0D, CHR 0x20, CHR 0xA0]) \<and>
        String_toLowerCase ''application/json'' = ''application/json'' \<and> String_toLowerCase ''charset'' = ''charset'' \<and>
        [CHR 0x27] \<in> {[], [CHR 0x22], [CHR 0x27]} \<and> [CHR 0x27] \<in> {[], [CHR 0x22], [CHR 0x27]} \<and>
        CHR '';'' \<notin> set ''latin1'' \<and> CHR ''='' \<notin> set ''latin1'' \<and>
        (''latin1'' \<noteq> [] \<longrightarrow>
           hd ''latin1'' \<notin> set [CHR 0x09, CHR 0x0A, CHR 0x0B, CHR 0x0C, CHR 0x0D, CHR 0x20, CHR 0xA0, CHR 0x22, CHR 0x27] \<and>
           last ''latin1'' \<notin> set [CHR 0x09, CHR 0x0A, CHR 0x0B, CHR 0x0C, CHR 0x0D, CHR 0x20, CHR 0xA0, CHR 0x22, CHR 0x27])"
    by code_simp
  have l9: "String_toLowerCase ''latin1'' = ''latin1''"
    by code_simp
  have c9: "getContentTypeValidationError
       \<lparr> req_method = ''POST'',
         req_content_type = Single ([] @ ''application/json'' @ [] @ '';'' @ [] @ ''charset'' @ ''='' @ [] @ [CHR 0x27] @ ''latin1'' @ [CHR 0x27] @ []) \<rparr>
       = Some CHARSET_ERROR_BODY"
    using content_type_rules[OF post, THEN conjunct2, THEN conjunct2, THEN conjunct2, THEN conjunct2, THEN conjunct2, THEN conjunct2, THEN conjunct2, THEN conjunct2, THEN conjunct1, rule_format, OF h9] l9
    by simp
  have h10: "(\<forall>c \<in> set ('' '' @ [CHR 0x09]). c \<in> set [CHR 0x09, CHR 0x0A, CHR 0x0B, CHR 0x0C, CHR 0x0D, CHR 0x20, CHR 0xA0]) \<and>
        CHR '';'' \<notin> set ''text/html'' \<and>
        (''text/html'' \<noteq> [] \<longrightarrow> hd ''text/html'' \<notin> set [CHR 0x09, CHR 0x0A, CHR 0x0B, CHR 0x0C, CHR 0x0D, CHR 0x20, CHR 0xA0] \<and>
                   last ''text/html'' \<notin> set [CHR 0x09, CHR 0x0A, CHR 0x0B, CHR 0x0C, CHR 0x0D, CHR 0x20, CHR 0xA0])"
    by code_simp
  have l10: "String_toLowerCase ''text/html'' \<noteq> ''application/json''"
    by code_simp
  have c10: "getContentTypeValidationError
       \<lparr> req_method = ''POST'',
         req_content_type = Single ('' '' @ ''text/html'' @ [CHR 0x09]) \<rparr>
       = Some CONTENT_TYPE_ERROR_BODY"
    using content_type_rules[OF post, THEN conjunct2, THEN conjunct2, THEN conjunct2, THEN conjunct2, THEN conjunct2, THEN conjunct2, THEN conjunct2, THEN conjunct1, rule_format, OF h10, THEN conjunct1] l10
    by simp
  have c11: "getContentTypeValidationError
       \<lparr> req_method = ''POST'',
         req_content_type = Single ('' '' @ ''text/html'' @ [CHR 0x09] @ '';'' @ '' charset=utf-8'') \<rparr>
       = Some CONTENT_TYPE_ERROR_BODY"
    using content_type_rules[OF post, THEN conjunct2, THEN conjunct2, THEN conjunct2, THEN conjunct2, THEN conjunct2, THEN conjunct2, THEN conjunct2, THEN conjunct1, rule_format, OF h10, THEN conjunct2, rule_format,
        OF l10, of "'' charset=utf-8''"]
    by simp
  have h12: "(\<forall>c \<in> set ([CHR 0x0A] @ '' ''). c \<in> set [CHR 0x09, CHR 0x0A, CHR 0x0B, CHR 0x0C, CHR 0x0D, CHR 0x20, CHR 0xA0]) \<and>
        CHR '';'' \<notin> set ''APPLICATION/JSON'' \<and>
        (''APPLICATION/JSON'' \<noteq> [] \<longrightarrow> hd ''APPLICATION/JSON'' \<notin> set [CHR 0x09, CHR 0x0A, CHR 0x0B, CHR 0x0C, CHR 0x0D, CHR 0x20, CHR 0xA0] \<and>
                   last ''APPLICATION/JSON'' \<notin> set [CHR 0x09, CHR 0x0A, CHR 0x0B, CHR 0x0C, CHR 0x0D, CHR 0x20, CHR 0xA0])"
    by code_simp
  have l12: "String_toLowerCase ''APPLICATION/JSON'' = ''application/json''"
    by code_simp
  have c12: "getContentTypeValidationError
       \<lparr> req_method = ''PATCH'',
         req_content_type = Single ([CHR 0x0A] @ ''APPLICATION/JSON'' @ '' '') \<rparr>
       = None"
    using content_type_rules[OF patch, THEN conjunct2, THEN conjunct2, THEN conjunct2, THEN conjunct2, THEN conjunct2, THEN conjunct2, THEN conjunct2, THEN conjunct1, rule_format, OF h12, THEN conjunct1] l12
    by simp
  have c13: "getContentTypeValidationError
       \<lparr> req_method = ''POST'',
         req_content_type = Multi (''application/json'' # [''text/plain'']) \<rparr>
       = None"
    using content_type_rules[OF post, THEN conjunct2, THEN conjunct2, THEN conjunct2, THEN conjunct2, THEN conjunct2, THEN conjunct2, THEN conjunct1, rule_format, of "''application/json''" "[''text/plain'']"]
      content_type_rules[OF post, THEN conjunct2, THEN conjunct2, THEN conjunct2, THEN conjunct2, THEN conjunct2, THEN conjunct2, THEN conjunct2, THEN conjunct2, THEN conjunct2, THEN conjunct1]
    by simp
  have h14: "CHR '';'' \<notin> set ([CHR 0x22] @ ''UTF8'' @ [CHR 0x22]) \<and> CHR ''='' \<notin> set ([CHR 0x22] @ ''UTF8'' @ [CHR 0x22])"
    by code_simp
  have l14: "strip_quotes (String_toLowerCase (String_trim ([CHR 0x22] @ ''UTF8'' @ [CHR 0x22]))) = ''utf8''"
    by code_simp
  have c14: "getContentTypeValidationError
       \<lparr> req_method = ''POST'',
         req_content_type = Single (''application/json; charset='' @ ([CHR 0x22] @ ''UTF8'' @ [CHR 0x22])) \<rparr>
       = None"
    using content_type_rules[OF post, THEN conjunct2, THEN conjunct2, THEN conjunct2, THEN conjunct2, THEN conjunct2, THEN conjunct2, THEN conjunct2, THEN conjunct2, THEN conjunct2, THEN conjunct2, THEN conjunct2, rule_format, OF h14] l14
    by simp
  show ?thesis
    by (intro conjI c1 c2 c3 c4 c5 c6 c7 c8 c9 c10 c11 c12 c13 c14)
qed

text \<open>
  Claim C9, as stated: every method that is not one of the strings POST, PATCH and PUT
  passes whatever the header. The code upper-cases the method first, so the method
  \<open>post\<close> is validated like POST and a request without a header is refused.
\<close>

theorem non_body_method_counterexample:
  "''post'' \<notin> set BODY_METHODS \<and>
   getContentTypeValidationError \<lparr> req_method = ''post'', req_content_type = Absent \<rparr>
     = Some CONTENT_TYPE_ERROR_BODY"
  by code_simp

text \<open>
  Claim C9, amended: for every method whose upper-cased name is not POST, PATCH or PUT,
  and for every value of the Content-Type header (absent, a string, or an array of
  strings), the validator returns no error.
\<close>

theorem non_body_method_no_error:
  assumes "String_toUpperCase m \<notin> set BODY_METHODS"
  shows "getContentTypeValidationError \<lparr> req_method = m, req_content_type = h \<rparr> = None"
  using assms by (simp add: getContentTypeValidationError_def)

theorem non_body_method_no_error_witness:
  "String_toUpperCase ''GET'' \<notin> set BODY_METHODS \<and>
   getContentTypeValidationError
     \<lparr> req_method = ''GET'', req_content_type = Single ''text/plain; charset=latin1'' \<rparr> = None \<and>
   String_toUpperCase ''delete'' \<notin> set BODY_METHODS \<and>
   getContentTypeValidationError \<lparr> req_method = ''delete'', req_content_type = Multi [] \<rparr> = None"
proof -
  have g: "String_toUpperCase ''GET'' \<notin> set BODY_METHODS"
    and d: "String_toUpperCase ''delete'' \<notin> set BODY_METHODS"
    by code_simp+
  show ?thesis
    using g d
      non_body_method_no_error[OF g, of "Single ''text/plain; charset=latin1''"]
      non_body_method_no_error[OF d, of "Multi []"]
    by simp
qed

section \<open>Properties of the boundary filter\<close>

lemma catch_HttpException:
  "catch (HttpException st body msg) = Inr \<lparr> res_status = st, res_body = body \<rparr>"
  by (simp add: catch_def isEncodingError_def isJsonParseError_def)


lemma isEncodingError_eq:
  assumes "exn_message e = Inr m"
  shows "isEncodingError e =
           Inr (\<not> is_HttpException e \<and>
                (String_includes (String_toLowerCase (string_or_empty m)) ''encoding'' \<or> String_includes (String_toLowerCase (string_or_empty m)) ''charset'' \<or>
                 String_includes (String_toLowerCase (string_or_empty m)) ''decode'' \<or> String_includes (String_toLowerCase (string_or_empty m)) ''invalid utf'' \<or>
                 String_includes (String_toLowerCase (string_or_empty m)) ''invalid character'' \<or> String_includes (String_toLowerCase (string_or_empty m)) ''invalid byte'' \<or>
                 (String_includes (String_toLowerCase (string_or_empty m)) ''utf'' \<and> String_includes (String_toLowerCase (string_or_empty m)) ''invalid'')))"
  using assms by (simp add: isEncodingError_def Let_def)

lemma isJsonParseError_eq:
  assumes "exn_message e = Inr m" and "exn_statusCode e = Inr sc" and "exn_status e = Inr st"
  shows "isJsonParseError e =
           Inr (is_SyntaxError e \<or>
                (\<not> is_HttpException e \<and> nullish_or sc st = JNum 400 \<and>
                 (String_includes (String_toLowerCase (string_or_empty m)) ''json'' \<or> String_includes (String_toLowerCase (string_or_empty m)) ''unexpected token'' \<or>
                  String_includes (String_toLowerCase (string_or_empty m)) ''parse'')))"
  using assms by (cases e) (simp_all add: isJsonParseError_def Let_def)

text \<open>
  Claim C4, as stated: an exception outside rule 1 that carries status 400 and a message
  mentioning \<open>json\<close> is answered with the JSON message. The exception that the guard
  raises for a wrong Content-Type is such an exception (status 400, message
  \<open>Content-Type must be application/json. ...\<close>), it is an \<open>HttpException\<close>, and the
  filter does not answer it with the JSON message: it forwards the exception's own body.
\<close>

theorem guard_exception_counterexample:
  "canActivate \<lparr> req_method = ''POST'', req_content_type = Absent \<rparr>
     = Inl (BadRequestException (message CONTENT_TYPE_ERROR_BODY)) \<and>
   isEncodingError (BadRequestException (message CONTENT_TYPE_ERROR_BODY)) = Inr False \<and>
   exn_status (BadRequestException (message CONTENT_TYPE_ERROR_BODY)) = Inr (JNum 400) \<and>
   exn_message (BadRequestException (message CONTENT_TYPE_ERROR_BODY)) =
     Inr (JString ''Content-Type must be application/json. Send the request body in JSON format.'') \<and>
   String_includes
     (String_toLowerCase
        ''Content-Type must be application/json. Send the request body in JSON format.'')
     ''json'' \<and>
   catch (BadRequestException (message CONTENT_TYPE_ERROR_BODY)) \<noteq>
     Inr \<lparr> res_status = 400,
           res_body = JObject [(''statusCode'', JNum 400), (''error'', JString ''Bad Request''),
                      (''message'', JString
                         ''Request body must be valid JSON.'')] \<rparr> \<and>
   catch (BadRequestException (message CONTENT_TYPE_ERROR_BODY)) =
     Inr \<lparr> res_status = 400,
           res_body = JObject
             [(''message'', JString ''Content-Type must be application/json. Send the request body in JSON format.''),
              (''error'', JString ''Bad Request''), (''statusCode'', JNum 400)] \<rparr>"
  by code_simp

text \<open>
  Claim C4, amended. Let \<open>m\<close>, \<open>sc\<close> and \<open>st\<close> be the \<^verbatim>\<open>message\<close>, \<^verbatim>\<open>statusCode\<close> and
  \<^verbatim>\<open>status\<close> of the exception and \<open>lower\<close> its lower-cased message (empty when the
  message is not a string). Rule 1: an exception that is not an \<open>HttpException\<close> and
  whose message contains \<open>encoding\<close>, \<open>charset\<close>, \<open>decode\<close>, \<open>invalid utf\<close>,
  \<open>invalid character\<close>, \<open>invalid byte\<close>, or both \<open>utf\<close> and \<open>invalid\<close>, is answered
  with status 400 and the body
  \<^verbatim>\<open>{ statusCode: 400, error: 'Bad Request', message: 'Request body could not be decoded. Use an encoding that can be decoded (e.g. UTF-8).' }\<close>.
  Rule 2: otherwise, a \<open>SyntaxError\<close>, or an exception that is not an \<open>HttpException\<close>
  and has status 400 (\<open>statusCode\<close>, else \<open>status\<close>) and a message containing \<open>json\<close>,
  \<open>unexpected token\<close> or \<open>parse\<close>, is answered with status 400 and the body
  \<^verbatim>\<open>{ statusCode: 400, error: 'Bad Request', message: 'Request body must be valid JSON.' }\<close>.
  Rule 1 wins where both apply.
\<close>

theorem classification_rules:
  assumes m: "exn_message e = Inr m"
    and sc: "exn_statusCode e = Inr sc"
    and st: "exn_status e = Inr st"
    and lower: "lower = String_toLowerCase (string_or_empty m)"
    and enc: "enc \<longleftrightarrow>
        \<not> is_HttpException e \<and>
        (String_includes lower ''encoding'' \<or> String_includes lower ''charset'' \<or>
         String_includes lower ''decode'' \<or> String_includes lower ''invalid utf'' \<or>
         String_includes lower ''invalid character'' \<or> String_includes lower ''invalid byte'' \<or>
         (String_includes lower ''utf'' \<and> String_includes lower ''invalid''))"
    and json: "json \<longleftrightarrow>
        is_SyntaxError e \<or>
        (\<not> is_HttpException e \<and>
         nullish_or sc st = JNum 400 \<and>
         (String_includes lower ''json'' \<or> String_includes lower ''unexpected token'' \<or>
          String_includes lower ''parse''))"
  shows
    "(enc \<longrightarrow> catch e =
        Inr \<lparr> res_status = 400,
              res_body = JObject [(''statusCode'', JNum 400), (''error'', JString ''Bad Request''),
                         (''message'', JString
                            ''Request body could not be decoded. Use an encoding that can be decoded (e.g. UTF-8).'')] \<rparr>) \<and>
     (\<not> enc \<and> json \<longrightarrow> catch e =
        Inr \<lparr> res_status = 400,
              res_body = JObject [(''statusCode'', JNum 400), (''error'', JString ''Bad Request''),
                         (''message'', JString
                            ''Request body must be valid JSON.'')] \<rparr>)"
proof -
  have e1: "isEncodingError e = Inr enc"
    unfolding enc lower by (rule isEncodingError_eq[OF m])
  have e2: "isJsonParseError e = Inr json"
    unfolding json lower by (rule isJsonParseError_eq[OF m sc st])
  show ?thesis
    by (simp add: catch_def e1 e2 ENCODING_ERROR_MESSAGE_def JSON_PARSE_ERROR_MESSAGE_def)
qed

theorem classification_rules_witness:
  "catch (OtherError (JString ''Invalid UTF-8 detected in stream'') JUndefined JUndefined) =
     Inr \<lparr> res_status = 400,
           res_body = JObject [(''statusCode'', JNum 400), (''error'', JString ''Bad Request''),
                      (''message'', JString
                         ''Request body could not be decoded. Use an encoding that can be decoded (e.g. UTF-8).'')] \<rparr> \<and>
   catch (SyntaxError (JString ''Unexpected token in charset'') JUndefined JUndefined) =
     Inr \<lparr> res_status = 400,
           res_body = JObject [(''statusCode'', JNum 400), (''error'', JString ''Bad Request''),
                      (''message'', JString
                         ''Request body could not be decoded. Use an encoding that can be decoded (e.g. UTF-8).'')] \<rparr> \<and>
   catch (OtherError (JString ''Invalid JSON in body'') (JNum 400) JUndefined) =
     Inr \<lparr> res_status = 400,
           res_body = JObject [(''statusCode'', JNum 400), (''error'', JString ''Bad Request''),
                      (''message'', JString
                         ''Request body must be valid JSON.'')] \<rparr> \<and>
   catch (SyntaxError (JString ''Unexpected token }'') JUndefined JUndefined) =
     Inr \<lparr> res_status = 400,
           res_body = JObject [(''statusCode'', JNum 400), (''error'', JString ''Bad Request''),
                      (''message'', JString
                         ''Request body must be valid JSON.'')] \<rparr> \<and>
   catch (OtherError (JString ''Failed to PARSE the body'') JNull (JNum 400)) =
     Inr \<lparr> res_status = 400,
           res_body = JObject [(''statusCode'', JNum 400), (''error'', JString ''Bad Request''),
                      (''message'', JString
                         ''Request body must be valid JSON.'')] \<rparr>"
proof -
  let ?e1 = "OtherError (JString ''Invalid UTF-8 detected in stream'') JUndefined JUndefined"
  let ?e2 = "SyntaxError (JString ''Unexpected token in charset'') JUndefined JUndefined"
  let ?e3 = "OtherError (JString ''Invalid JSON in body'') (JNum 400) JUndefined"
  let ?e4 = "SyntaxError (JString ''Unexpected token }'') JUndefined JUndefined"
  let ?e5 = "OtherError (JString ''Failed to PARSE the body'') JNull (JNum 400)"
  have a1: "True \<longleftrightarrow>
        \<not> is_HttpException ?e1 \<and>
        (String_includes (String_toLowerCase (string_or_empty (JString ''Invalid UTF-8 detected in stream''))) ''encoding'' \<or> String_includes (String_toLowerCase (string_or_empty (JString ''Invalid UTF-8 detected in stream''))) ''charset'' \<or>
         String_includes (String_toLowerCase (string_or_empty (JString ''Invalid UTF-8 detected in stream''))) ''decode'' \<or> String_includes (String_toLowerCase (string_or_empty (JString ''Invalid UTF-8 detected in stream''))) ''invalid utf'' \<or>
         String_includes (String_toLowerCase (string_or_empty (JString ''Invalid UTF-8 detected in stream''))) ''invalid character'' \<or> String_includes (String_toLowerCase (string_or_empty (JString ''Invalid UTF-8 detected in stream''))) ''invalid byte'' \<or>
         (String_includes (String_toLowerCase (string_or_empty (JString ''Invalid UTF-8 detected in stream''))) ''utf'' \<and> String_includes (String_toLowerCase (string_or_empty (JString ''Invalid UTF-8 detected in stream''))) ''invalid''))"
    by code_simp
  have b1: "False \<longleftrightarrow>
        is_SyntaxError ?e1 \<or>
        (\<not> is_HttpException ?e1 \<and>
         nullish_or (JUndefined) (JUndefined) = JNum 400 \<and>
         (String_includes (String_toLowerCase (string_or_empty (JString ''Invalid UTF-8 detected in stream''))) ''json'' \<or> String_includes (String_toLowerCase (string_or_empty (JString ''Invalid UTF-8 detected in stream''))) ''unexpected token'' \<or>
          String_includes (String_toLowerCase (string_or_empty (JString ''Invalid UTF-8 detected in stream''))) ''parse''))"
    by code_simp
  have c1: "catch ?e1 =
     Inr \<lparr> res_status = 400,
           res_body = JObject [(''statusCode'', JNum 400), (''error'', JString ''Bad Request''),
                      (''message'', JString
                         ''Request body could not be decoded. Use an encoding that can be decoded (e.g. UTF-8).'')] \<rparr>"
    using classification_rules[of ?e1 "JString ''Invalid UTF-8 detected in stream''" "JUndefined" "JUndefined", OF _ _ _ refl a1 b1]
    by simp
  have a2: "True \<longleftrightarrow>
        \<not> is_HttpException ?e2 \<and>
        (String_includes (String_toLowerCase (string_or_empty (JString ''Unexpected token in charset''))) ''encoding'' \<or> String_includes (String_toLowerCase (string_or_empty (JString ''Unexpected token in charset''))) ''charset'' \<or>
         String_includes (String_toLowerCase (string_or_empty (JString ''Unexpected token in charset''))) ''decode'' \<or> String_includes (String_toLowerCase (string_or_empty (JString ''Unexpected token in charset''))) ''invalid utf'' \<or>
         String_includes (String_toLowerCase (string_or_empty (JString ''Unexpected token in charset''))) ''invalid character'' \<or> String_includes (String_toLowerCase (string_or_empty (JString ''Unexpected token in charset''))) ''invalid byte'' \<or>
         (String_includes (String_toLowerCase (string_or_empty (JString ''Unexpected token in charset''))) ''utf'' \<and> String_includes (String_toLowerCase (string_or_empty (JString ''Unexpected token in charset''))) ''invalid''))"
    by code_simp
  have b2: "True \<longleftrightarrow>
        is_SyntaxError ?e2 \<or>
        (\<not> is_HttpException ?e2 \<and>
         nullish_or (JUndefined) (JUndefined) = JNum 400 \<and>
         (String_includes (String_toLowerCase (string_or_empty (JString ''Unexpected token in charset''))) ''json'' \<or> String_includes (String_toLowerCase (string_or_empty (JString ''Unexpected token in charset''))) ''unexpected token'' \<or>
          String_includes (String_toLowerCase (string_or_empty (JString ''Unexpected token in charset''))) ''parse''))"
    by code_simp
  have c2: "catch ?e2 =
     Inr \<lparr> res_status = 400,
           res_body = JObject [(''statusCode'', JNum 400), (''error'', JString ''Bad Request''),
                      (''message'', JString
                         ''Request body could not be decoded. Use an encoding that can be decoded (e.g. UTF-8).'')] \<rparr>"
    using classification_rules[of ?e2 "JString ''Unexpected token in charset''" "JUndefined" "JUndefined", OF _ _ _ refl a2 b2]
    by simp
  have a3: "False \<longleftrightarrow>
        \<not> is_HttpException ?e3 \<and>
        (String_includes (String_toLowerCase (string_or_empty (JString ''Invalid JSON in body''))) ''encoding'' \<or> String_includes (String_toLowerCase (string_or_empty (JString ''Invalid JSON in body''))) ''charset'' \<or>
         String_includes (String_toLowerCase (string_or_empty (JString ''Invalid JSON in body''))) ''decode'' \<or> String_includes (String_toLowerCase (string_or_empty (JString ''Invalid JSON in body''))) ''invalid utf'' \<or>
         String_includes (String_toLowerCase (string_or_empty (JString ''Invalid JSON in body''))) ''invalid character'' \<or> String_includes (String_toLowerCase (string_or_empty (JString ''Invalid JSON in body''))) ''invalid byte'' \<or>
         (String_includes (String_toLowerCase (string_or_empty (JString ''Invalid JSON in body''))) ''utf'' \<and> String_includes (String_toLowerCase (string_or_empty (JString ''Invalid JSON in body''))) ''invalid''))"
    by code_simp
  have b3: "True \<longleftrightarrow>
        is_SyntaxError ?e3 \<or>
        (\<not> is_HttpException ?e3 \<and>
         nullish_or (JNum 400) (JUndefined) = JNum 400 \<and>
         (String_includes (String_toLowerCase (string_or_empty (JString ''Invalid JSON in body''))) ''json'' \<or> String_includes (String_toLowerCase (string_or_empty (JString ''Invalid JSON in body''))) ''unexpected token'' \<or>
          String_includes (String_toLowerCase (string_or_empty (JString ''Invalid JSON in body''))) ''parse''))"
    by code_simp
  have c3: "catch ?e3 =
     Inr \<lparr> res_status = 400,
           res_body = JObject [(''statusCode'', JNum 400), (''error'', JString ''Bad Request''),
                      (''message'', JString
                         ''Request body must be valid JSON.'')] \<rparr>"
    using classification_rules[of ?e3 "JString ''Invalid JSON in body''" "JNum 400" "JUndefined", OF _ _ _ refl a3 b3]
    by simp
  have a4: "False \<longleftrightarrow>
        \<not> is_HttpException ?e4 \<and>
        (String_includes (String_toLowerCase (string_or_empty (JString ''Unexpected token }''))) ''encoding'' \<or> String_includes (String_toLowerCase (string_or_empty (JString ''Unexpected token }''))) ''charset'' \<or>
         String_includes (String_toLowerCase (string_or_empty (JString ''Unexpected token }''))) ''decode'' \<or> String_includes (String_toLowerCase (string_or_empty (JString ''Unexpected token }''))) ''invalid utf'' \<or>
         String_includes (String_toLowerCase (string_or_empty (JString ''Unexpected token }''))) ''invalid character'' \<or> String_includes (String_toLowerCase (string_or_empty (JString ''Unexpected token }''))) ''invalid byte'' \<or>
         (String_includes (String_toLowerCase (string_or_empty (JString ''Unexpected token }''))) ''utf'' \<and> String_includes (String_toLowerCase (string_or_empty (JString ''Unexpected token }''))) ''invalid''))"
    by code_simp
  have b4: "True \<longleftrightarrow>
        is_SyntaxError ?e4 \<or>
        (\<not> is_HttpException ?e4 \<and>
         nullish_or (JUndefined) (JUndefined) = JNum 400 \<and>
         (String_includes (String_toLowerCase (string_or_empty (JString ''Unexpected token }''))) ''json'' \<or> String_includes (String_toLowerCase (string_or_empty (JString ''Unexpected token }''))) ''unexpected token'' \<or>
          String_includes (String_toLowerCase (string_or_empty (JString ''Unexpected token }''))) ''parse''))"
    by code_simp
  have c4: "catch ?e4 =
     Inr \<lparr> res_status = 400,
           res_body = JObject [(''statusCode'', JNum 400), (''error'', JString ''Bad Request''),
                      (''message'', JString
                         ''Request body must be valid JSON.'')] \<rparr>"
    using classification_rules[of ?e4 "JString ''Unexpected token }''" "JUndefined" "JUndefined", OF _ _ _ refl a4 b4]
    by simp
  have a5: "False \<longleftrightarrow>
        \<not> is_HttpException ?e5 \<and>
        (String_includes (String_toLowerCase (string_or_empty (JString ''Failed to PARSE the body''))) ''encoding'' \<or> String_includes (String_toLowerCase (string_or_empty (JString ''Failed to PARSE the body''))) ''charset'' \<or>
         String_includes (String_toLowerCase (string_or_empty (JString ''Failed to PARSE the body''))) ''decode'' \<or> String_includes (String_toLowerCase (string_or_empty (JString ''Failed to PARSE the body''))) ''invalid utf'' \<or>
         String_includes (String_toLowerCase (string_or_empty (JString ''Failed to PARSE the body''))) ''invalid character'' \<or> String_includes (String_toLowerCase (string_or_empty (JString ''Failed to PARSE the body''))) ''invalid byte'' \<or>
         (String_includes (String_toLowerCase (string_or_empty (JString ''Failed to PARSE the body''))) ''utf'' \<and> String_includes (String_toLowerCase (string_or_empty (JString ''Failed to PARSE the body''))) ''invalid''))"
    by code_simp
  have b5: "True \<longleftrightarrow>
        is_SyntaxError ?e5 \<or>
        (\<not> is_HttpException ?e5 \<and>
         nullish_or (JNull) (JNum 400) = JNum 400 \<and>
         (String_includes (String_toLowerCase (string_or_empty (JString ''Failed to PARSE the body''))) ''json'' \<or> String_includes (String_toLowerCase (string_or_empty (JString ''Failed to PARSE the body''))) ''unexpected token'' \<or>
          String_includes (String_toLowerCase (string_or_empty (JString ''Failed to PARSE the body''))) ''parse''))"
    by code_simp
  have c5: "catch ?e5 =
     Inr \<lparr> res_status = 400,
           res_body = JObject [(''statusCode'', JNum 400), (''error'', JString ''Bad Request''),
                      (''message'', JString
                         ''Request body must be valid JSON.'')] \<rparr>"
    using classification_rules[of ?e5 "JString ''Failed to PARSE the body''" "JNull" "JNum 400", OF _ _ _ refl a5 b5]
    by simp
  show ?thesis
    using c1 c2 c3 c4 c5 by blast
qed




section \<open>Properties of the service\<close>

lemma find_Some_P: "find P xs = Some x \<Longrightarrow> P x"
  by (induction xs) (auto split: if_splits)

lemma find_Some_mem: "find P xs = Some x \<Longrightarrow> x \<in> set xs"
  by (induction xs) (auto split: if_splits)

lemma find_map_replace:
  "find P xs = Some x \<Longrightarrow> P y \<Longrightarrow> find P (map (\<lambda>r. if P r then y else r) xs) = Some y"
  by (induction xs) (auto split: if_splits)

lemma find_filter_None: "find P (filter (\<lambda>r. \<not> P r) xs) = None"
  by (induction xs) auto

lemma findOne_invalid:
  "\<not> isValidUuid i \<Longrightarrow> findOne i st = (Inl (BadRequestException ''Invalid UUID format''), st)"
  by (simp add: findOne_def)

lemma findOne_absent:
  "isValidUuid i \<Longrightarrow> find (\<lambda>r. item_id r = Some i) (rows st) = None \<Longrightarrow>
   findOne i st =
     (Inl (NotFoundException (''Item with id '' @ [CHR 0x22] @ i @ [CHR 0x22] @ '' not found'')),
      st\<lparr> calls := calls st @ [Call_findOne i] \<rparr>)"
  by (simp add: findOne_def repo_findOne_def)

lemma findOne_present:
  "isValidUuid i \<Longrightarrow> find (\<lambda>r. item_id r = Some i) (rows st) = Some it \<Longrightarrow>
   findOne i st = (Inr it, st\<lparr> calls := calls st @ [Call_findOne i] \<rparr>)"
  by (simp add: findOne_def repo_findOne_def)

lemma findOne_Inr_iff:
  "findOne i st = (Inr it, st1) \<longleftrightarrow>
     isValidUuid i \<and> find (\<lambda>r. item_id r = Some i) (rows st) = Some it \<and>
     st1 = st\<lparr> calls := calls st @ [Call_findOne i] \<rparr>"
  by (auto simp: findOne_def repo_findOne_def split: option.splits)

lemma update_findOne_fails:
  "findOne i st = (Inl e, st1) \<Longrightarrow> update parse i dto st = (Inl e, st1)"
  by (simp add: update_def)

lemma remove_findOne_fails:
  "findOne i st = (Inl e, st1) \<Longrightarrow> remove i st = (Inl e, st1)"
  by (simp add: remove_def)

lemma catch_BadRequestException:
  "catch (BadRequestException m) =
     Inr \<lparr> res_status = 400,
           res_body = JObject [(''message'', JString m), (''error'', JString ''Bad Request''),
                               (''statusCode'', JNum 400)] \<rparr>"
  by (simp add: BadRequestException_def catch_def isEncodingError_def isJsonParseError_def)

lemma catch_NotFoundException:
  "catch (NotFoundException m) =
     Inr \<lparr> res_status = 404,
           res_body = JObject [(''message'', JString m), (''error'', JString ''Not Found''),
                               (''statusCode'', JNum 404)] \<rparr>"
  by (simp add: NotFoundException_def catch_def isEncodingError_def isJsonParseError_def)

text \<open>
  What \<open>isValidUuid\<close> accepts: five groups of 8, 4, 4, 4 and 12 characters, each one of
  \<open>0-9\<close>, \<open>a-f\<close>, \<open>A-F\<close>, joined by hyphens.
\<close>

lemma match_groups_step:
  "match_groups (n # k # ns) s \<longleftrightarrow>
     (\<exists>a rest. s = a @ CHR ''-'' # rest \<and> length a = n \<and> list_all isHexDigit a \<and>
               match_groups (k # ns) rest)"
proof
  assume m: "match_groups (n # k # ns) s"
  then obtain rest where d: "drop n s = CHR ''-'' # rest" and r: "match_groups (k # ns) rest"
    by (auto split: list.splits)
  from m have t: "list_all isHexDigit (take n s)" "length (take n s) = n" by simp_all
  have "s = take n s @ CHR ''-'' # rest"
    using d append_take_drop_id[of n s] by simp
  with t r show "\<exists>a rest. s = a @ CHR ''-'' # rest \<and> length a = n \<and> list_all isHexDigit a \<and>
               match_groups (k # ns) rest"
    by blast
next
  assume "\<exists>a rest. s = a @ CHR ''-'' # rest \<and> length a = n \<and> list_all isHexDigit a \<and>
               match_groups (k # ns) rest"
  then show "match_groups (n # k # ns) s"
    by auto
qed

lemma match_groups_stepI:
  "length a = n \<Longrightarrow> list_all isHexDigit a \<Longrightarrow> match_groups (k # ns) rest \<Longrightarrow>
   match_groups (n # k # ns) (a @ CHR ''-'' # rest)"
  by simp

lemma isValidUuid_iff:
  "isValidUuid s \<longleftrightarrow>
     (\<exists>a b c d e. s = a @ ''-'' @ b @ ''-'' @ c @ ''-'' @ d @ ''-'' @ e \<and>
        length a = 8 \<and> length b = 4 \<and> length c = 4 \<and> length d = 4 \<and> length e = 12 \<and>
        list_all isHexDigit (a @ b @ c @ d @ e))"
proof
  assume "isValidUuid s"
  then have m: "match_groups [8, 4, 4, 4, 12] s"
    by (simp add: isValidUuid_def UUID_REGEX_test_def)
  from m obtain a r1 where 1: "s = a @ CHR ''-'' # r1" "length a = 8" "list_all isHexDigit a"
    and m1: "match_groups [4, 4, 4, 12] r1"
    unfolding match_groups_step by blast
  from m1 obtain b r2 where 2: "r1 = b @ CHR ''-'' # r2" "length b = 4" "list_all isHexDigit b"
    and m2: "match_groups [4, 4, 12] r2"
    unfolding match_groups_step by blast
  from m2 obtain c r3 where 3: "r2 = c @ CHR ''-'' # r3" "length c = 4" "list_all isHexDigit c"
    and m3: "match_groups [4, 12] r3"
    unfolding match_groups_step by blast
  from m3 obtain d e where 4: "r3 = d @ CHR ''-'' # e" "length d = 4" "list_all isHexDigit d"
    and m4: "match_groups [12] e"
    unfolding match_groups_step by blast
  from m4 have 5: "length e = 12" "list_all isHexDigit e" by simp_all
  have "s = a @ ''-'' @ b @ ''-'' @ c @ ''-'' @ d @ ''-'' @ e"
    by (simp add: 1 2 3 4)
  with 1 2 3 4 5 show "\<exists>a b c d e. s = a @ ''-'' @ b @ ''-'' @ c @ ''-'' @ d @ ''-'' @ e \<and>
        length a = 8 \<and> length b = 4 \<and> length c = 4 \<and> length d = 4 \<and> length e = 12 \<and>
        list_all isHexDigit (a @ b @ c @ d @ e)"
    by (intro exI[of _ a] exI[of _ b] exI[of _ c] exI[of _ d] exI[of _ e]) simp
next
  assume "\<exists>a b c d e. s = a @ ''-'' @ b @ ''-'' @ c @ ''-'' @ d @ ''-'' @ e \<and>
        length a = 8 \<and> length b = 4 \<and> length c = 4 \<and> length d = 4 \<and> length e = 12 \<and>
        list_all isHexDigit (a @ b @ c @ d @ e)"
  then obtain a b c d e where s: "s = a @ ''-'' @ b @ ''-'' @ c @ ''-'' @ d @ ''-'' @ e"
    and l: "length a = 8" "length b = 4" "length c = 4" "length d = 4" "length e = 12"
    and h: "list_all isHexDigit a" "list_all isHexDigit b" "list_all isHexDigit c"
      "list_all isHexDigit d" "list_all isHexDigit e"
    by auto
  have m4: "match_groups [12] e" using l h by simp
  note m3 = match_groups_stepI[OF l(4) h(4) m4]
  note m2 = match_groups_stepI[OF l(3) h(3) m3]
  note m1 = match_groups_stepI[OF l(2) h(2) m2]
  note m0 = match_groups_stepI[OF l(1) h(1) m1]
  show "isValidUuid s"
    using m0 by (simp add: isValidUuid_def UUID_REGEX_test_def s)
qed

lemma isHexDigit_iff: "isHexDigit c \<longleftrightarrow> c \<in> set ''0123456789abcdefABCDEF''"
proof -
  have inj: "inj (of_char :: char \<Rightarrow> nat)"
    by (rule injI) simp
  have "c \<in> set ''0123456789abcdefABCDEF'' \<longleftrightarrow>
        (of_char c :: nat) \<in> of_char ` set ''0123456789abcdefABCDEF''"
    by (simp only: inj_image_mem_iff[OF inj])
  also have "\<dots> \<longleftrightarrow> (of_char c :: nat) \<in>
      {48, 49, 50, 51, 52, 53, 54, 55, 56, 57, 97, 98, 99, 100, 101, 102, 65, 66, 67, 68, 69, 70}"
    by simp
  also have "\<dots> \<longleftrightarrow> isHexDigit c"
    unfolding isHexDigit_def Let_def by (simp only: insert_iff empty_iff) arith
  finally show ?thesis by simp
qed

text \<open>
  Claim C5. For read-one, update and delete alike: an identifier that does not match the
  UUID format fails with the \<open>BadRequestException\<close> \<open>Invalid UUID format\<close> and leaves
  the store as it was, its log of calls included, so \<open>findOne\<close> of the repository was
  not invoked; this holds whatever the store contains, so the format check comes before
  the existence check. A well-formed identifier that no stored record has fails with the
  \<open>NotFoundException\<close> \<open>Item with id "<id>" not found\<close>. The filter answers the
  first with status 400 and the second with status 404, each with the body of the
  exception. The format \<open>isValidUuid\<close>
  accepts is: five groups of 8, 4, 4, 4 and 12 hexadecimal digits in either letter case,
  joined by hyphens.
\<close>

theorem identifier_checks:
  "(\<not> isValidUuid i \<longrightarrow>
      findOne i st = (Inl (BadRequestException ''Invalid UUID format''), st) \<and>
      update parse i dto st = (Inl (BadRequestException ''Invalid UUID format''), st) \<and>
      remove i st = (Inl (BadRequestException ''Invalid UUID format''), st)) \<and>
   (isValidUuid i \<and> find (\<lambda>r. item_id r = Some i) (rows st) = None \<longrightarrow>
      fst (findOne i st) =
        Inl (NotFoundException (''Item with id '' @ [CHR 0x22] @ i @ [CHR 0x22] @ '' not found'')) \<and>
      fst (update parse i dto st) =
        Inl (NotFoundException (''Item with id '' @ [CHR 0x22] @ i @ [CHR 0x22] @ '' not found'')) \<and>
      fst (remove i st) =
        Inl (NotFoundException (''Item with id '' @ [CHR 0x22] @ i @ [CHR 0x22] @ '' not found''))) \<and>
   catch (BadRequestException m) =
     Inr \<lparr> res_status = 400,
           res_body = JObject [(''message'', JString m), (''error'', JString ''Bad Request''),
                               (''statusCode'', JNum 400)] \<rparr> \<and>
   catch (NotFoundException m) =
     Inr \<lparr> res_status = 404,
           res_body = JObject [(''message'', JString m), (''error'', JString ''Not Found''),
                               (''statusCode'', JNum 404)] \<rparr> \<and>
   (isValidUuid i \<longleftrightarrow>
      (\<exists>a b c d e. i = a @ ''-'' @ b @ ''-'' @ c @ ''-'' @ d @ ''-'' @ e \<and>
         length a = 8 \<and> length b = 4 \<and> length c = 4 \<and> length d = 4 \<and> length e = 12 \<and>
         list_all isHexDigit (a @ b @ c @ d @ e))) \<and>
   (\<forall>x. isHexDigit x \<longleftrightarrow> x \<in> set ''0123456789abcdefABCDEF'')"
proof -
  have bad: "\<not> isValidUuid i \<longrightarrow>
      findOne i st = (Inl (BadRequestException ''Invalid UUID format''), st) \<and>
      update parse i dto st = (Inl (BadRequestException ''Invalid UUID format''), st) \<and>
      remove i st = (Inl (BadRequestException ''Invalid UUID format''), st)"
    by (simp add: findOne_invalid update_findOne_fails remove_findOne_fails)
  have absent: "isValidUuid i \<and> find (\<lambda>r. item_id r = Some i) (rows st) = None \<longrightarrow>
      fst (findOne i st) =
        Inl (NotFoundException (''Item with id '' @ [CHR 0x22] @ i @ [CHR 0x22] @ '' not found'')) \<and>
      fst (update parse i dto st) =
        Inl (NotFoundException (''Item with id '' @ [CHR 0x22] @ i @ [CHR 0x22] @ '' not found'')) \<and>
      fst (remove i st) =
        Inl (NotFoundException (''Item with id '' @ [CHR 0x22] @ i @ [CHR 0x22] @ '' not found''))"
    by (auto simp: findOne_absent update_findOne_fails remove_findOne_fails)
  show ?thesis
    by (intro conjI bad absent catch_BadRequestException catch_NotFoundException
        isValidUuid_iff allI isHexDigit_iff)
qed

theorem identifier_checks_witness:
  "\<forall>legacy.
   \<not> isValidUuid ''not-a-uuid'' \<and>
    findOne ''not-a-uuid'' (store_with [fullItem])
      = (Inl (BadRequestException ''Invalid UUID format''), store_with [fullItem]) \<and>
    update (Date_parse legacy) ''not-a-uuid'' (empty_dto\<lparr> dto_name := JString ''X'' \<rparr>) (store_with [fullItem])
      = (Inl (BadRequestException ''Invalid UUID format''), store_with [fullItem]) \<and>
    remove ''not-a-uuid'' (store_with [fullItem])
      = (Inl (BadRequestException ''Invalid UUID format''), store_with [fullItem]) \<and>
    isValidUuid ''00000000-0000-0000-0000-000000000000'' \<and>
    find (\<lambda>r. item_id r = Some ''00000000-0000-0000-0000-000000000000'')
      (rows (store_with [fullItem])) = None \<and>
    fst (findOne ''00000000-0000-0000-0000-000000000000'' (store_with [fullItem]))
      = Inl (NotFoundException
          (''Item with id '' @ [CHR 0x22] @ ''00000000-0000-0000-0000-000000000000'' @ [CHR 0x22]
             @ '' not found'')) \<and>
    fst (update (Date_parse legacy) ''00000000-0000-0000-0000-000000000000''
           (empty_dto\<lparr> dto_name := JString ''X'' \<rparr>) (store_with [fullItem]))
      = Inl (NotFoundException
          (''Item with id '' @ [CHR 0x22] @ ''00000000-0000-0000-0000-000000000000'' @ [CHR 0x22]
             @ '' not found'')) \<and>
    fst (remove ''00000000-0000-0000-0000-000000000000'' (store_with [fullItem]))
      = Inl (NotFoundException
          (''Item with id '' @ [CHR 0x22] @ ''00000000-0000-0000-0000-000000000000'' @ [CHR 0x22]
             @ '' not found''))"
  (is "\<forall>legacy. ?P legacy")
proof
  fix legacy :: date_parser
  have bad: "\<not> isValidUuid ''not-a-uuid''"
    and good: "isValidUuid ''00000000-0000-0000-0000-000000000000''"
    and none: "find (\<lambda>r. item_id r = Some ''00000000-0000-0000-0000-000000000000'')
                 (rows (store_with [fullItem])) = None"
    by code_simp+
  show "?P legacy"
    using bad good none
      identifier_checks[of "''not-a-uuid''" "store_with [fullItem]" "Date_parse legacy"
        "empty_dto\<lparr> dto_name := JString ''X'' \<rparr>", THEN conjunct1]
      identifier_checks[of "''00000000-0000-0000-0000-000000000000''" "store_with [fullItem]"
        "Date_parse legacy" "empty_dto\<lparr> dto_name := JString ''X'' \<rparr>",
        THEN conjunct2, THEN conjunct1]
    by simp
qed

text \<open>Saving a record that was loaded from the store.\<close>

lemma repo_save_loaded:
  assumes "find (\<lambda>r. item_id r = Some i) (rows st) = Some it0" and "item_id it = Some i"
  shows "fst (repo_save it st) = it\<lparr> updatedAt := Some (clock st) \<rparr> \<and>
         find (\<lambda>r. item_id r = Some i) (rows (snd (repo_save it st))) = Some (fst (repo_save it st))"
proof -
  have ex: "\<exists>r \<in> set (rows st). item_id r = Some i"
    using find_Some_mem[OF assms(1)] find_Some_P[OF assms(1)] by blast
  show ?thesis
    using ex assms(2) find_map_replace[OF assms(1), of "it\<lparr> updatedAt := Some (clock st) \<rparr>"]
    by (simp add: repo_save_def Let_def)
qed

lemma trim_call_Inl_TypeError: "trim_call x v = Inl e \<Longrightarrow> \<exists>m. e = TypeError m"
  by (cases v) (auto simp: trim_call_def)

lemma trim_call_string: "is_string v \<Longrightarrow> \<exists>t. trim_call x v = Inr t"
  by (cases v) (simp_all add: trim_call_def)

lemma update_name_fields:
  "update_name dto it = it\<lparr> name := (if dto_name dto \<noteq> JUndefined then dto_name dto else name it) \<rparr>"
  by (simp add: update_name_def)

lemma update_description_fields:
  "update_description dto it =
     it\<lparr> description := (if dto_description dto \<noteq> JUndefined then dto_description dto
                           else description it) \<rparr>"
  by (simp add: update_description_def)

lemma update_dateOfBirth_Inr:
  "update_dateOfBirth parse dto it = Inr it' \<Longrightarrow>
     it' = it\<lparr> dateOfBirth := (if dto_dateOfBirth dto \<noteq> JUndefined
                                then parseDateOfBirth parse (dto_dateOfBirth dto)
                                else dateOfBirth it) \<rparr>"
  by (auto simp: update_dateOfBirth_def Let_def split: if_splits)

lemma update_sex_Inr:
  "update_sex dto it = Inr it' \<Longrightarrow>
     \<exists>s. it' = it\<lparr> sex := s \<rparr> \<and> (dto_sex dto = JUndefined \<longrightarrow> s = sex it)"
  by (auto simp: update_sex_def split: if_splits sum.splits)

lemma update_phoneNumber_Inr:
  "update_phoneNumber dto it = Inr it' \<Longrightarrow>
     \<exists>s. it' = it\<lparr> phoneNumber := s \<rparr> \<and> (dto_phoneNumber dto = JUndefined \<longrightarrow> s = phoneNumber it)"
  by (auto simp: update_phoneNumber_def split: if_splits sum.splits)

lemma update_address_Inr:
  "update_address dto it = Inr it' \<Longrightarrow>
     \<exists>s. it' = it\<lparr> address := s \<rparr> \<and> (dto_address dto = JUndefined \<longrightarrow> s = address it)"
  by (auto simp: update_address_def split: if_splits sum.splits)

lemma update_Inr:
  assumes f: "findOne i st = (Inr it, st1)"
    and u: "update parse i dto st = (Inr it', st2)"
  obtains it3 it4 it5 it6 where
    "update_dateOfBirth parse dto (update_description dto (update_name dto it)) = Inr it3"
    "update_sex dto it3 = Inr it4"
    "update_phoneNumber dto it4 = Inr it5"
    "update_address dto it5 = Inr it6"
    "repo_save it6 st1 = (it', st2)"
  using u unfolding update_def f
  by (simp split: sum.splits prod.splits)

text \<open>
  Claim C7. When an update succeeds, the record it returns and stores differs from the
  loaded one only in the fields that the input supplies (and in \<open>updatedAt\<close>, which the
  store refreshes): a field whose input property is absent keeps its value, \<open>name\<close>
  and \<open>description\<close> take the supplied value, and the identifier and \<open>createdAt\<close>
  are those of the loaded record.
\<close>

theorem update_frame:
  assumes "findOne i st = (Inr it, st1)" and "update parse i dto st = (Inr it', st2)"
  shows "item_id it' = item_id it \<and> createdAt it' = createdAt it \<and>
     (dto_name dto = JUndefined \<longrightarrow> name it' = name it) \<and>
     (dto_name dto \<noteq> JUndefined \<longrightarrow> name it' = dto_name dto) \<and>
     (dto_description dto = JUndefined \<longrightarrow> description it' = description it) \<and>
     (dto_description dto \<noteq> JUndefined \<longrightarrow> description it' = dto_description dto) \<and>
     (dto_dateOfBirth dto = JUndefined \<longrightarrow> dateOfBirth it' = dateOfBirth it) \<and>
     (dto_sex dto = JUndefined \<longrightarrow> sex it' = sex it) \<and>
     (dto_phoneNumber dto = JUndefined \<longrightarrow> phoneNumber it' = phoneNumber it) \<and>
     (dto_address dto = JUndefined \<longrightarrow> address it' = address it) \<and>
     find (\<lambda>r. item_id r = Some i) (rows st2) = Some it'"
proof -
  from assms(1) have fnd: "find (\<lambda>r. item_id r = Some i) (rows st) = Some it"
    and st1: "st1 = st\<lparr> calls := calls st @ [Call_findOne i] \<rparr>"
    by (simp_all add: findOne_Inr_iff)
  have idit: "item_id it = Some i" using find_Some_P[OF fnd] .
  have fnd1: "find (\<lambda>r. item_id r = Some i) (rows st1) = Some it"
    using fnd st1 by simp
  from update_Inr[OF assms] obtain it3 it4 it5 it6 where
    s3: "update_dateOfBirth parse dto (update_description dto (update_name dto it)) = Inr it3"
    and s4: "update_sex dto it3 = Inr it4"
    and s5: "update_phoneNumber dto it4 = Inr it5"
    and s6: "update_address dto it5 = Inr it6"
    and sv: "repo_save it6 st1 = (it', st2)" by blast
  note e3 = update_dateOfBirth_Inr[OF s3]
  from update_sex_Inr[OF s4] obtain s where e4: "it4 = it3\<lparr> sex := s \<rparr>"
    and k4: "dto_sex dto = JUndefined \<longrightarrow> s = sex it3" by blast
  from update_phoneNumber_Inr[OF s5] obtain p where e5: "it5 = it4\<lparr> phoneNumber := p \<rparr>"
    and k5: "dto_phoneNumber dto = JUndefined \<longrightarrow> p = phoneNumber it4" by blast
  from update_address_Inr[OF s6] obtain a where e6: "it6 = it5\<lparr> address := a \<rparr>"
    and k6: "dto_address dto = JUndefined \<longrightarrow> a = address it5" by blast
  have id6: "item_id it6 = Some i"
    by (simp add: e6 e5 e4 e3 update_description_fields update_name_fields idit)
  from repo_save_loaded[OF fnd1 id6] sv
  have it': "it' = it6\<lparr> updatedAt := Some (clock st1) \<rparr>"
    and stored: "find (\<lambda>r. item_id r = Some i) (rows st2) = Some it'"
    by simp_all
  have f1: "item_id it' = item_id it" "createdAt it' = createdAt it"
    by (simp_all add: it' e6 e5 e4 e3 update_description_fields update_name_fields)
  have f2: "name it' = (if dto_name dto \<noteq> JUndefined then dto_name dto else name it)"
    "description it' = (if dto_description dto \<noteq> JUndefined then dto_description dto
                        else description it)"
    by (simp_all add: it' e6 e5 e4 e3 update_description_fields update_name_fields)
  have f3: "dto_dateOfBirth dto = JUndefined \<longrightarrow> dateOfBirth it' = dateOfBirth it"
    by (simp add: it' e6 e5 e4 e3 update_description_fields update_name_fields)
  have f4: "dto_sex dto = JUndefined \<longrightarrow> sex it' = sex it"
    using k4 by (simp add: it' e6 e5 e4 e3 update_description_fields update_name_fields)
  have f5: "dto_phoneNumber dto = JUndefined \<longrightarrow> phoneNumber it' = phoneNumber it"
    using k5 by (simp add: it' e6 e5 e4 e3 update_description_fields update_name_fields)
  have f6: "dto_address dto = JUndefined \<longrightarrow> address it' = address it"
    using k6 by (simp add: it' e6 e5 e4 e3 update_description_fields update_name_fields)
  show ?thesis
    using f1 f2 f3 f4 f5 f6 stored by simp
qed

theorem update_frame_witness:
  "\<forall>legacy.
   findOne VALID_UUID (store_with [fullItem])
      = (Inr fullItem, snd (findOne VALID_UUID (store_with [fullItem]))) \<and>
    update (Date_parse legacy) VALID_UUID
        (empty_dto\<lparr> dto_dateOfBirth := JString ''1985-01-20'', dto_sex := JString ''female'' \<rparr>)
        (store_with [fullItem])
      = (Inr (fullItem\<lparr> dateOfBirth := Some 475027200000, sex := ''female'',
                        updatedAt := Some 1771545600001 \<rparr>),
         snd (update (Date_parse legacy) VALID_UUID
                (empty_dto\<lparr> dto_dateOfBirth := JString ''1985-01-20'', dto_sex := JString ''female'' \<rparr>)
                (store_with [fullItem]))) \<and>
    name (fullItem\<lparr> dateOfBirth := Some 475027200000, sex := ''female'',
                    updatedAt := Some 1771545600001 \<rparr>) = name fullItem \<and>
    find (\<lambda>r. item_id r = Some VALID_UUID)
      (rows (snd (update (Date_parse legacy) VALID_UUID
                (empty_dto\<lparr> dto_dateOfBirth := JString ''1985-01-20'', dto_sex := JString ''female'' \<rparr>)
                (store_with [fullItem]))))
      = Some (fullItem\<lparr> dateOfBirth := Some 475027200000, sex := ''female'',
                        updatedAt := Some 1771545600001 \<rparr>)"
  (is "\<forall>legacy. ?P legacy")
proof
  fix legacy :: date_parser
  let ?dto = "empty_dto\<lparr> dto_dateOfBirth := JString ''1985-01-20'', dto_sex := JString ''female'' \<rparr>"
  let ?new = "fullItem\<lparr> dateOfBirth := Some 475027200000, sex := ''female'',
                        updatedAt := Some 1771545600001 \<rparr>"
  have f0: "fst (findOne VALID_UUID (store_with [fullItem])) = Inr fullItem"
    by code_simp
  have f: "findOne VALID_UUID (store_with [fullItem])
             = (Inr fullItem, snd (findOne VALID_UUID (store_with [fullItem])))"
    using f0 by (metis prod.collapse)
  have u0: "fst (update (Date_parse legacy) VALID_UUID ?dto (store_with [fullItem])) = Inr ?new"
    by code_simp
  have u: "update (Date_parse legacy) VALID_UUID ?dto (store_with [fullItem])
             = (Inr ?new, snd (update (Date_parse legacy) VALID_UUID ?dto (store_with [fullItem])))"
    using u0 by (metis prod.collapse)
  have nm: "dto_name ?dto = JUndefined"
    by (simp add: empty_dto_def)
  show "?P legacy"
    using f u nm update_frame[OF f u] by simp
qed

lemma findOne_error_not_date:
  "findOne i st = (Inl e, st1) \<Longrightarrow> e \<noteq> BadRequestException INVALID_DATE_OF_BIRTH_MESSAGE"
  by (auto simp: findOne_def repo_findOne_def BadRequestException_def NotFoundException_def
      INVALID_DATE_OF_BIRTH_MESSAGE_def split: if_splits option.splits)

lemma TypeError_not_BadRequest: "TypeError m \<noteq> BadRequestException m'"
  by (simp add: TypeError_def BadRequestException_def)

lemma update_dateOfBirth_blank:
  "dto_dateOfBirth dto = JString s \<Longrightarrow> String_trim s = [] \<Longrightarrow>
   update_dateOfBirth parse dto it = Inr (it\<lparr> dateOfBirth := None \<rparr>)"
  by (simp add: update_dateOfBirth_def parseDateOfBirth_def dateOfBirth_rejected_def
      isDateOfBirthProvided_def)

lemma update_sex_Inl: "update_sex dto it = Inl e \<Longrightarrow> \<exists>m. e = TypeError m"
  by (auto simp: update_sex_def split: if_splits sum.splits dest: trim_call_Inl_TypeError)

lemma update_phoneNumber_Inl: "update_phoneNumber dto it = Inl e \<Longrightarrow> \<exists>m. e = TypeError m"
  by (auto simp: update_phoneNumber_def split: if_splits sum.splits dest: trim_call_Inl_TypeError)

lemma update_address_Inl: "update_address dto it = Inl e \<Longrightarrow> \<exists>m. e = TypeError m"
  by (auto simp: update_address_def split: if_splits sum.splits dest: trim_call_Inl_TypeError)

lemma update_sex_typed:
  "dto_sex dto = JUndefined \<or> is_string (dto_sex dto) \<Longrightarrow> \<exists>it'. update_sex dto it = Inr it'"
  using trim_call_string[of "dto_sex dto" "''dto.sex''"]
  by (auto simp: update_sex_def)

lemma update_phoneNumber_typed:
  "dto_phoneNumber dto = JUndefined \<or> is_string (dto_phoneNumber dto) \<Longrightarrow>
   \<exists>it'. update_phoneNumber dto it = Inr it'"
  using trim_call_string[of "dto_phoneNumber dto" "''dto.phoneNumber''"]
  by (auto simp: update_phoneNumber_def)

lemma update_address_typed:
  "dto_address dto = JUndefined \<or> is_string (dto_address dto) \<Longrightarrow>
   \<exists>it'. update_address dto it = Inr it'"
  using trim_call_string[of "dto_address dto" "''dto.address''"]
  by (auto simp: update_address_def)

lemma update_loaded_result:
  assumes f: "findOne i st = (Inr it, st1)"
  shows "(\<exists>e. update parse i dto st = (Inl e, st1) \<and>
              (update_dateOfBirth parse dto (update_description dto (update_name dto it)) = Inl e
               \<or> (\<exists>m. e = TypeError m)))
         \<or> (\<exists>it' st2. update parse i dto st = (Inr it', st2))"
  unfolding update_def f
  by (auto split: sum.splits prod.splits
      dest: update_sex_Inl update_phoneNumber_Inl update_address_Inl)

text \<open>
  Claim C8. For a well-formed identifier that a stored record has: the first delete
  returns that record as it was loaded, the record is then no longer found in the store,
  and a second delete of the same identifier fails with the \<open>NotFoundException\<close>
  (status 404).
\<close>

theorem delete_twice:
  assumes "isValidUuid i" and "find (\<lambda>r. item_id r = Some i) (rows st) = Some it"
  shows "fst (remove i st) = Inr it \<and>
         find (\<lambda>r. item_id r = Some i) (rows (snd (remove i st))) = None \<and>
         fst (remove i (snd (remove i st))) =
           Inl (NotFoundException (''Item with id '' @ [CHR 0x22] @ i @ [CHR 0x22] @ '' not found'')) \<and>
         catch (NotFoundException
           (''Item with id '' @ [CHR 0x22] @ i @ [CHR 0x22] @ '' not found'')) =
           Inr \<lparr> res_status = 404,
                 res_body = JObject
                   [(''message'', JString
                       (''Item with id '' @ [CHR 0x22] @ i @ [CHR 0x22] @ '' not found'')),
                    (''error'', JString ''Not Found''), (''statusCode'', JNum 404)] \<rparr>"
proof -
  have id: "item_id it = Some i"
    using find_Some_P[OF assms(2)] .
  have r1: "remove i st = (Inr it, repo_remove it (st\<lparr> calls := calls st @ [Call_findOne i] \<rparr>))"
    by (simp add: remove_def findOne_present[OF assms])
  have gone: "find (\<lambda>r. item_id r = Some i) (rows (snd (remove i st))) = None"
    using find_filter_None[of "\<lambda>r. item_id r = Some i" "rows st"]
    by (simp add: r1 repo_remove_def id)
  have r2: "fst (remove i (snd (remove i st))) =
           Inl (NotFoundException (''Item with id '' @ [CHR 0x22] @ i @ [CHR 0x22] @ '' not found''))"
    using findOne_absent[OF assms(1) gone] by (simp add: remove_def)
  show ?thesis using r1 gone r2 by (simp add: catch_NotFoundException)
qed

theorem delete_twice_witness:
  "isValidUuid VALID_UUID \<and>
   find (\<lambda>r. item_id r = Some VALID_UUID) (rows (store_with [fullItem])) = Some fullItem \<and>
   fst (remove VALID_UUID (store_with [fullItem])) = Inr fullItem \<and>
   find (\<lambda>r. item_id r = Some VALID_UUID)
     (rows (snd (remove VALID_UUID (store_with [fullItem])))) = None \<and>
   fst (remove VALID_UUID (snd (remove VALID_UUID (store_with [fullItem])))) =
     Inl (NotFoundException (''Item with id '' @ [CHR 0x22] @ VALID_UUID @ [CHR 0x22] @ '' not found''))"
proof -
  have v: "isValidUuid VALID_UUID"
    and f: "find (\<lambda>r. item_id r = Some VALID_UUID) (rows (store_with [fullItem])) = Some fullItem"
    by code_simp+
  show ?thesis
    using v f delete_twice[OF v f] by simp
qed

text \<open>
  Claim C10. An update whose \<open>dateOfBirth\<close> is a string that is empty or only white
  space never fails with the date validation error. When the identifier resolves to a
  stored record and \<open>sex\<close>, \<open>phoneNumber\<close> and \<open>address\<close> are absent or strings, as
  the type of the payload says, the update succeeds and the record returned and stored
  has no date of birth, whatever date it had before.
\<close>

theorem update_blank_dateOfBirth:
  assumes "dto_dateOfBirth dto = JString s" and "String_trim s = []"
  shows "fst (update parse i dto st) \<noteq> Inl (BadRequestException INVALID_DATE_OF_BIRTH_MESSAGE) \<and>
     (findOne i st = (Inr it, st1) \<and>
      (\<forall>v \<in> {dto_sex dto, dto_phoneNumber dto, dto_address dto}. v = JUndefined \<or> is_string v)
      \<longrightarrow> (\<exists>it' st2. update parse i dto st = (Inr it', st2) \<and> dateOfBirth it' = None \<and>
             find (\<lambda>r. item_id r = Some i) (rows st2) = Some it'))"
proof
  show "fst (update parse i dto st) \<noteq> Inl (BadRequestException INVALID_DATE_OF_BIRTH_MESSAGE)"
  proof (cases "findOne i st")
    case (Pair r st1)
    show ?thesis
    proof (cases r)
      case (Inl e)
      then show ?thesis
        using Pair findOne_error_not_date[of i st e st1] by (simp add: update_def)
    next
      case (Inr it0)
      with Pair have f: "findOne i st = (Inr it0, st1)" by simp
      show ?thesis
        using update_loaded_result[OF f, of parse dto] update_dateOfBirth_blank[OF assms]
        by (auto simp: TypeError_not_BadRequest)
    qed
  qed
next
  show "findOne i st = (Inr it, st1) \<and>
      (\<forall>v \<in> {dto_sex dto, dto_phoneNumber dto, dto_address dto}. v = JUndefined \<or> is_string v)
      \<longrightarrow> (\<exists>it' st2. update parse i dto st = (Inr it', st2) \<and> dateOfBirth it' = None \<and>
             find (\<lambda>r. item_id r = Some i) (rows st2) = Some it')"
  proof
    assume a: "findOne i st = (Inr it, st1) \<and>
      (\<forall>v \<in> {dto_sex dto, dto_phoneNumber dto, dto_address dto}. v = JUndefined \<or> is_string v)"
    then have f: "findOne i st = (Inr it, st1)" by simp
    from a have ty: "dto_sex dto = JUndefined \<or> is_string (dto_sex dto)"
      "dto_phoneNumber dto = JUndefined \<or> is_string (dto_phoneNumber dto)"
      "dto_address dto = JUndefined \<or> is_string (dto_address dto)" by simp_all
    let ?it2 = "update_description dto (update_name dto it)"
    have s3: "update_dateOfBirth parse dto ?it2 = Inr (?it2\<lparr> dateOfBirth := None \<rparr>)"
      by (rule update_dateOfBirth_blank[OF assms])
    obtain it4 where s4: "update_sex dto (?it2\<lparr> dateOfBirth := None \<rparr>) = Inr it4"
      using update_sex_typed[OF ty(1)] by blast
    obtain it5 where s5: "update_phoneNumber dto it4 = Inr it5"
      using update_phoneNumber_typed[OF ty(2)] by blast
    obtain it6 where s6: "update_address dto it5 = Inr it6"
      using update_address_typed[OF ty(3)] by blast
    have u: "update parse i dto st = (Inr (fst (repo_save it6 st1)), snd (repo_save it6 st1))"
      unfolding update_def f by (simp add: s3 s4 s5 s6 split: prod.splits)
    from update_sex_Inr[OF s4] update_phoneNumber_Inr[OF s5] update_address_Inr[OF s6]
    have d6: "dateOfBirth it6 = None" by auto
    from f have fnd: "find (\<lambda>r. item_id r = Some i) (rows st1) = Some it"
      by (auto simp: findOne_Inr_iff)
    have id6: "item_id it6 = Some i"
      using update_sex_Inr[OF s4] update_phoneNumber_Inr[OF s5] update_address_Inr[OF s6]
        find_Some_P[OF fnd]
      by (auto simp: update_description_fields update_name_fields)
    have "dateOfBirth (fst (repo_save it6 st1)) = None"
      using d6 repo_save_loaded[OF fnd id6] by simp
    then show "\<exists>it' st2. update parse i dto st = (Inr it', st2) \<and> dateOfBirth it' = None \<and>
             find (\<lambda>r. item_id r = Some i) (rows st2) = Some it'"
      using u repo_save_loaded[OF fnd id6] by auto
  qed
qed

theorem update_blank_dateOfBirth_witness:
  "\<forall>legacy.
   dto_dateOfBirth (empty_dto\<lparr> dto_dateOfBirth := JString ''   '' \<rparr>) = JString ''   '' \<and>
    String_trim ''   '' = [] \<and>
    dateOfBirth (fullItem\<lparr> dateOfBirth := Some 632361600000 \<rparr>) = Some 632361600000 \<and>
    fst (update (Date_parse legacy) VALID_UUID (empty_dto\<lparr> dto_dateOfBirth := JString ''   '' \<rparr>)
           (store_with [fullItem\<lparr> dateOfBirth := Some 632361600000 \<rparr>]))
      \<noteq> Inl (BadRequestException INVALID_DATE_OF_BIRTH_MESSAGE) \<and>
    (\<exists>it' st2.
       update (Date_parse legacy) VALID_UUID (empty_dto\<lparr> dto_dateOfBirth := JString ''   '' \<rparr>)
         (store_with [fullItem\<lparr> dateOfBirth := Some 632361600000 \<rparr>]) = (Inr it', st2) \<and>
       dateOfBirth it' = None \<and>
       find (\<lambda>r. item_id r = Some VALID_UUID) (rows st2) = Some it')"
  (is "\<forall>legacy. ?P legacy")
proof
  fix legacy :: date_parser
  let ?dto = "empty_dto\<lparr> dto_dateOfBirth := JString ''   '' \<rparr>"
  let ?st = "store_with [fullItem\<lparr> dateOfBirth := Some 632361600000 \<rparr>]"
  have d: "dto_dateOfBirth ?dto = JString ''   ''"
    by simp
  have t: "String_trim ''   '' = []"
    by code_simp
  have f0: "fst (findOne VALID_UUID ?st) = Inr (fullItem\<lparr> dateOfBirth := Some 632361600000 \<rparr>)"
    by code_simp
  have f: "findOne VALID_UUID ?st
             = (Inr (fullItem\<lparr> dateOfBirth := Some 632361600000 \<rparr>), snd (findOne VALID_UUID ?st))"
    using f0 by (metis prod.collapse)
  have ty: "\<forall>v \<in> {dto_sex ?dto, dto_phoneNumber ?dto, dto_address ?dto}. v = JUndefined \<or> is_string v"
    by (simp add: empty_dto_def)
  show "?P legacy"
    using d t f ty
      update_blank_dateOfBirth[OF d t, of "Date_parse legacy" VALID_UUID ?st
        "fullItem\<lparr> dateOfBirth := Some 632361600000 \<rparr>" "snd (findOne VALID_UUID ?st)"]
    by simp
qed

text \<open>
  Claim C1. The service does not keep the invariant: \<open>update\<close> assigns a supplied name
  without the check that \<open>create\<close> makes. On the store that holds the record
  \<open>fullItem\<close>, an update of that record with the name of three spaces succeeds and the
  stored name is those three spaces, while \<open>create\<close> rejects the same name.
\<close>

theorem update_persists_blank_name:
  "\<forall>legacy.
   fst (create (Date_parse legacy) (empty_dto\<lparr> dto_name := JString ''   '' \<rparr>) (store_with [fullItem]))
      = Inl (BadRequestException ''name is required and must be a non-empty string'') \<and>
    fst (update (Date_parse legacy) VALID_UUID (empty_dto\<lparr> dto_name := JString ''   '' \<rparr>)
           (store_with [fullItem]))
      = Inr (fullItem\<lparr> name := JString ''   '', updatedAt := Some 1771545600001 \<rparr>) \<and>
    map name (rows (snd (update (Date_parse legacy) VALID_UUID (empty_dto\<lparr> dto_name := JString ''   '' \<rparr>)
                           (store_with [fullItem]))))
      = [JString ''   ''] \<and>
    String_trim ''   '' = []"
  by (intro allI) code_simp

section \<open>Properties of the date functions\<close>

lemma div_bounds:
  fixes x k :: int
  assumes "0 < k"
  shows "k * (x div k) \<le> x" and "x < k * (x div k) + k"
proof -
  have e: "k * (x div k) + x mod k = x" by simp
  have "0 \<le> x mod k" "x mod k < k" using assms by simp_all
  with e show "k * (x div k) \<le> x" and "x < k * (x div k) + k" by linarith+
qed

lemma DayFromYear_bounds_low:
  "400 * DayFromYear (x + 1969) \<le> 146097 * x"
proof -
  define a where "a = x div 4"
  define b where "b = (x + 68) div 100"
  define c where "c = (x + 368) div 400"
  have ba: "4 * a \<le> x" "x < 4 * a + 4" unfolding a_def by (rule div_bounds, simp)+
  have bb: "100 * b \<le> x + 68" "x + 68 < 100 * b + 100" unfolding b_def by (rule div_bounds, simp)+
  have bc: "400 * c \<le> x + 368" "x + 368 < 400 * c + 400" unfolding c_def by (rule div_bounds, simp)+
  have "DayFromYear (x + 1969) = 365 * x - 365 + a - b + c"
    by (simp add: DayFromYear_def a_def b_def c_def algebra_simps)
  then show ?thesis using ba bb bc by linarith
qed

lemma DayFromYear_bounds_high:
  "146097 * x + 146097 \<le> 400 * DayFromYear (x + 1972)"
proof -
  define a where "a = (x + 3) div 4"
  define b where "b = (x + 71) div 100"
  define c where "c = (x + 371) div 400"
  have ba: "4 * a \<le> x + 3" "x + 3 < 4 * a + 4" unfolding a_def by (rule div_bounds, simp)+
  have bb: "100 * b \<le> x + 71" "x + 71 < 100 * b + 100" unfolding b_def by (rule div_bounds, simp)+
  have bc: "400 * c \<le> x + 371" "x + 371 < 400 * c + 400" unfolding c_def by (rule div_bounds, simp)+
  have "DayFromYear (x + 1972) = 365 * x + 730 + a - b + c"
    by (simp add: DayFromYear_def a_def b_def c_def algebra_simps)
  then show ?thesis using ba bb bc by linarith
qed

lemma DayFromYear_strict_mono:
  assumes "y < y'"
  shows "DayFromYear y < DayFromYear y'"
proof -
  define a where "a = (y - 1969) div 4"
  define b where "b = (y - 1901) div 100"
  define c where "c = (y - 1601) div 400"
  define a' where "a' = (y' - 1969) div 4"
  define b' where "b' = (y' - 1901) div 100"
  define c' where "c' = (y' - 1601) div 400"
  have ba: "4 * a \<le> y - 1969" "y - 1969 < 4 * a + 4" unfolding a_def by (rule div_bounds, simp)+
  have bb: "100 * b \<le> y - 1901" "y - 1901 < 100 * b + 100" unfolding b_def by (rule div_bounds, simp)+
  have bc: "400 * c \<le> y - 1601" "y - 1601 < 400 * c + 400" unfolding c_def by (rule div_bounds, simp)+
  have ba': "4 * a' \<le> y' - 1969" "y' - 1969 < 4 * a' + 4" unfolding a'_def by (rule div_bounds, simp)+
  have bb': "100 * b' \<le> y' - 1901" "y' - 1901 < 100 * b' + 100" unfolding b'_def by (rule div_bounds, simp)+
  have bc': "400 * c' \<le> y' - 1601" "y' - 1601 < 400 * c' + 400" unfolding c'_def by (rule div_bounds, simp)+
  have e: "DayFromYear y = 365 * y - 719050 + a - b + c"
    "DayFromYear y' = 365 * y' - 719050 + a' - b' + c'"
    by (simp_all add: DayFromYear_def a_def b_def c_def a'_def b'_def c'_def algebra_simps)
  show ?thesis unfolding e using ba bb bc ba' bb' bc' assms by linarith
qed

lemma DayFromYear_mono: "y \<le> y' \<Longrightarrow> DayFromYear y \<le> DayFromYear y'"
  using DayFromYear_strict_mono[of y y'] by (cases "y = y'") auto

lemma YearFromDay_bounds:
  "DayFromYear (YearFromDay d) \<le> d \<and> d < DayFromYear (YearFromDay d + 1)"
proof -
  define x where "x = (400 * d) div 146097"
  have bx: "146097 * x \<le> 400 * d" "400 * d < 146097 * x + 146097" unfolding x_def by (rule div_bounds, simp)+
  have lo: "DayFromYear (x + 1969) \<le> d"
    using DayFromYear_bounds_low[of x] bx by linarith
  have hi: "d < DayFromYear (x + 1972)"
    using DayFromYear_bounds_high[of x] bx by linarith
  have s: "1970 + x - 1 = x + 1969" "1970 + x + 1 = x + 1971" "1970 + x + 1 + 1 = x + 1972"
    "1970 + x - 1 + 1 = x + 1970" "1970 + x = x + 1970"
    by simp_all
  show ?thesis
    using lo hi
    by (simp add: YearFromDay_def Let_def x_def[symmetric] s add.commute[of _ x])
qed

lemma YearFromDay_unique:
  assumes "DayFromYear y \<le> d" and "d < DayFromYear (y + 1)"
  shows "YearFromDay d = y"
proof (rule ccontr)
  assume ne: "YearFromDay d \<noteq> y"
  note b = YearFromDay_bounds[of d]
  show False
  proof (cases "YearFromDay d < y")
    case True
    then have "DayFromYear (YearFromDay d + 1) \<le> DayFromYear y"
      by (intro DayFromYear_mono) simp
    with b assms show False by linarith
  next
    case False
    with ne have "y + 1 \<le> YearFromDay d" by simp
    then have "DayFromYear (y + 1) \<le> DayFromYear (YearFromDay d)"
      by (rule DayFromYear_mono)
    with b assms show False by linarith
  qed
qed

lemma div_step:
  fixes x k :: int
  assumes "0 < k"
  shows "(x + 1) div k = x div k + (if (x + 1) mod k = 0 then 1 else 0)"
proof -
  define q where "q = x div k"
  define r where "r = x mod k"
  have e: "x = k * q + r" by (simp add: q_def r_def)
  have r: "0 \<le> r" "r < k" using assms by (simp_all add: r_def)
  show ?thesis
  proof (cases "r = k - 1")
    case True
    then have x1: "x + 1 = k * (q + 1) + 0" using e by (simp add: algebra_simps)
    have "(x + 1) div k = q + 1" "(x + 1) mod k = 0"
      using int_div_pos_eq[OF x1] int_mod_pos_eq[OF x1] assms by simp_all
    then show ?thesis by (simp add: q_def)
  next
    case False
    then have lt: "r + 1 < k" "0 \<le> r + 1" using r by linarith+
    have x1: "x + 1 = k * q + (r + 1)" using e by simp
    have "(x + 1) div k = q" "(x + 1) mod k = r + 1"
      using int_div_pos_eq[OF x1 lt(2) lt(1)] int_mod_pos_eq[OF x1 lt(2) lt(1)] by simp_all
    then show ?thesis using r by (simp add: q_def)
  qed
qed

lemma mod_shift:
  "(y - 1968) mod 4 = y mod 4" "(y - 1900) mod 100 = y mod 100" "(y - 1600) mod 400 = y mod (400::int)"
proof -
  have "(y + (- 492) * 4) mod 4 = y mod 4" by (rule mod_mult_self1)
  then show "(y - 1968) mod 4 = y mod 4" by simp
  have "(y + (- 19) * 100) mod 100 = y mod 100" by (rule mod_mult_self1)
  then show "(y - 1900) mod 100 = y mod 100" by simp
  have "(y + (- 4) * 400) mod 400 = y mod 400" by (rule mod_mult_self1)
  then show "(y - 1600) mod 400 = y mod 400" by simp
qed

lemma mod_chain:
  fixes y :: int
  shows "y mod 100 = 0 \<Longrightarrow> y mod 4 = 0" and "y mod 400 = 0 \<Longrightarrow> y mod 100 = 0"
proof -
  assume "y mod 100 = 0"
  then have "100 dvd y" by (simp add: mod_eq_0_iff_dvd)
  moreover have "(4::int) dvd 100" by simp
  ultimately have "4 dvd y" by (rule dvd_trans[rotated])
  then show "y mod 4 = 0" by (simp add: mod_eq_0_iff_dvd)
next
  assume "y mod 400 = 0"
  then have "400 dvd y" by (simp add: mod_eq_0_iff_dvd)
  moreover have "(100::int) dvd 400" by simp
  ultimately have "100 dvd y" by (rule dvd_trans[rotated])
  then show "y mod 100 = 0" by (simp add: mod_eq_0_iff_dvd)
qed

lemma DayFromYear_Suc: "DayFromYear (y + 1) = DayFromYear y + DaysInYear y"
proof -
  have a: "(y - 1968) div 4 = (y - 1969) div 4 + (if y mod 4 = 0 then 1 else 0)"
    using div_step[of 4 "y - 1969"] by (simp add: mod_shift)
  have b: "(y - 1900) div 100 = (y - 1901) div 100 + (if y mod 100 = 0 then 1 else 0)"
    using div_step[of 100 "y - 1901"] by (simp add: mod_shift)
  have c: "(y - 1600) div 400 = (y - 1601) div 400 + (if y mod 400 = 0 then 1 else 0)"
    using div_step[of 400 "y - 1601"] by (simp add: mod_shift)
  have s: "y + 1 - 1970 = y - 1969" "y + 1 - 1969 = y - 1968" "y + 1 - 1901 = y - 1900"
    "y + 1 - 1601 = y - 1600" by simp_all
  show ?thesis
    using mod_chain[of y]
    by (auto simp: DayFromYear_def DaysInYear_def s a b c)
qed

lemma DaysInYear_cases: "DaysInYear y = 365 \<or> DaysInYear y = 366"
  by (simp add: DaysInYear_def)

lemma Day_msPerDay: "Day (msPerDay * n) = n"
  by (simp add: Day_def msPerDay_def)

lemma YearFromTime_in_year:
  assumes "0 \<le> k" and "k < DaysInYear y"
  shows "YearFromTime (msPerDay * (DayFromYear y + k)) = y"
  unfolding YearFromTime_def Day_msPerDay
  using assms by (intro YearFromDay_unique) (simp_all add: DayFromYear_Suc)

lemma DaysInYear_leap: "DaysInYear y = (if isLeapYear y then 366 else 365)"
proof (cases "y mod 400 = 0")
  case True
  then have "y mod 100 = 0" by (rule mod_chain(2))
  then have "y mod 4 = 0" by (rule mod_chain(1))
  with True \<open>y mod 100 = 0\<close> show ?thesis
    by (simp only: DaysInYear_def isLeapYear_def simp_thms if_True if_False)
next
  case False
  show ?thesis
  proof (cases "y mod 100 = 0")
    case True
    then have "y mod 4 = 0" by (rule mod_chain(1))
    with True False show ?thesis
      by (simp only: DaysInYear_def isLeapYear_def simp_thms if_True if_False)
  next
    case n100: False
    show ?thesis
    proof (cases "y mod 4 = 0")
      case True
      with n100 False show ?thesis
        by (simp only: DaysInYear_def isLeapYear_def simp_thms if_True if_False)
    next
      case n4: False
      with n100 False show ?thesis
        by (simp only: DaysInYear_def isLeapYear_def simp_thms if_True if_False)
    qed
  qed
qed

lemma month_cases:
  fixes m :: int
  assumes "1 \<le> m" and "m \<le> 12"
  shows "m = 1 \<or> m = 2 \<or> m = 3 \<or> m = 4 \<or> m = 5 \<or> m = 6 \<or> m = 7 \<or> m = 8 \<or> m = 9 \<or>
         m = 10 \<or> m = 11 \<or> m = 12"
  using assms by arith

lemma day_within_year_leap:
  assumes "1 \<le> m" "m \<le> 12" "1 \<le> d" "d \<le> DaysInMonth y m" "isLeapYear y"
  shows "0 \<le> MonthStart 1 (m - 1) + d - 1 \<and> MonthStart 1 (m - 1) + d - 1 < 366 \<and>
         MonthFromDay 1 (MonthStart 1 (m - 1) + d - 1) = m - 1"
  using month_cases[OF assms(1,2)] assms(3,4,5)
  by (elim disjE; hypsubst_thin; simp add: MonthStart_def MonthFromDay_def DaysInMonth_def)

lemma day_within_year_common:
  assumes "1 \<le> m" "m \<le> 12" "1 \<le> d" "d \<le> DaysInMonth y m" "\<not> isLeapYear y"
  shows "0 \<le> MonthStart 0 (m - 1) + d - 1 \<and> MonthStart 0 (m - 1) + d - 1 < 365 \<and>
         MonthFromDay 0 (MonthStart 0 (m - 1) + d - 1) = m - 1"
  using month_cases[OF assms(1,2)] assms(3,4,5)
  by (elim disjE; hypsubst_thin; simp add: MonthStart_def MonthFromDay_def DaysInMonth_def)

lemma day_within_year:
  assumes "real_calendar_date y m d"
  defines "L \<equiv> (if DaysInYear y = 366 then 1 else 0)"
  defines "k \<equiv> MonthStart L (m - 1) + d - 1"
  shows "0 \<le> k \<and> k < DaysInYear y \<and> MonthFromDay L k = m - 1"
proof -
  from assms(1) have m: "1 \<le> m" "m \<le> 12" and d: "1 \<le> d" "d \<le> DaysInMonth y m"
    by (simp_all add: real_calendar_date_def)
  show ?thesis
  proof (cases "isLeapYear y")
    case True
    then have "L = 1" "DaysInYear y = 366" by (simp_all add: L_def DaysInYear_leap)
    then show ?thesis
      using day_within_year_leap[OF m d True] by (simp add: k_def)
  next
    case False
    then have "L = 0" "DaysInYear y = 365" by (simp_all add: L_def DaysInYear_leap)
    then show ?thesis
      using day_within_year_common[OF m d False] by (simp add: k_def)
  qed
qed

lemma utc_midnight_fields:
  assumes "real_calendar_date y m d"
  shows "getUTCFullYear (utc_midnight y m d) = y"
    and "getUTCMonth (utc_midnight y m d) + 1 = m"
    and "getUTCDate (utc_midnight y m d) = d"
proof -
  define L :: int where "L = (if DaysInYear y = 366 then 1 else 0)"
  define k where "k = MonthStart L (m - 1) + d - 1"
  note w = day_within_year[OF assms, folded L_def, folded k_def]
  have t: "utc_midnight y m d = msPerDay * (DayFromYear y + k)"
    by (simp add: utc_midnight_def k_def L_def algebra_simps)
  have yr: "YearFromTime (utc_midnight y m d) = y"
    unfolding t using w by (intro YearFromTime_in_year) simp_all
  have lp: "InLeapYear (utc_midnight y m d) = L"
    by (simp add: InLeapYear_def yr L_def)
  have dw: "DayWithinYear (utc_midnight y m d) = k"
    unfolding DayWithinYear_def yr by (simp add: t Day_msPerDay)
  have mo: "MonthFromTime (utc_midnight y m d) = m - 1"
    using w by (simp add: MonthFromTime_def lp dw)
  show "getUTCFullYear (utc_midnight y m d) = y"
    by (simp add: getUTCFullYear_def yr)
  show "getUTCMonth (utc_midnight y m d) + 1 = m"
    by (simp add: getUTCMonth_def mo)
  show "getUTCDate (utc_midnight y m d) = d"
    by (simp add: getUTCDate_def DateFromTime_def lp dw mo k_def)
qed

lemma digits_length_pos: "1 \<le> length (digits_of_nat n)"
  by (subst digits_of_nat.simps) simp

lemma digits_length_step:
  "10 \<le> n \<Longrightarrow> length (digits_of_nat n) = Suc (length (digits_of_nat (n div 10)))"
  by (subst digits_of_nat.simps) simp

lemma digits_length_4: "1000 \<le> n \<Longrightarrow> 4 \<le> length (digits_of_nat n)"
proof -
  assume a: "1000 \<le> n"
  then have b: "10 \<le> n" "10 \<le> n div 10" "10 \<le> n div 10 div 10" by arith+
  show ?thesis
    using digits_length_pos[of "n div 10 div 10 div 10"]
    by (simp add: digits_length_step[OF b(1)] digits_length_step[OF b(2)]
        digits_length_step[OF b(3)])
qed

lemma digits_length_3: "n < 1000 \<Longrightarrow> length (digits_of_nat n) \<le> 3"
proof -
  assume a: "n < 1000"
  have s: "\<And>k. k < 10 \<Longrightarrow> length (digits_of_nat k) = 1"
    by (subst digits_of_nat.simps) simp
  show ?thesis
  proof (cases "n < 10")
    case True
    then show ?thesis by (simp add: s)
  next
    case False
    then have n10: "10 \<le> n" by simp
    show ?thesis
    proof (cases "n div 10 < 10")
      case True
      then show ?thesis by (simp add: digits_length_step[OF n10] s)
    next
      case False
      then have n100: "10 \<le> n div 10" by simp
      have "n div 10 div 10 < 10" using a by arith
      then show ?thesis
        by (simp add: digits_length_step[OF n10] digits_length_step[OF n100] s)
    qed
  qed
qed

lemma ISO_date_string_year:
  assumes "1000 \<le> y"
  shows "ISO_date_string y m d =
     Number_toString y @ ''-'' @ String_padStart 2 CHR ''0'' (Number_toString m) @ ''-'' @
     String_padStart 2 CHR ''0'' (Number_toString d)"
proof -
  have "4 \<le> length (Number_toString y)"
    using assms digits_length_4[of "nat y"] by (simp add: Number_toString_def)
  then have "String_padStart 4 CHR ''0'' (Number_toString y) = Number_toString y"
    by (simp add: String_padStart_def)
  then show ?thesis by (simp add: ISO_date_string_def)
qed

lemma digit_char_0: "char_of (48 :: nat) = CHR ''0''"
  by code_simp

lemma digits_single: "n < 10 \<Longrightarrow> digits_of_nat n = [char_of (48 + n)]"
  by (subst digits_of_nat.simps) simp

lemma digits_step:
  "10 \<le> n \<Longrightarrow> digits_of_nat n = digits_of_nat (n div 10) @ [char_of (48 + n mod 10)]"
  by (subst digits_of_nat.simps) simp

lemma rep: "replicate 2 c = [c, c]" "replicate 3 c = [c, c, c]"
  by (simp_all add: numeral_2_eq_2 numeral_3_eq_3)

lemma pad2_digits:
  assumes "n < 100"
  shows "String_padStart 2 CHR ''0'' (digits_of_nat n) =
           [char_of (48 + n div 10), char_of (48 + n mod 10)]"
proof (cases "n < 10")
  case True
  then show ?thesis
    by (simp add: digits_single String_padStart_def digit_char_0)
next
  case False
  then have a: "10 \<le> n" by simp
  have b: "n div 10 < 10" using assms by arith
  show ?thesis
    by (simp add: digits_step[OF a] digits_single[OF b] String_padStart_def)
qed

lemma pad4_digits:
  assumes "n < 10000"
  shows "String_padStart 4 CHR ''0'' (digits_of_nat n) =
           [char_of (48 + n div 1000), char_of (48 + n div 100 mod 10),
            char_of (48 + n div 10 mod 10), char_of (48 + n mod 10)]"
proof -
  have d2: "n div 10 div 10 = n div 100" and d3: "n div 100 div 10 = n div 1000"
    by (simp_all add: div_mult2_eq[symmetric])
  show ?thesis
  proof (cases "n < 10")
    case True
    then show ?thesis
      by (simp add: digits_single String_padStart_def digit_char_0 rep)
  next
    case False
    then have a: "10 \<le> n" by simp
    note s1 = digits_step[OF a]
    show ?thesis
    proof (cases "n < 100")
      case True
      then have b: "n div 10 < 10" by arith
      have "n div 100 = 0" "n div 1000 = 0" using True by simp_all
      then show ?thesis
        by (simp add: s1 digits_single[OF b] String_padStart_def digit_char_0 rep)
    next
      case False
      then have b: "10 \<le> n div 10" by arith
      note s2 = digits_step[OF b, unfolded d2]
      show ?thesis
      proof (cases "n < 1000")
        case True
        then have c: "n div 100 < 10" by arith
        have "n div 1000 = 0" using True by simp
        then show ?thesis
          by (simp add: s1 s2 digits_single[OF c] String_padStart_def digit_char_0 rep)
      next
        case False
        then have c: "10 \<le> n div 100" by arith
        note s3 = digits_step[OF c, unfolded d3]
        have e: "n div 1000 < 10" using assms by arith
        show ?thesis
          by (simp add: s1 s2 s3 digits_single[OF e] String_padStart_def)
      qed
    qed
  qed
qed

lemma isDigit_digit_char: "j < 10 \<Longrightarrow> isDigit (char_of (48 + j :: nat))"
  by (simp add: isDigit_def of_char_of)

lemma digit_char_value: "j < 10 \<Longrightarrow> int (of_char (char_of (48 + j :: nat))) - 48 = int j"
  by (simp add: of_char_of)

lemma digits_sum4:
  fixes n :: nat
  shows "n div 1000 * 1000 + n div 100 mod 10 * 100 + n div 10 mod 10 * 10 + n mod 10 = n"
proof -
  define q1 where "q1 = n div 10"
  define q2 where "q2 = q1 div 10"
  define q3 where "q3 = q2 div 10"
  have a: "n = 10 * q1 + n mod 10" by (simp add: q1_def)
  have b: "q1 = 10 * q2 + q1 mod 10" by (simp add: q2_def)
  have c: "q2 = 10 * q3 + q2 mod 10" by (simp add: q3_def)
  have d2: "n div 100 = q2" and d3: "n div 1000 = q3"
    by (simp_all add: q1_def q2_def q3_def div_mult2_eq[symmetric])
  have "q3 * 1000 + q2 mod 10 * 100 + q1 mod 10 * 10 + n mod 10 = n"
    using a b c by linarith
  then show ?thesis by (simp add: d2 d3 q1_def)
qed

lemma digits_sum2:
  fixes n :: nat
  shows "n div 10 * 10 + n mod 10 = n"
  by simp

lemma digit_mod: "j < 10 \<Longrightarrow> (48 + j) mod 256 = 48 + (j::nat)"
  by simp

lemma digits_value4:
  assumes "n < 10000"
  shows "digits_value [char_of (48 + n div 1000), char_of (48 + n div 100 mod 10),
            char_of (48 + n div 10 mod 10), char_of (48 + n mod 10)] = int n"
proof -
  have j: "n div 1000 < 10" using assms by arith
  have "int (n div 1000 * 1000 + n div 100 mod 10 * 100 + n div 10 mod 10 * 10 + n mod 10) = int n"
    by (simp only: digits_sum4)
  then show ?thesis
    by (simp add: digit_mod[OF j])
qed

lemma digits_value2:
  assumes "n < 100"
  shows "digits_value [char_of (48 + n div 10), char_of (48 + n mod 10)] = int n"
proof -
  have j: "n div 10 < 10" using assms by arith
  have "int (n div 10) * 10 + int (n mod 10) = int n"
    by (simp add: zdiv_int zmod_int)
  then show ?thesis
    by (simp add: digit_mod[OF j])
qed

lemma Date_parse_ISO:
  assumes "0 \<le> y" "y \<le> 9999" "1 \<le> m" "m \<le> 12" "1 \<le> d" "d \<le> 31"
  shows "Date_parse legacy (ISO_date_string y m d) = Some (utc_midnight y m d)"
proof -
  define ny where "ny = nat y"
  define nm where "nm = nat m"
  define nd where "nd = nat d"
  have b: "ny < 10000" "nm < 100" "nd < 100"
    using assms by (simp_all add: ny_def nm_def nd_def)
  have i: "int ny = y" "int nm = m" "int nd = d"
    using assms by (simp_all add: ny_def nm_def nd_def)
  have s: "Number_toString y = digits_of_nat ny" "Number_toString m = digits_of_nat nm"
    "Number_toString d = digits_of_nat nd"
    using assms by (simp_all add: Number_toString_def ny_def nm_def nd_def)
  have j: "ny div 1000 < 10" "nm div 10 < 10" "nd div 10 < 10"
    using b by arith+
  have iso: "ISO_date_string y m d =
     [char_of (48 + ny div 1000), char_of (48 + ny div 100 mod 10),
      char_of (48 + ny div 10 mod 10), char_of (48 + ny mod 10), CHR ''-'',
      char_of (48 + nm div 10), char_of (48 + nm mod 10), CHR ''-'',
      char_of (48 + nd div 10), char_of (48 + nd mod 10)]"
    by (simp add: ISO_date_string_def s pad4_digits[OF b(1)] pad2_digits[OF b(2)]
        pad2_digits[OF b(3)])
  have dg: "list_all isDigit
     [char_of (48 + ny div 1000), char_of (48 + ny div 100 mod 10),
      char_of (48 + ny div 10 mod 10), char_of (48 + ny mod 10),
      char_of (48 + nm div 10), char_of (48 + nm mod 10),
      char_of (48 + nd div 10), char_of (48 + nd mod 10)]"
    using j by (simp add: isDigit_digit_char)
  show ?thesis
    unfolding iso Date_parse_def
    using assms
    by (simp only: list.case dg digits_value4[OF b(1)] digits_value2[OF b(2)]
        digits_value2[OF b(3)] i Let_def simp_thms if_True)
qed

section \<open>Properties of the date-of-birth validation\<close>

lemma format_utc_midnight:
  assumes "real_calendar_date y m d"
  shows "formatDateToISODateString (utc_midnight y m d) =
     Number_toString y @ ''-'' @ String_padStart 2 CHR ''0'' (Number_toString m) @ ''-'' @
     String_padStart 2 CHR ''0'' (Number_toString d)"
  using utc_midnight_fields[OF assms]
  by (simp add: formatDateToISODateString_def Let_def)

lemma format_utc_midnight_ISO:
  assumes "real_calendar_date y m d" and "1000 \<le> y"
  shows "formatDateToISODateString (utc_midnight y m d) = ISO_date_string y m d"
  by (simp add: format_utc_midnight[OF assms(1)] ISO_date_string_year[OF assms(2)])

lemma format_utc_midnight_early:
  assumes "real_calendar_date y m d" and "0 \<le> y" and "y < 1000"
  shows "formatDateToISODateString (utc_midnight y m d) \<noteq> ISO_date_string y m d"
proof -
  have l: "length (Number_toString y) \<le> 3"
    using assms(2,3) digits_length_3[of "nat y"] by (simp add: Number_toString_def)
  have p: "length (String_padStart 4 CHR ''0'' (Number_toString y)) = 4"
    using l by (simp add: String_padStart_def)
  have "Number_toString y \<noteq> String_padStart 4 CHR ''0'' (Number_toString y)"
  proof
    assume "Number_toString y = String_padStart 4 CHR ''0'' (Number_toString y)"
    then have "length (Number_toString y) = 4" using p by simp
    with l show False by simp
  qed
  then show ?thesis
    by (simp add: format_utc_midnight[OF assms(1)] ISO_date_string_def)
qed

lemma rejected_iff:
  "dateOfBirth_rejected (JString s) (parseDateOfBirth parse (JString s)) \<longleftrightarrow>
     String_trim s \<noteq> [] \<and>
     (parse (String_trim s) = None \<or>
      (\<exists>t. parse (String_trim s) = Some t \<and> formatDateToISODateString t \<noteq> String_trim s))"
  by (auto simp: dateOfBirth_rejected_def isDateOfBirthProvided_def parseDateOfBirth_def
      isCalendarDateValid_def split: option.splits)

lemma not_provided_not_rejected:
  "\<not> isDateOfBirthProvided v \<Longrightarrow> \<not> dateOfBirth_rejected v p"
  by (simp add: dateOfBirth_rejected_def)

lemma not_provided_parses_null:
  "\<not> isDateOfBirthProvided v \<Longrightarrow> parseDateOfBirth parse v = None"
  by (cases v) (simp_all add: isDateOfBirthProvided_def parseDateOfBirth_def)

lemma trim_nullish:
  "v = JUndefined \<or> v = JNull \<or> is_string v \<Longrightarrow>
   trim_call x (nullish_or v (JString [])) = Inr (String_trim (string_or_empty v))"
  by (cases v) (auto simp: trim_call_def String_trim_Nil)

lemma create_date_error:
  assumes "dto_name dto = JString nm" and "String_trim nm \<noteq> []"
    and "dateOfBirth_rejected (dto_dateOfBirth dto) (parseDateOfBirth parse (dto_dateOfBirth dto))"
  shows "create parse dto st = (Inl (BadRequestException INVALID_DATE_OF_BIRTH_MESSAGE), st)"
  using assms by (simp add: create_def)

lemma create_success:
  assumes "dto_name dto = JString nm" and "String_trim nm \<noteq> []"
    and "\<not> dateOfBirth_rejected (dto_dateOfBirth dto) (parseDateOfBirth parse (dto_dateOfBirth dto))"
    and "dto_sex dto = JUndefined \<or> dto_sex dto = JNull \<or> is_string (dto_sex dto)"
    and "dto_phoneNumber dto = JUndefined \<or> dto_phoneNumber dto = JNull \<or> is_string (dto_phoneNumber dto)"
    and "dto_address dto = JUndefined \<or> dto_address dto = JNull \<or> is_string (dto_address dto)"
  shows "\<exists>it st'. create parse dto st = (Inr it, st') \<and>
           name it = JString (String_trim nm) \<and>
           dateOfBirth it = parseDateOfBirth parse (dto_dateOfBirth dto) \<and>
           rows st' = rows st @ [it]"
  using assms(1,2,3)
  by (simp add: create_def trim_nullish[OF assms(4)] trim_nullish[OF assms(5)]
      trim_nullish[OF assms(6)] repo_create_def repo_save_def Let_def)

lemma update_date_error:
  assumes "findOne i st = (Inr it, st1)"
    and "dateOfBirth_rejected (dto_dateOfBirth dto) (parseDateOfBirth parse (dto_dateOfBirth dto))"
  shows "update parse i dto st = (Inl (BadRequestException INVALID_DATE_OF_BIRTH_MESSAGE), st1)"
proof -
  have "dto_dateOfBirth dto \<noteq> JUndefined"
    using assms(2) by (auto simp: dateOfBirth_rejected_def isDateOfBirthProvided_def)
  then show ?thesis
    using assms by (simp add: update_def update_dateOfBirth_def Let_def)
qed

lemma update_date_accepted:
  assumes f: "findOne i st = (Inr it, st1)"
    and d: "dto_dateOfBirth dto \<noteq> JUndefined"
    and r: "\<not> dateOfBirth_rejected (dto_dateOfBirth dto) (parseDateOfBirth parse (dto_dateOfBirth dto))"
    and ty: "dto_sex dto = JUndefined \<or> is_string (dto_sex dto)"
      "dto_phoneNumber dto = JUndefined \<or> is_string (dto_phoneNumber dto)"
      "dto_address dto = JUndefined \<or> is_string (dto_address dto)"
  shows "\<exists>it' st2. update parse i dto st = (Inr it', st2) \<and>
           dateOfBirth it' = parseDateOfBirth parse (dto_dateOfBirth dto) \<and>
           find (\<lambda>r. item_id r = Some i) (rows st2) = Some it'"
proof -
  let ?it2 = "update_description dto (update_name dto it)"
  let ?p = "parseDateOfBirth parse (dto_dateOfBirth dto)"
  have s3: "update_dateOfBirth parse dto ?it2 = Inr (?it2\<lparr> dateOfBirth := ?p \<rparr>)"
    using d r by (simp add: update_dateOfBirth_def Let_def)
  obtain it4 where s4: "update_sex dto (?it2\<lparr> dateOfBirth := ?p \<rparr>) = Inr it4"
    using update_sex_typed[OF ty(1)] by blast
  obtain it5 where s5: "update_phoneNumber dto it4 = Inr it5"
    using update_phoneNumber_typed[OF ty(2)] by blast
  obtain it6 where s6: "update_address dto it5 = Inr it6"
    using update_address_typed[OF ty(3)] by blast
  have u: "update parse i dto st = (Inr (fst (repo_save it6 st1)), snd (repo_save it6 st1))"
    unfolding update_def f by (simp add: s3 s4 s5 s6 split: prod.splits)
  from update_sex_Inr[OF s4] update_phoneNumber_Inr[OF s5] update_address_Inr[OF s6]
  have d6: "dateOfBirth it6 = ?p" by auto
  from f have fnd: "find (\<lambda>r. item_id r = Some i) (rows st1) = Some it"
    by (auto simp: findOne_Inr_iff)
  have id6: "item_id it6 = Some i"
    using update_sex_Inr[OF s4] update_phoneNumber_Inr[OF s5] update_address_Inr[OF s6]
      find_Some_P[OF fnd]
    by (auto simp: update_description_fields update_name_fields)
  have "dateOfBirth (fst (repo_save it6 st1)) = ?p"
    using d6 repo_save_loaded[OF fnd id6] by simp
  then show ?thesis
    using u repo_save_loaded[OF fnd id6] by auto
qed

text \<open>
  The parts of claim C2 that hold, for any behaviour of \<^verbatim>\<open>Date.parse\<close>. A non-blank
  \<open>dateOfBirth\<close> that the parser does not read, or that it reads as a date whose
  \<open>YYYY-MM-DD\<close> rendering differs from the trimmed input, makes \<open>create\<close> and
  \<open>update\<close> fail with the fixed message and leaves the stored records alone; an absent
  or blank \<open>dateOfBirth\<close> is no date for \<open>create\<close>.
\<close>

lemma dateOfBirth_rejections:
  assumes "dto_dateOfBirth dto = JString s" and "String_trim s \<noteq> []"
    and "parse (String_trim s) = None \<or>
         (\<exists>t. parse (String_trim s) = Some t \<and> formatDateToISODateString t \<noteq> String_trim s)"
  shows "(\<forall>nm. dto_name dto = JString nm \<and> String_trim nm \<noteq> [] \<longrightarrow>
            create parse dto st = (Inl (BadRequestException INVALID_DATE_OF_BIRTH_MESSAGE), st)) \<and>
         (\<forall>it st1. findOne i st = (Inr it, st1) \<longrightarrow>
            update parse i dto st = (Inl (BadRequestException INVALID_DATE_OF_BIRTH_MESSAGE), st1) \<and>
            rows st1 = rows st)"
proof -
  have r: "dateOfBirth_rejected (dto_dateOfBirth dto) (parseDateOfBirth parse (dto_dateOfBirth dto))"
    using assms by (simp add: rejected_iff)
  show ?thesis
    using create_date_error[OF _ _ r] update_date_error[OF _ r]
    by (auto simp: findOne_Inr_iff)
qed

lemma dateOfBirth_absent_or_blank:
  assumes "dto_name dto = JString nm" and "String_trim nm \<noteq> []"
    and "dto_dateOfBirth dto = JUndefined \<or>
         (\<exists>s. dto_dateOfBirth dto = JString s \<and> String_trim s = [])"
    and "dto_sex dto = JUndefined \<or> dto_sex dto = JNull \<or> is_string (dto_sex dto)"
    and "dto_phoneNumber dto = JUndefined \<or> dto_phoneNumber dto = JNull \<or> is_string (dto_phoneNumber dto)"
    and "dto_address dto = JUndefined \<or> dto_address dto = JNull \<or> is_string (dto_address dto)"
  shows "\<exists>it st'. create parse dto st = (Inr it, st') \<and> dateOfBirth it = None \<and>
           rows st' = rows st @ [it]"
proof -
  have np: "\<not> isDateOfBirthProvided (dto_dateOfBirth dto)"
    using assms(3) by (auto simp: isDateOfBirthProvided_def)
  from create_success[OF assms(1,2) not_provided_not_rejected[OF np] assms(4,5,6), of parse st]
  show ?thesis
    by (auto simp: not_provided_parses_null[OF np])
qed

text \<open>
  A real calendar date from the year 1000 on, written \<open>YYYY-MM-DD\<close> and read by the
  parser as UTC midnight of that day (as ECMAScript says of the date-only form), is
  accepted by \<open>create\<close> and \<open>update\<close> and stored as that day. Before the year 1000
  the same date is rejected: the year is formatted without its leading zeros.
\<close>

lemma real_date_accepted:
  assumes "real_calendar_date y m d" and "1000 \<le> y"
    and "dto_dateOfBirth dto = JString s" and "String_trim s = ISO_date_string y m d"
    and "parse (ISO_date_string y m d) = Some (utc_midnight y m d)"
  shows "(\<forall>nm. dto_name dto = JString nm \<and> String_trim nm \<noteq> [] \<and>
            (dto_sex dto = JUndefined \<or> dto_sex dto = JNull \<or> is_string (dto_sex dto)) \<and>
            (dto_phoneNumber dto = JUndefined \<or> dto_phoneNumber dto = JNull \<or>
               is_string (dto_phoneNumber dto)) \<and>
            (dto_address dto = JUndefined \<or> dto_address dto = JNull \<or> is_string (dto_address dto))
          \<longrightarrow> (\<exists>it st'. create parse dto st = (Inr it, st') \<and>
                  dateOfBirth it = Some (utc_midnight y m d) \<and> rows st' = rows st @ [it])) \<and>
         (\<forall>it st1. findOne i st = (Inr it, st1) \<and>
            (dto_sex dto = JUndefined \<or> is_string (dto_sex dto)) \<and>
            (dto_phoneNumber dto = JUndefined \<or> is_string (dto_phoneNumber dto)) \<and>
            (dto_address dto = JUndefined \<or> is_string (dto_address dto))
          \<longrightarrow> (\<exists>it' st2. update parse i dto st = (Inr it', st2) \<and>
                  dateOfBirth it' = Some (utc_midnight y m d) \<and>
                  find (\<lambda>r. item_id r = Some i) (rows st2) = Some it'))"
proof -
  have ne: "String_trim s \<noteq> []"
    by (simp add: assms(4) ISO_date_string_def)
  have p: "parseDateOfBirth parse (dto_dateOfBirth dto) = Some (utc_midnight y m d)"
    using ne by (simp add: parseDateOfBirth_def assms(3,4,5))
  have nr: "\<not> dateOfBirth_rejected (dto_dateOfBirth dto) (parseDateOfBirth parse (dto_dateOfBirth dto))"
    unfolding assms(3) rejected_iff
    by (simp add: assms(4,5) format_utc_midnight_ISO[OF assms(1,2)])
  have d: "dto_dateOfBirth dto \<noteq> JUndefined"
    by (simp add: assms(3))
  show ?thesis
  proof (intro conjI allI impI)
    fix nm
    assume a: "dto_name dto = JString nm \<and> String_trim nm \<noteq> [] \<and>
            (dto_sex dto = JUndefined \<or> dto_sex dto = JNull \<or> is_string (dto_sex dto)) \<and>
            (dto_phoneNumber dto = JUndefined \<or> dto_phoneNumber dto = JNull \<or>
               is_string (dto_phoneNumber dto)) \<and>
            (dto_address dto = JUndefined \<or> dto_address dto = JNull \<or> is_string (dto_address dto))"
    from a have a1: "dto_name dto = JString nm" and a2: "String_trim nm \<noteq> []"
      and a3: "dto_sex dto = JUndefined \<or> dto_sex dto = JNull \<or> is_string (dto_sex dto)"
      and a4: "dto_phoneNumber dto = JUndefined \<or> dto_phoneNumber dto = JNull \<or>
               is_string (dto_phoneNumber dto)"
      and a5: "dto_address dto = JUndefined \<or> dto_address dto = JNull \<or> is_string (dto_address dto)"
      by blast+
    from create_success[OF a1 a2 nr a3 a4 a5, of st]
    show "\<exists>it st'. create parse dto st = (Inr it, st') \<and>
                  dateOfBirth it = Some (utc_midnight y m d) \<and> rows st' = rows st @ [it]"
      by (auto simp: p)
  next
    fix it st1
    assume a: "findOne i st = (Inr it, st1) \<and>
            (dto_sex dto = JUndefined \<or> is_string (dto_sex dto)) \<and>
            (dto_phoneNumber dto = JUndefined \<or> is_string (dto_phoneNumber dto)) \<and>
            (dto_address dto = JUndefined \<or> is_string (dto_address dto))"
    from a have f: "findOne i st = (Inr it, st1)"
      and t1: "dto_sex dto = JUndefined \<or> is_string (dto_sex dto)"
      and t2: "dto_phoneNumber dto = JUndefined \<or> is_string (dto_phoneNumber dto)"
      and t3: "dto_address dto = JUndefined \<or> is_string (dto_address dto)"
      by blast+
    from update_date_accepted[OF f d nr t1 t2 t3]
    show "\<exists>it' st2. update parse i dto st = (Inr it', st2) \<and>
                  dateOfBirth it' = Some (utc_midnight y m d) \<and>
                  find (\<lambda>r. item_id r = Some i) (rows st2) = Some it'"
      by (simp add: p)
  qed
qed

lemma early_year_rejected:
  assumes "real_calendar_date y m d" and "0 \<le> y" and "y < 1000"
    and "dto_dateOfBirth dto = JString s" and "String_trim s = ISO_date_string y m d"
    and "parse (ISO_date_string y m d) = Some (utc_midnight y m d)"
    and "dto_name dto = JString nm" and "String_trim nm \<noteq> []"
  shows "create parse dto st = (Inl (BadRequestException INVALID_DATE_OF_BIRTH_MESSAGE), st)"
proof -
  have ne: "String_trim s \<noteq> []"
    by (simp add: assms(5) ISO_date_string_def)
  have "dateOfBirth_rejected (dto_dateOfBirth dto) (parseDateOfBirth parse (dto_dateOfBirth dto))"
    unfolding assms(4) rejected_iff
    using ne format_utc_midnight_early[OF assms(1,2,3)]
    by (simp add: assms(5,6))
  then show ?thesis
    by (rule create_date_error[OF assms(7,8)])
qed

text \<open>
  With the parser \<open>Date_parse\<close>, whatever the fallback of the engine: every real calendar date of the years 1000 to 9999 in
  its ISO form is accepted by \<open>create\<close>, and every one of the years 0 to 999 is
  rejected.
\<close>

lemma real_date_day_le_31: "real_calendar_date y m d \<Longrightarrow> d \<le> 31"
  by (auto simp: real_calendar_date_def DaysInMonth_def split: if_splits)

lemma Date_parse_real_date:
  assumes "real_calendar_date y m d" and "0 \<le> y" and "y \<le> 9999"
  shows "Date_parse legacy (ISO_date_string y m d) = Some (utc_midnight y m d)"
  using assms real_date_day_le_31[OF assms(1)]
  by (intro Date_parse_ISO) (simp_all add: real_calendar_date_def)

lemma create_accepts_from_1000:
  assumes "real_calendar_date y m d" and "1000 \<le> y" and "y \<le> 9999"
    and "dto_dateOfBirth dto = JString s" and "String_trim s = ISO_date_string y m d"
    and "dto_name dto = JString nm" and "String_trim nm \<noteq> []"
    and "dto_sex dto = JUndefined \<or> dto_sex dto = JNull \<or> is_string (dto_sex dto)"
    and "dto_phoneNumber dto = JUndefined \<or> dto_phoneNumber dto = JNull \<or> is_string (dto_phoneNumber dto)"
    and "dto_address dto = JUndefined \<or> dto_address dto = JNull \<or> is_string (dto_address dto)"
  shows "\<exists>it st'. create (Date_parse legacy) dto st = (Inr it, st') \<and>
           dateOfBirth it = Some (utc_midnight y m d) \<and> rows st' = rows st @ [it]"
proof -
  have p: "Date_parse legacy (ISO_date_string y m d) = Some (utc_midnight y m d)"
    using assms(1,2,3) by (intro Date_parse_real_date) simp_all
  from real_date_accepted[where parse = "Date_parse legacy" and st = st, OF assms(1,2,4,5) p]
  show ?thesis
    using assms(6,7,8,9,10) by blast
qed

lemma create_rejects_below_1000:
  assumes "real_calendar_date y m d" and "0 \<le> y" and "y < 1000"
    and "dto_dateOfBirth dto = JString s" and "String_trim s = ISO_date_string y m d"
    and "dto_name dto = JString nm" and "String_trim nm \<noteq> []"
  shows "create (Date_parse legacy) dto st = (Inl (BadRequestException INVALID_DATE_OF_BIRTH_MESSAGE), st)"
proof -
  have p: "Date_parse legacy (ISO_date_string y m d) = Some (utc_midnight y m d)"
    using assms(1,2,3) by (intro Date_parse_real_date) simp_all
  show ?thesis
    by (rule early_year_rejected[where parse = "Date_parse legacy", OF assms(1,2,3,4,5) p assms(6,7)])
qed

text \<open>
  Claim C2. \<open>formatDateToISODateString\<close> does not pad the year to four digits, so a
  date before the year 1000 does not survive the round trip: \<open>0999-12-31\<close> is read as
  the last day of the year 999, formatted as \<open>999-12-31\<close>, and \<open>create\<close> rejects it
  with the date validation error. The date \<open>1990-01-15\<close> is accepted and stored as
  that day.
\<close>

theorem create_rejects_early_year:
  "\<forall>legacy.
   (Date_parse legacy) ''0999-12-31'' = Some (- 30610310400000) \<and>
    formatDateToISODateString (- 30610310400000) = ''999-12-31'' \<and>
    fst (create (Date_parse legacy)
           (empty_dto\<lparr> dto_name := JString ''Test'', dto_dateOfBirth := JString ''0999-12-31'' \<rparr>)
           (store_with []))
      = Inl (BadRequestException INVALID_DATE_OF_BIRTH_MESSAGE) \<and>
    map dateOfBirth (rows (snd (create (Date_parse legacy)
           (empty_dto\<lparr> dto_name := JString ''Test'', dto_dateOfBirth := JString ''1990-01-15'' \<rparr>)
           (store_with []))))
      = [Some 632361600000] \<and>
    formatDateToISODateString 632361600000 = ''1990-01-15''"
  by (intro allI) code_simp


end
